theory Spec2Isabelle
  imports Main "HOL-Library.Word"
begin

unbundle bit_operations_syntax

section \<open>Bytes, byte order and memory\<close>

text \<open>
  The router of \<^verbatim>\<open>sr_router.c\<close> works on raw buffers through struct pointers. A buffer is
  modelled as the memory reachable from its pointer: a function from byte offsets to bytes.
  The number of valid bytes travels beside it, as the \<^verbatim>\<open>length\<close> argument does in C. Bytes
  that the code never wrote (fresh \<^verbatim>\<open>malloc\<close> memory, or memory behind the valid bytes) are
  indeterminate: they are whatever the memory function holds there.
\<close>

type_synonym byte = "8 word"
type_synonym mem = "nat \<Rightarrow> byte"

definition hi8 :: "16 word \<Rightarrow> byte" where
  "hi8 w = ucast (drop_bit 8 w)"

definition lo8 :: "16 word \<Rightarrow> byte" where
  "lo8 w = ucast w"

definition be16 :: "byte \<Rightarrow> byte \<Rightarrow> 16 word" where
  "be16 a b = push_bit 8 (ucast a) OR ucast b"

definition byte3 :: "32 word \<Rightarrow> byte" where
  "byte3 w = ucast (drop_bit 24 w)"

definition byte2 :: "32 word \<Rightarrow> byte" where
  "byte2 w = ucast (drop_bit 16 w)"

definition byte1 :: "32 word \<Rightarrow> byte" where
  "byte1 w = ucast (drop_bit 8 w)"

definition byte0 :: "32 word \<Rightarrow> byte" where
  "byte0 w = ucast w"

definition be32 :: "byte \<Rightarrow> byte \<Rightarrow> byte \<Rightarrow> byte \<Rightarrow> 32 word" where
  "be32 a b c d =
     push_bit 24 (ucast a) OR push_bit 16 (ucast b) OR push_bit 8 (ucast c) OR ucast d"

text \<open>
  A multi-byte protocol field lies in memory in network byte order. The model keeps the
  value of such a field as the number its bytes denote in network order, which is what
  \<^verbatim>\<open>ntohs\<close>/\<^verbatim>\<open>ntohl\<close> of the field yield on every host, and what \<^verbatim>\<open>htons\<close>/\<^verbatim>\<open>htonl\<close>
  store. Fields that the code copies or compares without conversion are copied and
  compared as these values, since the host's reading of four bytes is a bijection.
  Where the code computes with a field it did not convert, the host's byte order matters:
  \<open>raw32 e w\<close> is the \<^verbatim>\<open>uint32_t\<close> that a host of byte order \<open>e\<close> loads from a field
  whose bytes denote \<open>w\<close> in network order.
\<close>

datatype byte_order = BigEndian | LittleEndian

definition bswap32 :: "32 word \<Rightarrow> 32 word" where
  "bswap32 w = be32 (byte0 w) (byte1 w) (byte2 w) (byte3 w)"

definition raw32 :: "byte_order \<Rightarrow> 32 word \<Rightarrow> 32 word" where
  "raw32 e w = (case e of BigEndian \<Rightarrow> w | LittleEndian \<Rightarrow> bswap32 w)"

definition ntohl :: "byte_order \<Rightarrow> 32 word \<Rightarrow> 32 word" where
  "ntohl e x = (case e of BigEndian \<Rightarrow> x | LittleEndian \<Rightarrow> bswap32 x)"

definition get8 :: "mem \<Rightarrow> nat \<Rightarrow> byte" where
  "get8 m a = m a"

definition get16 :: "mem \<Rightarrow> nat \<Rightarrow> 16 word" where
  "get16 m a = be16 (m a) (m (a + 1))"

definition get32 :: "mem \<Rightarrow> nat \<Rightarrow> 32 word" where
  "get32 m a = be32 (m a) (m (a + 1)) (m (a + 2)) (m (a + 3))"

definition put8 :: "mem \<Rightarrow> nat \<Rightarrow> byte \<Rightarrow> mem" where
  "put8 m a v = m(a := v)"

definition put16 :: "mem \<Rightarrow> nat \<Rightarrow> 16 word \<Rightarrow> mem" where
  "put16 m a v = m(a := hi8 v, a + 1 := lo8 v)"

definition put32 :: "mem \<Rightarrow> nat \<Rightarrow> 32 word \<Rightarrow> mem" where
  "put32 m a v = m(a := byte3 v, a + 1 := byte2 v, a + 2 := byte1 v, a + 3 := byte0 v)"

text \<open>\<^verbatim>\<open>memcpy(dst + d, src + s, n)\<close> and \<^verbatim>\<open>memset(dst + d, v, n)\<close>.\<close>

definition memcpy :: "mem \<Rightarrow> nat \<Rightarrow> mem \<Rightarrow> nat \<Rightarrow> nat \<Rightarrow> mem" where
  "memcpy dst d src s n = (\<lambda>i. if d \<le> i \<and> i < d + n then src (s + (i - d)) else dst i)"

definition memset :: "mem \<Rightarrow> nat \<Rightarrow> byte \<Rightarrow> nat \<Rightarrow> mem" where
  "memset dst d v n = (\<lambda>i. if d \<le> i \<and> i < d + n then v else dst i)"

text \<open>The memory seen through \<^verbatim>\<open>pointer + k\<close>, and the \<open>n\<close> bytes at offset \<open>a\<close>.\<close>

definition ptr_add :: "mem \<Rightarrow> nat \<Rightarrow> mem" where
  "ptr_add m k = (\<lambda>i. m (k + i))"

definition bytes :: "mem \<Rightarrow> nat \<Rightarrow> nat \<Rightarrow> byte list" where
  "bytes m a n = map (\<lambda>i. m (a + i)) [0..<n]"

definition bytes16 :: "16 word \<Rightarrow> byte list" where
  "bytes16 w = [hi8 w, lo8 w]"

definition bytes32 :: "32 word \<Rightarrow> byte list" where
  "bytes32 w = [byte3 w, byte2 w, byte1 w, byte0 w]"

text \<open>An Ethernet address: \<^verbatim>\<open>uint8_t[ETHER_ADDR_LEN]\<close>, six bytes.\<close>

datatype mac = Mac byte byte byte byte byte byte

fun mac_bytes :: "mac \<Rightarrow> byte list" where
  "mac_bytes (Mac a b c d e f) = [a, b, c, d, e, f]"

definition getmac :: "mem \<Rightarrow> nat \<Rightarrow> mac" where
  "getmac m a = Mac (m a) (m (a + 1)) (m (a + 2)) (m (a + 3)) (m (a + 4)) (m (a + 5))"

fun putmac :: "mem \<Rightarrow> nat \<Rightarrow> mac \<Rightarrow> mem" where
  "putmac m a (Mac b0 b1 b2 b3 b4 b5) =
     m(a := b0, a + 1 := b1, a + 2 := b2, a + 3 := b3, a + 4 := b4, a + 5 := b5)"

declare putmac.simps [simp del]

definition broadcastEthernetAddress :: mac where
  "broadcastEthernetAddress = Mac 0xFF 0xFF 0xFF 0xFF 0xFF 0xFF"

section \<open>Wire formats\<close>

text \<open>
  Modelled from the spec: the struct layouts of \<^verbatim>\<open>sr_protocol.h\<close>, which is not among the
  sources. The offsets are those of the wire formats of section 4.1 of the specification:
  Ethernet (14 bytes), ARP over Ethernet and IPv4 (28 bytes), the IPv4 header (20 bytes
  without options), the ICMP header and the ICMP type 3 header (36 bytes: type, code,
  checksum, a 32-bit unused and next-hop-MTU word, 28 bytes of data). Each constant is the
  offset of the field of that name.
\<close>

definition sizeof_sr_ethernet_hdr :: nat where "sizeof_sr_ethernet_hdr = 14"
definition sizeof_sr_arp_hdr :: nat where "sizeof_sr_arp_hdr = 28"
definition sizeof_sr_ip_hdr :: nat where "sizeof_sr_ip_hdr = 20"
definition sizeof_sr_icmp_t3_hdr :: nat where "sizeof_sr_icmp_t3_hdr = 36"
definition ICMP_DATA_SIZE :: nat where "ICMP_DATA_SIZE = 28"

definition ether_dhost :: nat where "ether_dhost = 0"
definition ether_shost :: nat where "ether_shost = 6"
definition ether_type :: nat where "ether_type = 12"

definition ar_hrd :: nat where "ar_hrd = 0"
definition ar_pro :: nat where "ar_pro = 2"
definition ar_hln :: nat where "ar_hln = 4"
definition ar_pln :: nat where "ar_pln = 5"
definition ar_op :: nat where "ar_op = 6"
definition ar_sha :: nat where "ar_sha = 8"
definition ar_sip :: nat where "ar_sip = 14"
definition ar_tha :: nat where "ar_tha = 18"
definition ar_tip :: nat where "ar_tip = 24"

definition ip_vhl :: nat where "ip_vhl = 0"
definition ip_tos :: nat where "ip_tos = 1"
definition ip_len :: nat where "ip_len = 2"
definition ip_id :: nat where "ip_id = 4"
definition ip_off :: nat where "ip_off = 6"
definition ip_ttl :: nat where "ip_ttl = 8"
definition ip_p :: nat where "ip_p = 9"
definition ip_sum :: nat where "ip_sum = 10"
definition ip_src :: nat where "ip_src = 12"
definition ip_dst :: nat where "ip_dst = 16"

definition icmp_type :: nat where "icmp_type = 0"
definition icmp_code :: nat where "icmp_code = 1"
definition icmp_sum :: nat where "icmp_sum = 2"
definition icmp_t3_data :: nat where "icmp_t3_data = 8"

text \<open>
  The bit fields \<^verbatim>\<open>ip_v\<close> and \<^verbatim>\<open>ip_hl\<close> share the first byte of the header: the version
  is its high nibble, the header length (in 32-bit words) its low nibble.
\<close>

definition get_ip_v :: "mem \<Rightarrow> nat \<Rightarrow> byte" where
  "get_ip_v m p = drop_bit 4 (m (p + ip_vhl))"

definition get_ip_hl :: "mem \<Rightarrow> nat \<Rightarrow> byte" where
  "get_ip_hl m p = m (p + ip_vhl) AND 0x0F"

definition set_ip_v :: "mem \<Rightarrow> nat \<Rightarrow> byte \<Rightarrow> mem" where
  "set_ip_v m p v = m(p + ip_vhl := push_bit 4 v OR (m (p + ip_vhl) AND 0x0F))"

definition set_ip_hl :: "mem \<Rightarrow> nat \<Rightarrow> byte \<Rightarrow> mem" where
  "set_ip_hl m p h = m(p + ip_vhl := (m (p + ip_vhl) AND 0xF0) OR (h AND 0x0F))"

text \<open>\<^verbatim>\<open>GET_IP_HEADER_LENGTH(pktPtr)\<close>: the header length in bytes.\<close>

definition GET_IP_HEADER_LENGTH :: "mem \<Rightarrow> nat \<Rightarrow> nat" where
  "GET_IP_HEADER_LENGTH m p = unat (get_ip_hl m p) * 4"

definition MIN_IP_HEADER_LENGTH :: byte where "MIN_IP_HEADER_LENGTH = 5"
definition DEFAULT_TTL :: byte where "DEFAULT_TTL = 64"
definition SUPPORTED_IP_VERSION :: byte where "SUPPORTED_IP_VERSION = 4"

definition ethertype_arp :: "16 word" where "ethertype_arp = 0x0806"
definition ethertype_ip :: "16 word" where "ethertype_ip = 0x0800"
definition arp_hrd_ethernet :: "16 word" where "arp_hrd_ethernet = 1"
definition arp_op_request :: "16 word" where "arp_op_request = 1"
definition arp_op_reply :: "16 word" where "arp_op_reply = 2"
definition ETHER_ADDR_LEN :: byte where "ETHER_ADDR_LEN = 6"
definition IP_ADDR_LEN :: byte where "IP_ADDR_LEN = 4"
definition IP_DF :: "16 word" where "IP_DF = 0x4000"
definition ip_protocol_icmp :: byte where "ip_protocol_icmp = 1"
definition icmp_type_echo_reply :: byte where "icmp_type_echo_reply = 0"
definition icmp_type_desination_unreachable :: byte where "icmp_type_desination_unreachable = 3"
definition icmp_type_echo_request :: byte where "icmp_type_echo_request = 8"
definition icmp_type_time_exceeded :: byte where "icmp_type_time_exceeded = 11"
definition icmp_code_destination_host_unreachable :: byte where
  "icmp_code_destination_host_unreachable = 1"
definition icmp_code_destination_port_unreachable :: byte where
  "icmp_code_destination_port_unreachable = 3"

text \<open>
  Modelled from the spec: \<^verbatim>\<open>cksum\<close> of \<^verbatim>\<open>sr_utils.c\<close>, which is not among the sources: the
  16-bit one's-complement checksum of section 4.1 over the given bytes, taken as
  big-endian 16-bit words (an odd last byte is padded with a zero byte), the carries
  folded back twice, which is enough below 128 KiB. The result is the value of the
  checksum field in network order. No theorem below unfolds it: they hold for any
  checksum function.
\<close>

fun sum16 :: "byte list \<Rightarrow> nat" where
  "sum16 [] = 0"
| "sum16 [a] = unat (be16 a 0)"
| "sum16 (a # b # rest) = unat (be16 a b) + sum16 rest"

definition fold_carry :: "nat \<Rightarrow> nat" where
  "fold_carry s = s mod 65536 + s div 65536"

definition cksum :: "byte list \<Rightarrow> 16 word" where
  "cksum bs = NOT (word_of_nat (fold_carry (fold_carry (sum16 bs))))"

section \<open>Router state and environment\<close>

text \<open>
  IPv4 addresses in these records (\<^verbatim>\<open>uint32_t ip\<close>, \<^verbatim>\<open>struct in_addr\<close>) are fields in
  network byte order, kept as described above. The ARP cache is keyed by addresses in
  host byte order (\<^verbatim>\<open>ntohl\<close> of a field), which is the same number.
\<close>

record sr_if =
  if_name :: string
  if_addr :: mac
  if_ip :: "32 word"

record sr_rt =
  rt_dest :: "32 word"
  rt_gw :: "32 word"
  rt_mask :: "32 word"
  rt_interface :: string

record sr_packet =
  pkt_buf :: mem
  pkt_len :: nat
  pkt_iface :: string

record sr_arpreq =
  req_ip :: "32 word"
  req_sent :: nat
  req_times_sent :: nat
  req_packets :: "sr_packet list"
  req_requestedInterface :: "sr_if option"

record sr_arpentry =
  ent_mac :: mac
  ent_ip :: "32 word"
  ent_added :: nat

record sr_arpcache =
  entries :: "sr_arpentry list"
  requests :: "sr_arpreq list"

text \<open>
  \<^verbatim>\<open>struct sr_instance\<close>, with the file-level counter \<^verbatim>\<open>ipIdentifyNumber\<close> of
  \<^verbatim>\<open>sr_router.c\<close> as a field.
\<close>

record sr_instance =
  if_list :: "sr_if list"
  routing_table :: "sr_rt list"
  cache :: sr_arpcache
  ipIdentifyNumber :: "16 word"

text \<open>
  What the platform decides: the host's byte order, \<^verbatim>\<open>sizeof(sr_icmp_hdr_t)\<close> (declared in
  the missing \<^verbatim>\<open>sr_protocol.h\<close>), the indeterminate content of memory that \<^verbatim>\<open>malloc\<close>
  returns, and the clock read by \<^verbatim>\<open>time(NULL)\<close>.
\<close>

record env =
  host_order :: byte_order
  sizeof_sr_icmp_hdr :: nat
  fresh_memory :: mem
  time_now :: nat

definition malloc :: "env \<Rightarrow> nat \<Rightarrow> mem" where
  "malloc E n = fresh_memory E"

text \<open>
  A call ends in a fault where the C program stops: a failed \<^verbatim>\<open>assert\<close>, a dereferenced
  null pointer, or a \<^verbatim>\<open>memcpy\<close> whose size went below zero and wrapped around. Otherwise
  it returns the new router state and the frames handed to \<^verbatim>\<open>sr_send_packet\<close>, in order.
\<close>

datatype fault = Assertion_Failed | Null_Dereference | Invalid_Copy_Size

type_synonym frame = "byte list \<times> string"
type_synonym result = "fault + sr_instance \<times> frame list"

text \<open>
  Modelled from the spec: \<^verbatim>\<open>sr_send_packet\<close> of the NIC transport (section 6), which
  transmits the first \<open>len\<close> bytes of the buffer on the named interface.
\<close>

definition sr_send_packet :: "mem \<Rightarrow> nat \<Rightarrow> string \<Rightarrow> frame" where
  "sr_send_packet buf len iface = (bytes buf 0 len, iface)"

text \<open>
  Modelled from the spec: \<^verbatim>\<open>sr_get_interface\<close> (\<^verbatim>\<open>sr_if.c\<close>, missing), the interface
  registered under a name (section 4.2, \<^verbatim>\<open>lookup_interface\<close>).
\<close>

definition sr_get_interface :: "sr_instance \<Rightarrow> string \<Rightarrow> sr_if option" where
  "sr_get_interface sr name = find (\<lambda>i. if_name i = name) (if_list sr)"

text \<open>
  Modelled from the spec: \<^verbatim>\<open>sr_get_rt\<close> (\<^verbatim>\<open>sr_rt.c\<close>, missing). The specification does not
  describe it; the call \<^verbatim>\<open>sr_get_rt(sr, interface->name)\<close> gives it the router and an
  interface name only, and the model returns the first route of the table registered for
  that interface, or null.
\<close>

definition sr_get_rt :: "sr_instance \<Rightarrow> string \<Rightarrow> sr_rt option" where
  "sr_get_rt sr name = find (\<lambda>r. rt_interface r = name) (routing_table sr)"

subsection \<open>The ARP cache\<close>

text \<open>
  Modelled from the spec: the ARP cache of \<^verbatim>\<open>sr_arpcache.c\<close>, which is not among the
  sources, after section 4.3. The list \<open>entries\<close> holds the resolved entries that have
  not been evicted; \<open>requests\<close> holds the pending requests.

  \<open>sr_arpcache_lookup\<close>: the entry for an address, if there is one.
\<close>

definition sr_arpcache_lookup :: "sr_arpcache \<Rightarrow> 32 word \<Rightarrow> sr_arpentry option" where
  "sr_arpcache_lookup c ip = find (\<lambda>e. ent_ip e = ip) (entries c)"

text \<open>
  Modelled from the spec: \<open>sr_arpcache_queuereq\<close>. If no request exists for the address
  it creates one with a send count of zero; it appends the frame to the request's pending
  list; it returns the request. The caller updates the request through the returned
  pointer, which \<open>sr_arpcache_store\<close> writes back.
\<close>

definition sr_arpcache_queuereq ::
  "sr_arpcache \<Rightarrow> 32 word \<Rightarrow> mem \<Rightarrow> nat \<Rightarrow> string \<Rightarrow> sr_arpreq \<times> sr_arpcache" where
  "sr_arpcache_queuereq c ip packet len iface =
     (let new_pkt = \<lparr>pkt_buf = packet, pkt_len = len, pkt_iface = iface\<rparr>
      in case find (\<lambda>r. req_ip r = ip) (requests c) of
           None \<Rightarrow>
             (let req = \<lparr>req_ip = ip, req_sent = 0, req_times_sent = 0,
                         req_packets = [new_pkt], req_requestedInterface = None\<rparr>
              in (req, c\<lparr>requests := req # requests c\<rparr>))
         | Some r \<Rightarrow>
             (let req = r\<lparr>req_packets := req_packets r @ [new_pkt]\<rparr>
              in (req, c\<lparr>requests := map (\<lambda>x. if req_ip x = ip then req else x) (requests c)\<rparr>)))"

definition sr_arpcache_store :: "sr_arpcache \<Rightarrow> sr_arpreq \<Rightarrow> sr_arpcache" where
  "sr_arpcache_store c req =
     c\<lparr>requests := map (\<lambda>x. if req_ip x = req_ip req then req else x) (requests c)\<rparr>"

text \<open>
  Modelled from the spec: \<open>sr_arpcache_insert\<close> installs or refreshes the entry of the
  address. If a request exists for it, the request is detached from the pending list and
  returned; otherwise none is.
\<close>

definition sr_arpcache_insert ::
  "env \<Rightarrow> sr_arpcache \<Rightarrow> mac \<Rightarrow> 32 word \<Rightarrow> sr_arpreq option \<times> sr_arpcache" where
  "sr_arpcache_insert E c m ip =
     (find (\<lambda>r. req_ip r = ip) (requests c),
      c\<lparr>entries := \<lparr>ent_mac = m, ent_ip = ip, ent_added = time_now E\<rparr>
                      # filter (\<lambda>e. ent_ip e \<noteq> ip) (entries c),
        requests := filter (\<lambda>r. req_ip r \<noteq> ip) (requests c)\<rparr>)"

text \<open>
  Modelled from the spec: \<open>sr_arpreq_destroy\<close> removes a request and its queued frames
  without sending them.
\<close>

definition sr_arpreq_destroy :: "sr_arpcache \<Rightarrow> sr_arpreq \<Rightarrow> sr_arpcache" where
  "sr_arpreq_destroy c req = c\<lparr>requests := filter (\<lambda>r. req_ip r \<noteq> req_ip req) (requests c)\<rparr>"

section \<open>Route selection\<close>

text \<open>\<^verbatim>\<open>networkGetMaskLength\<close>: the loop, then the function.\<close>

function maskLoop :: "32 word \<Rightarrow> 32 word \<Rightarrow> int \<Rightarrow> int" where
  "maskLoop msk bitScanner ret =
     (if bitScanner \<noteq> 0 \<and> (bitScanner AND msk) \<noteq> 0
      then maskLoop msk (drop_bit 1 bitScanner) (ret + 1)
      else ret)"
  by pat_completeness auto
termination
  by (relation "measure (\<lambda>(m, b, r). unat b)")
     (simp_all add: drop_bit_eq_div unat_div unat_gt_0)

declare maskLoop.simps [simp del]

definition networkGetMaskLength :: "32 word \<Rightarrow> int" where
  "networkGetMaskLength msk = maskLoop msk 0x80000000 0"

text \<open>
  \<^verbatim>\<open>networkGetPacketRoute\<close>. The source passes \<^verbatim>\<open>routeIter->mask.s_addr\<close> as it is loaded,
  without \<^verbatim>\<open>ntohl\<close>, both to \<^verbatim>\<open>networkGetMaskLength\<close> and to the two maskings, while the
  packet's destination and the route's destination go through \<^verbatim>\<open>ntohl\<close>.
\<close>

fun routeLoop :: "byte_order \<Rightarrow> 32 word \<Rightarrow> sr_rt list \<Rightarrow> sr_rt option \<Rightarrow> int \<Rightarrow> sr_rt option" where
  "routeLoop e dst [] ret networkMaskLength = ret"
| "routeLoop e dst (routeIter # rest) ret networkMaskLength =
     (if networkGetMaskLength (raw32 e (rt_mask routeIter)) > networkMaskLength
      then (if (dst AND raw32 e (rt_mask routeIter))
               = (rt_dest routeIter AND raw32 e (rt_mask routeIter))
            then routeLoop e dst rest (Some routeIter)
                   (networkGetMaskLength (raw32 e (rt_mask routeIter)))
            else routeLoop e dst rest ret networkMaskLength)
      else routeLoop e dst rest ret networkMaskLength)"

definition networkGetPacketRoute :: "env \<Rightarrow> sr_instance \<Rightarrow> mem \<Rightarrow> sr_rt option" where
  "networkGetPacketRoute E sr packet =
     routeLoop (host_order E) (get32 packet ip_dst) (routing_table sr) None (- 1)"

text \<open>\<^verbatim>\<open>networkIpDesinationIsUs\<close> and \<^verbatim>\<open>networkIpSourceIsUs\<close>: the same loop over the
  interface list, on the destination and on the source address.\<close>

fun interfaceLoop :: "32 word \<Rightarrow> sr_if list \<Rightarrow> bool" where
  "interfaceLoop ip [] = False"
| "interfaceLoop ip (interfaceIterator # rest) =
     (if ip = if_ip interfaceIterator then True else interfaceLoop ip rest)"

definition networkIpDesinationIsUs :: "sr_instance \<Rightarrow> mem \<Rightarrow> bool" where
  "networkIpDesinationIsUs sr packet = interfaceLoop (get32 packet ip_dst) (if_list sr)"

definition networkIpSourceIsUs :: "sr_instance \<Rightarrow> mem \<Rightarrow> bool" where
  "networkIpSourceIsUs sr packet = interfaceLoop (get32 packet ip_src) (if_list sr)"

section \<open>The link layer\<close>

text \<open>\<^verbatim>\<open>LinkSendArpRequest\<close>: the broadcast ARP request for a pending request.\<close>

definition LinkSendArpRequest :: "env \<Rightarrow> sr_arpreq \<Rightarrow> fault + frame" where
  "LinkSendArpRequest E request =
     (case req_requestedInterface request of
        None \<Rightarrow> Inl Null_Dereference
      | Some requestedInterface \<Rightarrow>
          (let arpPacket = malloc E (sizeof_sr_ethernet_hdr + sizeof_sr_arp_hdr);
               ethernetHdr = 0;
               arpHdr = sizeof_sr_ethernet_hdr;
               arpPacket = putmac arpPacket (ethernetHdr + ether_dhost) broadcastEthernetAddress;
               arpPacket = putmac arpPacket (ethernetHdr + ether_shost) (if_addr requestedInterface);
               arpPacket = put16 arpPacket (ethernetHdr + ether_type) ethertype_arp;
               arpPacket = put16 arpPacket (arpHdr + ar_hrd) arp_hrd_ethernet;
               arpPacket = put16 arpPacket (arpHdr + ar_pro) ethertype_ip;
               arpPacket = put8 arpPacket (arpHdr + ar_hln) ETHER_ADDR_LEN;
               arpPacket = put8 arpPacket (arpHdr + ar_pln) IP_ADDR_LEN;
               arpPacket = put16 arpPacket (arpHdr + ar_op) arp_op_request;
               arpPacket = putmac arpPacket (arpHdr + ar_sha) (if_addr requestedInterface);
               arpPacket = put32 arpPacket (arpHdr + ar_sip) (if_ip requestedInterface);
               arpPacket = memset arpPacket (arpHdr + ar_tha) 0 6;
               arpPacket = put32 arpPacket (arpHdr + ar_tip) (req_ip request)
           in Inr (sr_send_packet arpPacket (sizeof_sr_ethernet_hdr + sizeof_sr_arp_hdr)
                     (if_name requestedInterface))))"

text \<open>
  \<^verbatim>\<open>linkArpAndSendPacket\<close>. Its first line computes the next hop,
  \<^verbatim>\<open>nextHopIpAddress = ntohl(sr_get_rt(sr, interface->name)->gw.s_addr)\<close>, from the
  interface alone; there is none where \<^verbatim>\<open>sr_get_rt\<close> returns null, and the dereference
  stops the program.
\<close>

definition nextHopIpAddress :: "sr_instance \<Rightarrow> sr_if \<Rightarrow> 32 word option" where
  "nextHopIpAddress sr interface = map_option rt_gw (sr_get_rt sr (if_name interface))"

definition linkArpAndSendPacket :: "env \<Rightarrow> sr_instance \<Rightarrow> mem \<Rightarrow> nat \<Rightarrow> sr_if \<Rightarrow> result" where
  "linkArpAndSendPacket E sr packet len interface =
     (case nextHopIpAddress sr interface of
        None \<Rightarrow> Inl Null_Dereference
      | Some nextHop \<Rightarrow>
          (let arpEntry = sr_arpcache_lookup (cache sr) nextHop;
               packet = put16 packet ether_type ethertype_ip;
               packet = putmac packet ether_shost (if_addr interface)
           in case arpEntry of
                Some entry \<Rightarrow>
                  (let packet = putmac packet ether_dhost (ent_mac entry)
                   in Inr (sr, [sr_send_packet packet len (if_name interface)]))
              | None \<Rightarrow>
                  (let (arpRequestPtr, c) =
                         sr_arpcache_queuereq (cache sr) nextHop packet len (if_name interface)
                   in if req_times_sent arpRequestPtr = 0
                      then (let arpRequestPtr =
                                  arpRequestPtr\<lparr>req_requestedInterface := Some interface\<rparr>
                            in case LinkSendArpRequest E arpRequestPtr of
                                 Inl f \<Rightarrow> Inl f
                               | Inr sent \<Rightarrow>
                                   (let arpRequestPtr = arpRequestPtr\<lparr>req_times_sent := 1\<rparr>;
                                        arpRequestPtr = arpRequestPtr\<lparr>req_sent := time_now E\<rparr>
                                    in Inr (sr\<lparr>cache := sr_arpcache_store c arpRequestPtr\<rparr>,
                                            [sent])))
                      else Inr (sr\<lparr>cache := c\<rparr>, []))))"

section \<open>ICMP destination unreachable\<close>

text \<open>\<^verbatim>\<open>NetworkSendTypeThreeIcmpPacket\<close>.\<close>

definition NetworkSendTypeThreeIcmpPacket :: "env \<Rightarrow> sr_instance \<Rightarrow> byte \<Rightarrow> mem \<Rightarrow> result" where
  "NetworkSendTypeThreeIcmpPacket E sr icmpCode originalPacketPtr =
     (let replyPacket =
            malloc E (sizeof_sr_ethernet_hdr + sizeof_sr_ip_hdr + sizeof_sr_icmp_t3_hdr);
          replyIpHeader = sizeof_sr_ethernet_hdr;
          replyIcmpHeader = replyIpHeader + sizeof_sr_ip_hdr
      in if networkIpSourceIsUs sr originalPacketPtr then Inr (sr, [])
         else
           (let replyPacket = set_ip_v replyPacket replyIpHeader SUPPORTED_IP_VERSION;
                replyPacket = set_ip_hl replyPacket replyIpHeader MIN_IP_HEADER_LENGTH;
                replyPacket = put8 replyPacket (replyIpHeader + ip_tos) 0;
                replyPacket = put16 replyPacket (replyIpHeader + ip_len)
                                (word_of_nat (sizeof_sr_ip_hdr + sizeof_sr_icmp_t3_hdr));
                replyPacket = put16 replyPacket (replyIpHeader + ip_id) (ipIdentifyNumber sr);
                sr = sr\<lparr>ipIdentifyNumber := ipIdentifyNumber sr + 1\<rparr>;
                replyPacket = put16 replyPacket (replyIpHeader + ip_off) IP_DF;
                replyPacket = put8 replyPacket (replyIpHeader + ip_ttl) DEFAULT_TTL;
                replyPacket = put8 replyPacket (replyIpHeader + ip_p) ip_protocol_icmp;
                replyPacket = put16 replyPacket (replyIpHeader + ip_sum) 0;
                replyPacket = put32 replyPacket (replyIpHeader + ip_dst)
                                (get32 originalPacketPtr ip_src)
            in case networkGetPacketRoute E sr (ptr_add replyPacket replyIpHeader) of
                 None \<Rightarrow> Inl Assertion_Failed
               | Some icmpRoute \<Rightarrow>
                   (case sr_get_interface sr (rt_interface icmpRoute) of
                      None \<Rightarrow> Inl Assertion_Failed
                    | Some destinationInterface \<Rightarrow>
                        (let replyPacket = put32 replyPacket (replyIpHeader + ip_src)
                                             (if_ip destinationInterface);
                             replyPacket = put16 replyPacket (replyIpHeader + ip_sum)
                                (cksum (bytes replyPacket replyIpHeader
                                          (GET_IP_HEADER_LENGTH replyPacket replyIpHeader)));
                             replyPacket = put8 replyPacket (replyIcmpHeader + icmp_type)
                                             icmp_type_desination_unreachable;
                             replyPacket = put8 replyPacket (replyIcmpHeader + icmp_code) icmpCode;
                             replyPacket = put16 replyPacket (replyIcmpHeader + icmp_sum) 0;
                             replyPacket = memcpy replyPacket (replyIcmpHeader + icmp_t3_data)
                                             originalPacketPtr 0 ICMP_DATA_SIZE;
                             replyPacket = put16 replyPacket (replyIcmpHeader + icmp_sum)
                                (cksum (bytes replyPacket replyIcmpHeader sizeof_sr_icmp_t3_hdr))
                         in linkArpAndSendPacket E sr replyPacket
                              (sizeof_sr_ethernet_hdr + sizeof_sr_ip_hdr + sizeof_sr_icmp_t3_hdr)
                              destinationInterface))))"

section \<open>ARP ingress\<close>

text \<open>The loop of \<^verbatim>\<open>linkHandleReceivedArpPacket\<close> that sends the frames queued on a
  resolved request, from the head of the list.\<close>

fun sendQueuedPackets :: "mac \<Rightarrow> sr_packet list \<Rightarrow> frame list" where
  "sendQueuedPackets sha [] = []"
| "sendQueuedPackets sha (current # rest) =
     sr_send_packet (putmac (pkt_buf current) ether_dhost sha) (pkt_len current)
       (pkt_iface current)
       # sendQueuedPackets sha rest"

definition linkHandleReceivedArpPacket ::
  "env \<Rightarrow> sr_instance \<Rightarrow> mem \<Rightarrow> nat \<Rightarrow> sr_if \<Rightarrow> result" where
  "linkHandleReceivedArpPacket E sr packet len interface =
     (if len < sizeof_sr_arp_hdr then Inr (sr, [])
      else if get16 packet ar_pro \<noteq> ethertype_ip
              \<or> get16 packet ar_hrd \<noteq> arp_hrd_ethernet
              \<or> get8 packet ar_pln \<noteq> IP_ADDR_LEN
              \<or> get8 packet ar_hln \<noteq> ETHER_ADDR_LEN
      then Inr (sr, [])
      else if get16 packet ar_op = arp_op_request
      then (if get32 packet ar_tip = if_ip interface
            then (let replyPacket = malloc E (sizeof_sr_ethernet_hdr + sizeof_sr_arp_hdr);
                      ethernetHdr = 0;
                      arpHdr = sizeof_sr_ethernet_hdr;
                      replyPacket = putmac replyPacket (ethernetHdr + ether_dhost)
                                      (getmac packet ar_sha);
                      replyPacket = putmac replyPacket (ethernetHdr + ether_shost)
                                      (if_addr interface);
                      replyPacket = put16 replyPacket (ethernetHdr + ether_type) ethertype_arp;
                      replyPacket = put16 replyPacket (arpHdr + ar_hrd) arp_hrd_ethernet;
                      replyPacket = put16 replyPacket (arpHdr + ar_pro) ethertype_ip;
                      replyPacket = put8 replyPacket (arpHdr + ar_hln) ETHER_ADDR_LEN;
                      replyPacket = put8 replyPacket (arpHdr + ar_pln) IP_ADDR_LEN;
                      replyPacket = put16 replyPacket (arpHdr + ar_op) arp_op_reply;
                      replyPacket = putmac replyPacket (arpHdr + ar_sha) (if_addr interface);
                      replyPacket = put32 replyPacket (arpHdr + ar_sip) (if_ip interface);
                      replyPacket = putmac replyPacket (arpHdr + ar_tha) (getmac packet ar_sha);
                      replyPacket = put32 replyPacket (arpHdr + ar_tip) (get32 packet ar_sip)
                  in Inr (sr, [sr_send_packet replyPacket
                                 (sizeof_sr_ethernet_hdr + sizeof_sr_arp_hdr)
                                 (if_name interface)]))
            else Inr (sr, []))
      else if get16 packet ar_op = arp_op_reply
      then (if get32 packet ar_tip = if_ip interface
            then (let (requestPointer, c) =
                        sr_arpcache_insert E (cache sr) (getmac packet ar_sha)
                          (get32 packet ar_sip)
                  in case requestPointer of
                       Some request \<Rightarrow>
                         Inr (sr\<lparr>cache := sr_arpreq_destroy c request\<rparr>,
                              sendQueuedPackets (getmac packet ar_sha) (req_packets request))
                     | None \<Rightarrow> Inr (sr\<lparr>cache := c\<rparr>, []))
            else Inr (sr, []))
      else Inr (sr, []))"

section \<open>IPv4 ingress\<close>

text \<open>
  \<^verbatim>\<open>networkHandleIcmpPacket\<close>. \<^verbatim>\<open>icmpLength\<close> is an \<^verbatim>\<open>int\<close> and may be negative; the
  \<^verbatim>\<open>memcpy\<close> of the payload takes \<^verbatim>\<open>icmpLength - sizeof(sr_icmp_hdr_t)\<close> as an unsigned
  size, which wraps around when the ICMP message is shorter than its header.
\<close>

definition networkHandleIcmpPacket ::
  "env \<Rightarrow> sr_instance \<Rightarrow> mem \<Rightarrow> nat \<Rightarrow> sr_if \<Rightarrow> result" where
  "networkHandleIcmpPacket E sr packet len interface =
     (let icmpHeader = GET_IP_HEADER_LENGTH packet 0;
          icmpLength = int len - int (GET_IP_HEADER_LENGTH packet 0);
          headerChecksum = get16 packet (icmpHeader + icmp_sum);
          packet = put16 packet (icmpHeader + icmp_sum) 0;
          calculatedChecksum = cksum (bytes packet icmpHeader (nat icmpLength))
      in if headerChecksum \<noteq> calculatedChecksum then Inr (sr, [])
         else if get8 packet (icmpHeader + icmp_type) = icmp_type_echo_request
         then
           (let replyPacket =
                  malloc E (nat (icmpLength + int sizeof_sr_ip_hdr + int sizeof_sr_ethernet_hdr));
                replyIpHeader = sizeof_sr_ethernet_hdr;
                replyIcmpHeader = replyIpHeader + sizeof_sr_ip_hdr;
                replyPacket = set_ip_v replyPacket replyIpHeader SUPPORTED_IP_VERSION;
                replyPacket = set_ip_hl replyPacket replyIpHeader MIN_IP_HEADER_LENGTH;
                replyPacket = put8 replyPacket (replyIpHeader + ip_tos) 0;
                replyPacket = put16 replyPacket (replyIpHeader + ip_len) (word_of_nat len);
                replyPacket = put16 replyPacket (replyIpHeader + ip_id) (ipIdentifyNumber sr);
                sr = sr\<lparr>ipIdentifyNumber := ipIdentifyNumber sr + 1\<rparr>;
                replyPacket = put16 replyPacket (replyIpHeader + ip_off) IP_DF;
                replyPacket = put8 replyPacket (replyIpHeader + ip_ttl) DEFAULT_TTL;
                replyPacket = put8 replyPacket (replyIpHeader + ip_p) ip_protocol_icmp;
                replyPacket = put16 replyPacket (replyIpHeader + ip_sum) 0;
                replyPacket = put32 replyPacket (replyIpHeader + ip_src) (get32 packet ip_dst);
                replyPacket = put32 replyPacket (replyIpHeader + ip_dst) (get32 packet ip_src);
                replyPacket = put16 replyPacket (replyIpHeader + ip_sum)
                                (cksum (bytes replyPacket replyIpHeader
                                          (GET_IP_HEADER_LENGTH replyPacket replyIpHeader)));
                replyPacket = put8 replyPacket (replyIcmpHeader + icmp_type) icmp_type_echo_reply;
                replyPacket = put8 replyPacket (replyIcmpHeader + icmp_code) 0;
                replyPacket = put16 replyPacket (replyIcmpHeader + icmp_sum) 0
            in if icmpLength < int (sizeof_sr_icmp_hdr E) then Inl Invalid_Copy_Size
               else
                 (let replyPacket =
                        memcpy replyPacket (replyIcmpHeader + sizeof_sr_icmp_hdr E)
                          packet (icmpHeader + sizeof_sr_icmp_hdr E)
                          (nat (icmpLength - int (sizeof_sr_icmp_hdr E)));
                      replyPacket = put16 replyPacket (replyIcmpHeader + icmp_sum)
                                      (cksum (bytes replyPacket replyIcmpHeader (nat icmpLength)))
                  in linkArpAndSendPacket E sr replyPacket (len + sizeof_sr_ethernet_hdr)
                       interface))
         else Inr (sr, []))"

text \<open>\<^verbatim>\<open>networkForwardIpPacket\<close>.\<close>

definition networkForwardIpPacket ::
  "env \<Rightarrow> sr_instance \<Rightarrow> mem \<Rightarrow> nat \<Rightarrow> sr_if \<Rightarrow> result" where
  "networkForwardIpPacket E sr packet len receivedInterface =
     (case networkGetPacketRoute E sr packet of
        None \<Rightarrow>
          NetworkSendTypeThreeIcmpPacket E sr icmp_code_destination_host_unreachable packet
      | Some forwardRoute \<Rightarrow>
          if rt_interface forwardRoute \<noteq> if_name receivedInterface
          then (case sr_get_interface sr (rt_interface forwardRoute) of
                  None \<Rightarrow> Inl Null_Dereference
                | Some forwardInterface \<Rightarrow>
                    (let forwardPacket = malloc E (len + sizeof_sr_ethernet_hdr);
                         forwardPacket = memcpy forwardPacket sizeof_sr_ethernet_hdr packet 0 len
                     in linkArpAndSendPacket E sr forwardPacket (len + sizeof_sr_ethernet_hdr)
                          forwardInterface))
          else NetworkSendTypeThreeIcmpPacket E sr icmp_code_destination_host_unreachable
                 packet)"

text \<open>
  The reply that \<^verbatim>\<open>networkHandleReceivedIpPacket\<close> builds when the TTL has run out (the
  assignments between its \<^verbatim>\<open>malloc\<close> and its call of \<^verbatim>\<open>linkArpAndSendPacket\<close>), for the
  packet whose TTL field has been set back to 1.
\<close>

definition timeExceededReply :: "env \<Rightarrow> sr_instance \<Rightarrow> mem \<Rightarrow> sr_if \<Rightarrow> mem" where
  "timeExceededReply E sr packet interface =
     (let replyPacket =
            malloc E (sizeof_sr_ethernet_hdr + sizeof_sr_ip_hdr + sizeof_sr_icmp_t3_hdr);
          replyIpHeader = sizeof_sr_ethernet_hdr;
          replyIcmpHeader = replyIpHeader + sizeof_sr_ip_hdr;
          replyPacket = set_ip_v replyPacket replyIpHeader SUPPORTED_IP_VERSION;
          replyPacket = set_ip_hl replyPacket replyIpHeader MIN_IP_HEADER_LENGTH;
          replyPacket = put8 replyPacket (replyIpHeader + ip_tos) 0;
          replyPacket = put16 replyPacket (replyIpHeader + ip_len)
                          (word_of_nat (sizeof_sr_ip_hdr + sizeof_sr_icmp_t3_hdr));
          replyPacket = put16 replyPacket (replyIpHeader + ip_id) (ipIdentifyNumber sr);
          replyPacket = put16 replyPacket (replyIpHeader + ip_off) IP_DF;
          replyPacket = put8 replyPacket (replyIpHeader + ip_ttl) DEFAULT_TTL;
          replyPacket = put8 replyPacket (replyIpHeader + ip_p) ip_protocol_icmp;
          replyPacket = put16 replyPacket (replyIpHeader + ip_sum) 0;
          replyPacket = put32 replyPacket (replyIpHeader + ip_src) (if_ip interface);
          replyPacket = put32 replyPacket (replyIpHeader + ip_dst) (get32 packet ip_src);
          replyPacket = put16 replyPacket (replyIpHeader + ip_sum)
                          (cksum (bytes replyPacket replyIpHeader
                                    (GET_IP_HEADER_LENGTH replyPacket replyIpHeader)));
          replyPacket = put8 replyPacket (replyIcmpHeader + icmp_type) icmp_type_time_exceeded;
          replyPacket = put8 replyPacket (replyIcmpHeader + icmp_code) 0;
          replyPacket = put16 replyPacket (replyIcmpHeader + icmp_sum) 0;
          replyPacket = memcpy replyPacket (replyIcmpHeader + icmp_t3_data) packet 0
                          ICMP_DATA_SIZE;
          replyPacket = put16 replyPacket (replyIcmpHeader + icmp_sum)
                          (cksum (bytes replyPacket replyIcmpHeader sizeof_sr_icmp_t3_hdr))
      in replyPacket)"

text \<open>\<^verbatim>\<open>networkHandleReceivedIpPacket\<close>.\<close>

definition networkHandleReceivedIpPacket ::
  "env \<Rightarrow> sr_instance \<Rightarrow> mem \<Rightarrow> nat \<Rightarrow> sr_if \<Rightarrow> result" where
  "networkHandleReceivedIpPacket E sr packet len interface =
     (if len < sizeof_sr_ip_hdr then Inr (sr, [])
      else if get_ip_hl packet 0 \<ge> MIN_IP_HEADER_LENGTH
      then
        (let headerChecksum = get16 packet ip_sum;
             packet = put16 packet ip_sum 0;
             calculatedChecksum = cksum (bytes packet 0 (GET_IP_HEADER_LENGTH packet 0))
         in if headerChecksum \<noteq> calculatedChecksum then Inr (sr, [])
            else
              (let packet = put16 packet ip_sum headerChecksum
               in if get_ip_v packet 0 \<noteq> SUPPORTED_IP_VERSION then Inr (sr, [])
                  else if networkIpDesinationIsUs sr packet
                  then (if get8 packet ip_p = ip_protocol_icmp
                        then networkHandleIcmpPacket E sr packet len interface
                        else NetworkSendTypeThreeIcmpPacket E sr
                               icmp_code_destination_port_unreachable packet)
                  else
                    (let packet = put8 packet ip_ttl (get8 packet ip_ttl - 1)
                     in if get8 packet ip_ttl = 0
                        then
                          (let packet = put8 packet ip_ttl 1;
                               replyPacket = timeExceededReply E sr packet interface;
                               sr = sr\<lparr>ipIdentifyNumber := ipIdentifyNumber sr + 1\<rparr>
                           in linkArpAndSendPacket E sr replyPacket
                                (sizeof_sr_ethernet_hdr + sizeof_sr_ip_hdr
                                   + sizeof_sr_icmp_t3_hdr)
                                interface)
                        else
                          (let packet = put16 packet ip_sum 0;
                               packet = put16 packet ip_sum
                                          (cksum (bytes packet 0 (GET_IP_HEADER_LENGTH packet 0)))
                           in networkForwardIpPacket E sr packet len interface))))
      else Inr (sr, []))"

text \<open>
  The packet that \<^verbatim>\<open>networkHandleReceivedIpPacket\<close> hands to \<^verbatim>\<open>networkForwardIpPacket\<close>:
  its three assignments to the received packet on the forwarding path (the TTL
  decrement, the zeroing of the checksum field, the new checksum).
\<close>

definition forwardedPacket :: "mem \<Rightarrow> mem" where
  "forwardedPacket packet =
     (let packet = put8 packet ip_ttl (get8 packet ip_ttl - 1);
          packet = put16 packet ip_sum 0;
          packet = put16 packet ip_sum (cksum (bytes packet 0 (GET_IP_HEADER_LENGTH packet 0)))
      in packet)"

text \<open>\<^verbatim>\<open>sr_handlepacket\<close>: the entry point, called with a received Ethernet frame.\<close>

definition sr_handlepacket :: "env \<Rightarrow> sr_instance \<Rightarrow> mem \<Rightarrow> nat \<Rightarrow> string \<Rightarrow> result" where
  "sr_handlepacket E sr packet len interface =
     (if len < sizeof_sr_ethernet_hdr then Inr (sr, [])
      else case sr_get_interface sr interface of
             None \<Rightarrow> Inr (sr, [])
           | Some receivedInterfaceEntry \<Rightarrow>
               if getmac packet ether_dhost \<noteq> if_addr receivedInterfaceEntry
                  \<and> getmac packet ether_dhost \<noteq> broadcastEthernetAddress
               then Inr (sr, [])
               else if get16 packet ether_type = ethertype_arp
               then linkHandleReceivedArpPacket E sr (ptr_add packet sizeof_sr_ethernet_hdr)
                      (len - sizeof_sr_ethernet_hdr) receivedInterfaceEntry
               else if get16 packet ether_type = ethertype_ip
               then networkHandleReceivedIpPacket E sr (ptr_add packet sizeof_sr_ethernet_hdr)
                      (len - sizeof_sr_ethernet_hdr) receivedInterfaceEntry
               else Inr (sr, []))"

section \<open>The specification's route selection\<close>

text \<open>
  Section 4.2 of the specification, in its own words, to be compared with
  \<open>networkGetPacketRoute\<close>: the mask length is the count of contiguous high bits set in
  the mask in host byte order; among the routes with \<open>dst & mask = dest & mask\<close> the one
  with the greatest mask length wins, the first registered one among equals; none if no
  route matches. (The conditional stands for "every matching route is no longer".)
\<close>

definition maskBitCount :: "32 word \<Rightarrow> nat" where
  "maskBitCount w = length (takeWhile (\<lambda>i. bit w i) (rev [0..<32]))"

definition routeMatches :: "32 word \<Rightarrow> sr_rt \<Rightarrow> bool" where
  "routeMatches dst r = ((dst AND rt_mask r) = (rt_dest r AND rt_mask r))"

definition longestPrefixMatch :: "sr_rt list \<Rightarrow> 32 word \<Rightarrow> sr_rt option" where
  "longestPrefixMatch rt dst =
     find (\<lambda>r. routeMatches dst r
              \<and> list_all (\<lambda>r'. if routeMatches dst r'
                                then maskBitCount (rt_mask r') \<le> maskBitCount (rt_mask r)
                                else True) rt) rt"

text \<open>What the code's loop compares on a host of byte order \<open>e\<close>.\<close>

definition hostMatches :: "byte_order \<Rightarrow> 32 word \<Rightarrow> sr_rt \<Rightarrow> bool" where
  "hostMatches e dst r =
     ((dst AND raw32 e (rt_mask r)) = (rt_dest r AND raw32 e (rt_mask r)))"

definition hostMaskLength :: "byte_order \<Rightarrow> sr_rt \<Rightarrow> int" where
  "hostMaskLength e r = networkGetMaskLength (raw32 e (rt_mask r))"

section \<open>Scenarios\<close>

text \<open>
  The router of the specification's scenarios: \<open>eth0\<close> is 10.0.0.1 with MAC
  aa:00:00:00:00:01, \<open>eth1\<close> is 172.16.0.1; 192.168.1.0/24 is reached via 10.0.0.254 on
  \<open>eth0\<close> (scenario S3) and 172.16.0.0/16 via 172.16.0.254 on \<open>eth1\<close>. Freshly allocated
  memory holds the byte \<open>0xAA\<close>, and \<^verbatim>\<open>sr_icmp_hdr_t\<close> has the four bytes of type, code and
  checksum, so that an echo reply takes the identifier and the sequence number from the
  request along with the payload (scenario S2).
\<close>

definition eth0 :: sr_if where
  "eth0 = \<lparr>if_name = ''eth0'', if_addr = Mac 0xAA 0 0 0 0 1, if_ip = 0x0A000001\<rparr>"

definition eth1 :: sr_if where
  "eth1 = \<lparr>if_name = ''eth1'', if_addr = Mac 0xAA 0 0 0 0 2, if_ip = 0xAC100001\<rparr>"

definition route_lan :: sr_rt where
  "route_lan = \<lparr>rt_dest = 0xC0A80100, rt_gw = 0x0A0000FE, rt_mask = 0xFFFFFF00,
                 rt_interface = ''eth0''\<rparr>"

definition route_back :: sr_rt where
  "route_back = \<lparr>rt_dest = 0xAC100000, rt_gw = 0xAC1000FE, rt_mask = 0xFFFF0000,
                  rt_interface = ''eth1''\<rparr>"

definition empty_cache :: sr_arpcache where
  "empty_cache = \<lparr>entries = [], requests = []\<rparr>"

definition router_S3 :: sr_instance where
  "router_S3 = \<lparr>if_list = [eth0, eth1], routing_table = [route_lan], cache = empty_cache,
                 ipIdentifyNumber = 0\<rparr>"

definition router :: sr_instance where
  "router = \<lparr>if_list = [eth0, eth1], routing_table = [route_lan, route_back],
              cache = empty_cache, ipIdentifyNumber = 7\<rparr>"

definition host_be :: env where
  "host_be = \<lparr>host_order = BigEndian, sizeof_sr_icmp_hdr = 4, fresh_memory = (\<lambda>_. 0xAA),
               time_now = 100\<rparr>"

definition host_le :: env where
  "host_le = \<lparr>host_order = LittleEndian, sizeof_sr_icmp_hdr = 4, fresh_memory = (\<lambda>_. 0xAA),
               time_now = 100\<rparr>"

text \<open>A buffer holding the given bytes, followed by zero bytes.\<close>

definition buffer :: "byte list \<Rightarrow> mem" where
  "buffer bs = (\<lambda>i. if i < length bs then bs ! i else 0)"

text \<open>
  Scenario S1: the ARP request of bb:00:00:00:00:02 (10.0.0.2) for 10.0.0.1, and the ARP
  reply of cc:00:00:00:00:fe (10.0.0.254) to \<open>eth0\<close> of scenario S3, as the bytes behind
  the Ethernet header; a router with two frames queued for 10.0.0.254.
\<close>

definition arp_request_S1 :: "byte list" where
  "arp_request_S1 =
     [0x00, 0x01, 0x08, 0x00, 6, 4, 0x00, 0x01,
      0xBB, 0, 0, 0, 0, 2,  10, 0, 0, 2,
      0, 0, 0, 0, 0, 0,  10, 0, 0, 1]"

definition arp_reply_S3 :: "byte list" where
  "arp_reply_S3 =
     [0x00, 0x01, 0x08, 0x00, 6, 4, 0x00, 0x02,
      0xCC, 0, 0, 0, 0, 0xFE,  10, 0, 0, 0xFE,
      0xAA, 0, 0, 0, 0, 1,  10, 0, 0, 1]"

definition queued_first :: sr_packet where
  "queued_first = \<lparr>pkt_buf = buffer [0, 0, 0, 0, 0, 0, 0xAA, 0, 0, 0, 0, 1, 0x08, 0x00, 1, 2],
                    pkt_len = 16, pkt_iface = ''eth0''\<rparr>"

definition queued_second :: sr_packet where
  "queued_second = \<lparr>pkt_buf = buffer [0, 0, 0, 0, 0, 0, 0xAA, 0, 0, 0, 0, 1, 0x08, 0x00, 3, 4],
                     pkt_len = 16, pkt_iface = ''eth0''\<rparr>"

definition router_pending :: sr_instance where
  "router_pending =
     router\<lparr>cache := \<lparr>entries = [],
                        requests = [\<lparr>req_ip = 0x0A0000FE, req_sent = 99, req_times_sent = 1,
                                     req_packets = [queued_first, queued_second],
                                     req_requestedInterface = Some eth0\<rparr>]\<rparr>\<rparr>"

text \<open>
  Datagrams from 1.2.3.4 to 192.168.1.9 (scenario S4) with an 8-byte payload: with TTL 1,
  with TTL 0, and one whose header checksum is wrong.
\<close>

definition datagram_ttl1 :: "byte list" where
  "datagram_ttl1 =
     [0x45, 0, 0, 28, 0, 0, 0, 0, 1, 17, 0xF4, 0x1A, 1, 2, 3, 4, 192, 168, 1, 9,
      0, 53, 0, 53, 0, 8, 0, 0]"

definition datagram_ttl0 :: "byte list" where
  "datagram_ttl0 =
     [0x45, 0, 0, 28, 0, 0, 0, 0, 0, 17, 0xF5, 0x1A, 1, 2, 3, 4, 192, 168, 1, 9,
      0, 53, 0, 53, 0, 8, 0, 0]"

definition datagram_bad_sum :: "byte list" where
  "datagram_bad_sum =
     [0x45, 0, 0, 28, 0, 0, 0, 0, 64, 17, 0x12, 0x34, 1, 2, 3, 4, 192, 168, 1, 9,
      0, 53, 0, 53, 0, 8, 0, 0]"

text \<open>
  The same router once both gateways have answered: 10.0.0.254 is cc:00:00:00:00:fe and
  172.16.0.254 is dd:00:00:00:00:fe. A second route on \<open>eth0\<close>, 192.168.2.0/24 via
  10.0.0.253, and the router whose table holds it after \<open>route_lan\<close> and whose cache
  knows both gateways of \<open>eth0\<close>, 10.0.0.253 being ee:00:00:00:00:fd.
\<close>

definition resolved_cache :: sr_arpcache where
  "resolved_cache =
     \<lparr>entries = [\<lparr>ent_mac = Mac 0xCC 0 0 0 0 0xFE, ent_ip = 0x0A0000FE, ent_added = 90\<rparr>,
                  \<lparr>ent_mac = Mac 0xDD 0 0 0 0 0xFE, ent_ip = 0xAC1000FE, ent_added = 95\<rparr>],
      requests = []\<rparr>"

definition router_resolved :: sr_instance where
  "router_resolved = router\<lparr>cache := resolved_cache\<rparr>"

definition route_far :: sr_rt where
  "route_far = \<lparr>rt_dest = 0xC0A80200, rt_gw = 0x0A0000FD, rt_mask = 0xFFFFFF00,
                 rt_interface = ''eth0''\<rparr>"

definition router_two :: sr_instance where
  "router_two =
     router\<lparr>routing_table := [route_lan, route_far, route_back],
            cache := \<lparr>entries = [\<lparr>ent_mac = Mac 0xCC 0 0 0 0 0xFE, ent_ip = 0x0A0000FE,
                                     ent_added = 90\<rparr>,
                                   \<lparr>ent_mac = Mac 0xEE 0 0 0 0 0xFD, ent_ip = 0x0A0000FD,
                                     ent_added = 97\<rparr>],
                       requests = []\<rparr>\<rparr>"

text \<open>
  More datagrams, each with a correct header checksum: 1.2.3.4 to 192.168.1.9 with TTL 2;
  the router's own 10.0.0.1 to 192.168.1.9 with TTL 1; UDP to the router's 10.0.0.1 from
  the router's own 172.16.0.1 and from 172.16.0.5; 172.16.0.5 to 192.168.2.9; and an echo
  request of 10.0.0.2 to 10.0.0.1 whose IP header carries one word of options (IHL 6),
  with identifier 7, sequence number 1 and the payload \<open>abcd\<close>.
\<close>

definition datagram_ttl2 :: "byte list" where
  "datagram_ttl2 =
     [0x45, 0, 0, 28, 0, 0, 0, 0, 2, 17, 0xF3, 0x1A, 1, 2, 3, 4, 192, 168, 1, 9,
      0, 53, 0, 53, 0, 8, 0, 0]"

definition datagram_self_ttl1 :: "byte list" where
  "datagram_self_ttl1 =
     [0x45, 0, 0, 28, 0, 0, 0, 0, 1, 17, 0xEE, 0x1F, 10, 0, 0, 1, 192, 168, 1, 9,
      0, 53, 0, 53, 0, 8, 0, 0]"

definition datagram_self_udp :: "byte list" where
  "datagram_self_udp =
     [0x45, 0, 0, 28, 0, 0, 0, 0, 64, 17, 0xC4, 0xBF, 172, 16, 0, 1, 10, 0, 0, 1,
      0, 53, 0, 53, 0, 8, 0, 0]"

definition datagram_udp :: "byte list" where
  "datagram_udp =
     [0x45, 0, 0, 28, 0, 0, 0, 0, 64, 17, 0xC4, 0xBB, 172, 16, 0, 5, 10, 0, 0, 1,
      0, 53, 0, 53, 0, 8, 0, 0]"

definition datagram_far :: "byte list" where
  "datagram_far =
     [0x45, 0, 0, 28, 0, 0, 0, 0, 64, 17, 0x0C, 0x0B, 172, 16, 0, 5, 192, 168, 2, 9,
      0, 53, 0, 53, 0, 8, 0, 0]"

definition echo_options :: "byte list" where
  "echo_options =
     [0x46, 0, 0, 36, 0, 0, 0, 0, 64, 1, 0x63, 0xD6, 10, 0, 0, 2, 10, 0, 0, 1, 1, 1, 1, 0,
      8, 0, 0x33, 0x31, 0, 7, 0, 1, 0x61, 0x62, 0x63, 0x64]"

text \<open>
  A datagram of 172.16.0.5 for 8.8.8.8, to which none of the routes leads, with TTL 64 and
  a correct header checksum.
\<close>

definition datagram_unroutable :: "byte list" where
  "datagram_unroutable =
     [0x45, 0, 0, 28, 0, 0, 0, 0, 64, 17, 0xBE, 0xAC, 172, 16, 0, 5, 8, 8, 8, 8,
      0, 53, 0, 53, 0, 8, 0, 0]"

text \<open>
  A router whose only route is the default route, 0.0.0.0/0 via 172.16.0.254 on \<open>eth1\<close>;
  its mask reads the same in both byte orders.
\<close>

definition route_default :: sr_rt where
  "route_default = \<lparr>rt_dest = 0, rt_gw = 0xAC1000FE, rt_mask = 0, rt_interface = ''eth1''\<rparr>"

definition router_default :: sr_instance where
  "router_default = router_resolved\<lparr>routing_table := [route_default]\<rparr>"

section \<open>Properties: bytes and memory\<close>

lemmas layout_defs =
  sizeof_sr_ethernet_hdr_def sizeof_sr_arp_hdr_def sizeof_sr_ip_hdr_def
  sizeof_sr_icmp_t3_hdr_def ICMP_DATA_SIZE_def
  ether_dhost_def ether_shost_def ether_type_def
  ar_hrd_def ar_pro_def ar_hln_def ar_pln_def ar_op_def ar_sha_def ar_sip_def ar_tha_def
  ar_tip_def
  ip_vhl_def ip_tos_def ip_len_def ip_id_def ip_off_def ip_ttl_def ip_p_def ip_sum_def
  ip_src_def ip_dst_def
  icmp_type_def icmp_code_def icmp_sum_def icmp_t3_data_def

lemmas const_defs =
  MIN_IP_HEADER_LENGTH_def DEFAULT_TTL_def SUPPORTED_IP_VERSION_def ethertype_arp_def
  ethertype_ip_def arp_hrd_ethernet_def arp_op_request_def arp_op_reply_def
  ETHER_ADDR_LEN_def IP_ADDR_LEN_def IP_DF_def ip_protocol_icmp_def
  icmp_type_echo_reply_def icmp_type_desination_unreachable_def icmp_type_echo_request_def
  icmp_type_time_exceeded_def icmp_code_destination_host_unreachable_def
  icmp_code_destination_port_unreachable_def

lemma byte3_be32: "byte3 (be32 a b c d) = a"
  unfolding byte3_def be32_def
  by (rule bit_word_eqI) (auto simp: bit_simps dest: bit_imp_le_length)

lemma byte2_be32: "byte2 (be32 a b c d) = b"
  unfolding byte2_def be32_def
  by (rule bit_word_eqI) (auto simp: bit_simps dest: bit_imp_le_length)

lemma byte1_be32: "byte1 (be32 a b c d) = c"
  unfolding byte1_def be32_def
  by (rule bit_word_eqI) (auto simp: bit_simps dest: bit_imp_le_length)

lemma byte0_be32: "byte0 (be32 a b c d) = d"
  unfolding byte0_def be32_def
  by (rule bit_word_eqI) (auto simp: bit_simps dest: bit_imp_le_length)

lemma be32_bytes: "be32 (byte3 w) (byte2 w) (byte1 w) (byte0 w) = w"
proof (rule bit_word_eqI)
  fix n
  assume "n < LENGTH(32)"
  then consider "n < 8" | "8 \<le> n \<and> n < 16" | "16 \<le> n \<and> n < 24" | "24 \<le> n \<and> n < 32"
    by fastforce
  then show "bit (be32 (byte3 w) (byte2 w) (byte1 w) (byte0 w)) n = bit w n"
    unfolding byte3_def byte2_def byte1_def byte0_def be32_def
    by cases (auto simp: bit_simps)
qed

lemma bswap32_bswap32: "bswap32 (bswap32 w) = w"
  by (simp add: bswap32_def byte3_be32 byte2_be32 byte1_be32 byte0_be32 be32_bytes)

text \<open>\<^verbatim>\<open>ntohl\<close> of a loaded field is the number its bytes denote in network order.\<close>

lemma ntohl_raw32: "ntohl e (raw32 e w) = w"
  by (cases e) (simp_all add: ntohl_def raw32_def bswap32_bswap32)

section \<open>Properties: route selection\<close>

lemma find_Cons_hit: "P x \<Longrightarrow> find P (x # xs) = Some x"
  by simp

lemma find_Cons_miss: "\<not> P x \<Longrightarrow> find P (x # xs) = find P xs"
  by simp

lemma maskLoop_ge: "ret \<le> maskLoop msk b ret"
proof (induction msk b ret rule: maskLoop.induct)
  case (1 msk bitScanner ret)
  show ?case
  proof (cases "bitScanner \<noteq> 0 \<and> (bitScanner AND msk) \<noteq> 0")
    case True
    with "1" have "ret + 1 \<le> maskLoop msk (drop_bit 1 bitScanner) (ret + 1)"
      by simp
    with True show ?thesis
      by (subst maskLoop.simps) simp
  next
    case False
    then show ?thesis
      by (subst maskLoop.simps) auto
  qed
qed

lemma networkGetMaskLength_nonneg: "0 \<le> networkGetMaskLength msk"
  unfolding networkGetMaskLength_def by (rule maskLoop_ge)

lemma scanner_and: "((2 ^ j :: 32 word) AND msk \<noteq> 0) \<longleftrightarrow> bit msk j"
  using and_exp_eq_0_iff_not_bit [of msk j] by (simp add: and.commute)

lemma scanner_shift: "Suc j < 32 \<Longrightarrow> drop_bit 1 (2 ^ Suc j :: 32 word) = 2 ^ j"
  by (simp add: drop_bit_exp_eq del: power_Suc)

lemma maskLoop_zero: "maskLoop msk 0 ret = ret"
  by (subst maskLoop.simps) simp

lemma maskLoop_count:
  "j < 32 \<Longrightarrow>
   maskLoop msk (2 ^ j) ret = ret + int (length (takeWhile (bit msk) (rev [0..<Suc j])))"
proof (induction j arbitrary: ret)
  case 0
  have "maskLoop msk 1 ret = (if bit msk 0 then maskLoop msk 0 (ret + 1) else ret)"
    using scanner_and [of 0 msk] by (subst maskLoop.simps) simp
  then show ?case
    by (simp add: maskLoop_zero)
next
  case (Suc j)
  then have j: "j < 32"
    by simp
  have nz: "(2 ^ Suc j :: 32 word) \<noteq> 0"
    using Suc.prems by (simp del: power_Suc)
  have "maskLoop msk (2 ^ Suc j) ret
      = (if bit msk (Suc j) then maskLoop msk (2 ^ j) (ret + 1) else ret)"
    by (subst maskLoop.simps)
       (simp only: nz scanner_and scanner_shift [OF Suc.prems] simp_thms)
  then show ?case
    by (simp add: Suc.IH [OF j] del: power_Suc)
qed

text \<open>\<^verbatim>\<open>networkGetMaskLength\<close> counts the contiguous high bits of its argument.\<close>

lemma networkGetMaskLength_count: "networkGetMaskLength msk = int (maskBitCount msk)"
proof -
  have "(0x80000000 :: 32 word) = 2 ^ 31"
    by simp
  then show ?thesis
    unfolding networkGetMaskLength_def maskBitCount_def
    using maskLoop_count [of 31 msk 0] by (simp add: eval_nat_numeral)
qed

lemma ex_longest:
  fixes L :: "'a \<Rightarrow> int"
  shows "\<exists>x\<in>set rs. M x \<Longrightarrow> \<exists>x\<in>set rs. M x \<and> (\<forall>r'\<in>set rs. M r' \<longrightarrow> L r' \<le> L x)"
proof (induction rs)
  case Nil
  then show ?case by simp
next
  case (Cons a rs)
  show ?case
  proof (cases "\<exists>x\<in>set rs. M x")
    case False
    with Cons.prems show ?thesis by auto
  next
    case True
    then obtain x where x: "x \<in> set rs" "M x" "\<forall>r'\<in>set rs. M r' \<longrightarrow> L r' \<le> L x"
      using Cons.IH by blast
    show ?thesis
    proof (cases "M a \<and> L x < L a")
      case True
      with x have "\<forall>r'\<in>set (a # rs). M r' \<longrightarrow> L r' \<le> L a" by fastforce
      with True show ?thesis by auto
    next
      case False
      with x have "\<forall>r'\<in>set (a # rs). M r' \<longrightarrow> L r' \<le> L x" by fastforce
      with x show ?thesis by auto
    qed
  qed
qed

text \<open>
  The loop of \<^verbatim>\<open>networkGetPacketRoute\<close>, started with a route \<open>ret\<close> of length \<open>best\<close>:
  it returns the first of the longest matching routes that are longer than \<open>best\<close>, and
  \<open>ret\<close> if there is none.
\<close>

lemma routeLoop_find:
  "routeLoop e dst rs ret best =
     (case find (\<lambda>r. hostMatches e dst r \<and> best < hostMaskLength e r
                    \<and> (\<forall>r'\<in>set rs. hostMatches e dst r' \<longrightarrow>
                           hostMaskLength e r' \<le> hostMaskLength e r)) rs
      of None \<Rightarrow> ret | Some r \<Rightarrow> Some r)"
proof (induction rs arbitrary: ret best)
  case Nil
  show ?case by simp
next
  case (Cons r rs)
  let ?M = "hostMatches e dst" and ?L = "hostMaskLength e"
  let ?top = "\<lambda>xs x. \<forall>r'\<in>set xs. ?M r' \<longrightarrow> ?L r' \<le> ?L x"
  let ?Q = "\<lambda>b xs x. ?M x \<and> b < ?L x \<and> ?top xs x"
  show ?case
  proof (cases "?M r \<and> best < ?L r")
    case False
    have "find (?Q best (r # rs)) rs = find (?Q best rs) rs"
      using False by (intro find_cong) auto
    moreover have "\<not> ?Q best (r # rs) r"
      using False by blast
    then have "find (?Q best (r # rs)) (r # rs) = find (?Q best (r # rs)) rs"
      by (rule find_Cons_miss [where P = "?Q best (r # rs)"])
    ultimately have "find (?Q best (r # rs)) (r # rs) = find (?Q best rs) rs"
      by (simp only:)
    moreover have "routeLoop e dst (r # rs) ret best = routeLoop e dst rs ret best"
      using False by (auto simp: hostMatches_def hostMaskLength_def)
    ultimately show ?thesis
      by (simp only: Cons.IH)
  next
    case True
    then have step: "routeLoop e dst (r # rs) ret best = routeLoop e dst rs (Some r) (?L r)"
      by (simp add: hostMatches_def hostMaskLength_def)
    show ?thesis
    proof (cases "?top rs r")
      case top: True
      have "find (?Q (?L r) rs) rs = None"
        using top by (auto simp: find_None_iff)
      moreover have "?Q best (r # rs) r"
        using True top by simp
      then have "find (?Q best (r # rs)) (r # rs) = Some r"
        by (rule find_Cons_hit [where P = "?Q best (r # rs)"])
      ultimately show ?thesis
        by (simp only: step Cons.IH option.case)
    next
      case notop: False
      then obtain y where y: "y \<in> set rs" "?M y" "?L r < ?L y"
        by auto
      then obtain x where x: "x \<in> set rs" "?M x" "?top rs x"
        using ex_longest [of rs ?M ?L] by blast
      with y have "?L r < ?L x"
        by fastforce
      with x have "\<exists>x\<in>set rs. ?Q (?L r) rs x"
        by blast
      then obtain z where z: "find (?Q (?L r) rs) rs = Some z"
        by (cases "find (?Q (?L r) rs) rs") (auto simp: find_None_iff)
      have "find (?Q best (r # rs)) rs = find (?Q (?L r) rs) rs"
      proof (intro find_cong refl)
        fix x
        assume "x \<in> set rs"
        show "?Q best (r # rs) x = ?Q (?L r) rs x"
          using True y by fastforce
      qed
      moreover have "\<not> ?Q best (r # rs) r"
        using y by fastforce
      then have "find (?Q best (r # rs)) (r # rs) = find (?Q best (r # rs)) rs"
        by (rule find_Cons_miss [where P = "?Q best (r # rs)"])
      ultimately have "find (?Q best (r # rs)) (r # rs) = Some z"
        using z by (simp only:)
      with z show ?thesis
        by (simp only: step Cons.IH option.case)
    qed
  qed
qed

text \<open>
  On every host, \<^verbatim>\<open>networkGetPacketRoute\<close> returns the first of the longest matching
  routes, and none if no route matches, where matching and length are taken with the
  mask as the host loads it.
\<close>

lemma networkGetPacketRoute_find:
  "networkGetPacketRoute E sr packet =
     find (\<lambda>r. hostMatches (host_order E) (get32 packet ip_dst) r
              \<and> (\<forall>r'\<in>set (routing_table sr).
                     hostMatches (host_order E) (get32 packet ip_dst) r' \<longrightarrow>
                     hostMaskLength (host_order E) r' \<le> hostMaskLength (host_order E) r))
       (routing_table sr)"
proof -
  have "- 1 < hostMaskLength (host_order E) r" for r
    using networkGetMaskLength_nonneg [of "raw32 (host_order E) (rt_mask r)"]
    by (simp add: hostMaskLength_def)
  then show ?thesis
    unfolding networkGetPacketRoute_def routeLoop_find
    by (simp add: option.case_eq_if)
qed

text \<open>
  On a big-endian host the loaded mask is the mask in host byte order, and the code
  selects the route of the specification.
\<close>

lemma networkGetPacketRoute_big_endian:
  assumes "host_order E = BigEndian"
  shows "networkGetPacketRoute E sr packet
         = longestPrefixMatch (routing_table sr) (get32 packet ip_dst)"
  unfolding networkGetPacketRoute_find longestPrefixMatch_def
  by (simp add: assms hostMatches_def hostMaskLength_def routeMatches_def raw32_def
      networkGetMaskLength_count list_all_iff)

text \<open>
  Claim C1: route selection returns the longest-prefix match, the mask length being
  counted on the mask in host byte order. On a little-endian host the code does not:
  it counts and masks with the mask as loaded, byte-swapped. With the routing table of
  scenario S3 (192.168.1.0/24 via 10.0.0.254) and the destination 192.168.1.9, the
  specification selects the route and the code finds none.
\<close>

theorem networkGetPacketRoute_little_endian:
  "networkGetPacketRoute host_le router_S3 (put32 (buffer []) ip_dst 0xC0A80109) = None
   \<and> longestPrefixMatch (routing_table router_S3)
         (get32 (put32 (buffer []) ip_dst 0xC0A80109) ip_dst) = Some route_lan"
  by code_simp

theorem networkGetPacketRoute_little_endian_witness:
  "networkGetPacketRoute host_le router_S3 (put32 (buffer []) ip_dst 0xC0A80109)
   \<noteq> longestPrefixMatch (routing_table router_S3)
         (get32 (put32 (buffer []) ip_dst 0xC0A80109) ip_dst)"
  using networkGetPacketRoute_little_endian by simp

section \<open>Properties: ARP ingress\<close>

lemmas mem_defs = put8_def put16_def put32_def putmac.simps memcpy_def memset_def get8_def
  get16_def get32_def getmac_def ptr_add_def bytes_def

text \<open>
  Claim C8: on a valid ARP request whose target IP is the receiving interface's IP, the
  router emits exactly one frame, on that interface: an ARP reply (opcode 2) addressed to
  the requester's MAC, whose sender MAC and IP are the interface's and whose target MAC
  and IP are the requester's. The frame is given byte by byte: Ethernet destination and
  source, ethertype 0x0806, hardware type 1, protocol type 0x0800, lengths 6 and 4,
  opcode 2, sender MAC and IP, target MAC and IP.
\<close>

theorem arp_request_reply:
  assumes "sizeof_sr_arp_hdr \<le> len"
    and "get16 packet ar_pro = ethertype_ip"
    and "get16 packet ar_hrd = arp_hrd_ethernet"
    and "get8 packet ar_pln = IP_ADDR_LEN"
    and "get8 packet ar_hln = ETHER_ADDR_LEN"
    and "get16 packet ar_op = arp_op_request"
    and "get32 packet ar_tip = if_ip interface"
  shows "linkHandleReceivedArpPacket E sr packet len interface =
     Inr (sr, [(mac_bytes (getmac packet ar_sha) @ mac_bytes (if_addr interface)
                @ [0x08, 0x06, 0x00, 0x01, 0x08, 0x00, 6, 4, 0x00, 0x02]
                @ mac_bytes (if_addr interface) @ bytes32 (if_ip interface)
                @ mac_bytes (getmac packet ar_sha) @ bytes32 (get32 packet ar_sip),
                if_name interface)])"
proof -
  obtain a0 a1 a2 a3 a4 a5 where ia: "if_addr interface = Mac a0 a1 a2 a3 a4 a5"
    by (cases "if_addr interface")
  show ?thesis
    using assms
    unfolding linkHandleReceivedArpPacket_def
    by (simp add: Let_def sr_send_packet_def malloc_def ia mem_defs layout_defs const_defs
        bytes16_def bytes32_def hi8_def lo8_def upt_rec)
qed

theorem arp_request_reply_witness:
  "linkHandleReceivedArpPacket host_be router (buffer arp_request_S1) 28 eth0 =
     Inr (router,
          [([0xBB, 0, 0, 0, 0, 2,  0xAA, 0, 0, 0, 0, 1,  0x08, 0x06,
             0x00, 0x01, 0x08, 0x00, 6, 4, 0x00, 0x02,
             0xAA, 0, 0, 0, 0, 1,  10, 0, 0, 1,
             0xBB, 0, 0, 0, 0, 2,  10, 0, 0, 2], ''eth0'')])"
proof -
  have h: "sizeof_sr_arp_hdr \<le> 28"
    "get16 (buffer arp_request_S1) ar_pro = ethertype_ip"
    "get16 (buffer arp_request_S1) ar_hrd = arp_hrd_ethernet"
    "get8 (buffer arp_request_S1) ar_pln = IP_ADDR_LEN"
    "get8 (buffer arp_request_S1) ar_hln = ETHER_ADDR_LEN"
    "get16 (buffer arp_request_S1) ar_op = arp_op_request"
    "get32 (buffer arp_request_S1) ar_tip = if_ip eth0"
    by code_simp+
  have e: "mac_bytes (getmac (buffer arp_request_S1) ar_sha) @ mac_bytes (if_addr eth0)
                @ [0x08, 0x06, 0x00, 0x01, 0x08, 0x00, 6, 4, 0x00, 0x02]
                @ mac_bytes (if_addr eth0) @ bytes32 (if_ip eth0)
                @ mac_bytes (getmac (buffer arp_request_S1) ar_sha)
                @ bytes32 (get32 (buffer arp_request_S1) ar_sip)
        = [0xBB, 0, 0, 0, 0, 2,  0xAA, 0, 0, 0, 0, 1,  0x08, 0x06,
             0x00, 0x01, 0x08, 0x00, 6, 4, 0x00, 0x02,
             0xAA, 0, 0, 0, 0, 1,  10, 0, 0, 1,
             0xBB, 0, 0, 0, 0, 2,  10, 0, 0, 2]"
    "if_name eth0 = ''eth0''"
    by code_simp+
  show ?thesis
    using arp_request_reply [OF h, of host_be router] by (simp only: e)
qed

lemma sendQueuedPackets_map:
  "sendQueuedPackets sha ps =
     map (\<lambda>p. sr_send_packet (putmac (pkt_buf p) ether_dhost sha) (pkt_len p) (pkt_iface p)) ps"
  by (induction ps) simp_all

lemma find_Some_holds: "find P xs = Some x \<Longrightarrow> P x"
  by (auto simp: find_Some_iff)

text \<open>
  Claim C7: on a valid ARP reply whose target IP is the receiving interface's IP, the
  router installs the binding of the sender's IP to the sender's MAC in the ARP cache.
  If a request was pending for that IP, each frame queued on it is sent on its recorded
  interface with its Ethernet destination overwritten by the learned MAC, in the order of
  the request's list, and the request is gone from the cache afterwards. The list is in
  the order of queueing, since \<open>sr_arpcache_queuereq\<close> appends (second conjunct).
\<close>

theorem arp_reply_drains_queue:
  assumes "sizeof_sr_arp_hdr \<le> len"
    and "get16 packet ar_pro = ethertype_ip"
    and "get16 packet ar_hrd = arp_hrd_ethernet"
    and "get8 packet ar_pln = IP_ADDR_LEN"
    and "get8 packet ar_hln = ETHER_ADDR_LEN"
    and "get16 packet ar_op = arp_op_reply"
    and "get32 packet ar_tip = if_ip interface"
  shows "linkHandleReceivedArpPacket E sr packet len interface =
           Inr (sr\<lparr>cache :=
                  \<lparr>entries = \<lparr>ent_mac = getmac packet ar_sha, ent_ip = get32 packet ar_sip,
                                ent_added = time_now E\<rparr>
                              # filter (\<lambda>e. ent_ip e \<noteq> get32 packet ar_sip) (entries (cache sr)),
                   requests = filter (\<lambda>r. req_ip r \<noteq> get32 packet ar_sip)
                                (requests (cache sr))\<rparr>\<rparr>,
                case find (\<lambda>r. req_ip r = get32 packet ar_sip) (requests (cache sr)) of
                  None \<Rightarrow> []
                | Some request \<Rightarrow>
                    map (\<lambda>p. sr_send_packet (putmac (pkt_buf p) ether_dhost (getmac packet ar_sha))
                                (pkt_len p) (pkt_iface p))
                      (req_packets request))
         \<and> req_packets (fst (sr_arpcache_queuereq c ip buf n name)) =
             (case find (\<lambda>r. req_ip r = ip) (requests c) of
                None \<Rightarrow> [] | Some r \<Rightarrow> req_packets r)
             @ [\<lparr>pkt_buf = buf, pkt_len = n, pkt_iface = name\<rparr>]"
proof -
  have op: "get16 packet ar_op \<noteq> arp_op_request"
    using assms(6) by (simp add: const_defs)
  have "linkHandleReceivedArpPacket E sr packet len interface =
          (case sr_arpcache_insert E (cache sr) (getmac packet ar_sha) (get32 packet ar_sip) of
             (requestPointer, c) \<Rightarrow>
               (case requestPointer of
                  Some request \<Rightarrow>
                    Inr (sr\<lparr>cache := sr_arpreq_destroy c request\<rparr>,
                         sendQueuedPackets (getmac packet ar_sha) (req_packets request))
                | None \<Rightarrow> Inr (sr\<lparr>cache := c\<rparr>, [])))"
    using assms op unfolding linkHandleReceivedArpPacket_def by simp
  also have "\<dots> = Inr (sr\<lparr>cache :=
                  \<lparr>entries = \<lparr>ent_mac = getmac packet ar_sha, ent_ip = get32 packet ar_sip,
                                ent_added = time_now E\<rparr>
                              # filter (\<lambda>e. ent_ip e \<noteq> get32 packet ar_sip) (entries (cache sr)),
                   requests = filter (\<lambda>r. req_ip r \<noteq> get32 packet ar_sip)
                                (requests (cache sr))\<rparr>\<rparr>,
                case find (\<lambda>r. req_ip r = get32 packet ar_sip) (requests (cache sr)) of
                  None \<Rightarrow> []
                | Some request \<Rightarrow>
                    map (\<lambda>p. sr_send_packet (putmac (pkt_buf p) ether_dhost (getmac packet ar_sha))
                                (pkt_len p) (pkt_iface p))
                      (req_packets request))"
    by (auto simp: sr_arpcache_insert_def sr_arpreq_destroy_def sendQueuedPackets_map
        split: option.splits dest: find_Some_holds)
  finally have main: "linkHandleReceivedArpPacket E sr packet len interface = \<dots>" .
  have "req_packets (fst (sr_arpcache_queuereq c ip buf n name)) =
             (case find (\<lambda>r. req_ip r = ip) (requests c) of
                None \<Rightarrow> [] | Some r \<Rightarrow> req_packets r)
             @ [\<lparr>pkt_buf = buf, pkt_len = n, pkt_iface = name\<rparr>]"
    by (simp add: sr_arpcache_queuereq_def Let_def split: option.splits)
  with main show ?thesis
    by (simp only: simp_thms)
qed

theorem arp_reply_drains_queue_witness:
  "linkHandleReceivedArpPacket host_be router_pending (buffer arp_reply_S3) 28 eth0 =
     Inr (router\<lparr>cache := \<lparr>entries = [\<lparr>ent_mac = Mac 0xCC 0 0 0 0 0xFE, ent_ip = 0x0A0000FE,
                                           ent_added = 100\<rparr>],
                             requests = []\<rparr>\<rparr>,
          [([0xCC, 0, 0, 0, 0, 0xFE, 0xAA, 0, 0, 0, 0, 1, 0x08, 0x00, 1, 2], ''eth0''),
           ([0xCC, 0, 0, 0, 0, 0xFE, 0xAA, 0, 0, 0, 0, 1, 0x08, 0x00, 3, 4], ''eth0'')])"
proof -
  have h: "sizeof_sr_arp_hdr \<le> 28"
    "get16 (buffer arp_reply_S3) ar_pro = ethertype_ip"
    "get16 (buffer arp_reply_S3) ar_hrd = arp_hrd_ethernet"
    "get8 (buffer arp_reply_S3) ar_pln = IP_ADDR_LEN"
    "get8 (buffer arp_reply_S3) ar_hln = ETHER_ADDR_LEN"
    "get16 (buffer arp_reply_S3) ar_op = arp_op_reply"
    "get32 (buffer arp_reply_S3) ar_tip = if_ip eth0"
    by code_simp+
  have e: "get32 (buffer arp_reply_S3) ar_sip = 0x0A0000FE"
    "getmac (buffer arp_reply_S3) ar_sha = Mac 0xCC 0 0 0 0 0xFE"
    "sr_send_packet (putmac (pkt_buf queued_first) ether_dhost (Mac 0xCC 0 0 0 0 0xFE))
       (pkt_len queued_first) (pkt_iface queued_first)
     = ([0xCC, 0, 0, 0, 0, 0xFE, 0xAA, 0, 0, 0, 0, 1, 0x08, 0x00, 1, 2], ''eth0'')"
    "sr_send_packet (putmac (pkt_buf queued_second) ether_dhost (Mac 0xCC 0 0 0 0 0xFE))
       (pkt_len queued_second) (pkt_iface queued_second)
     = ([0xCC, 0, 0, 0, 0, 0xFE, 0xAA, 0, 0, 0, 0, 1, 0x08, 0x00, 3, 4], ''eth0'')"
    by code_simp+
  show ?thesis
    using arp_reply_drains_queue [OF h, of host_be router_pending]
    by (simp add: e router_pending_def host_be_def)
qed

section \<open>Properties: IPv4 ingress\<close>

lemmas eval_defs = mem_defs layout_defs const_defs buffer_def bytes16_def bytes32_def
  hi8_def lo8_def be16_def be32_def byte0_def byte1_def byte2_def byte3_def
  GET_IP_HEADER_LENGTH_def get_ip_hl_def get_ip_v_def cksum_def fold_carry_def upt_rec

lemma hi8_be16: "hi8 (be16 a b) = a"
  unfolding hi8_def be16_def
  by (rule bit_word_eqI) (auto simp: bit_simps dest: bit_imp_le_length)

lemma lo8_be16: "lo8 (be16 a b) = b"
  unfolding lo8_def be16_def
  by (rule bit_word_eqI) (auto simp: bit_simps dest: bit_imp_le_length)

lemma put16_same: "put16 m a (get16 m a) = m"
  by (simp add: put16_def get16_def hi8_be16 lo8_be16)

lemma put16_restore: "put16 (put16 m a v) a (get16 m a) = m"
  by (simp add: put16_def get16_def hi8_be16 lo8_be16)

lemma put16_put16: "put16 (put16 m a v) a w = put16 m a w"
  by (simp add: put16_def)

lemma hl_put16_sum: "get_ip_hl (put16 m ip_sum v) 0 = get_ip_hl m 0"
  by (simp add: get_ip_hl_def put16_def layout_defs)

lemma v_put16_sum: "get_ip_v (put16 m ip_sum v) 0 = get_ip_v m 0"
  by (simp add: get_ip_v_def put16_def layout_defs)

lemma hdrlen_put16_sum: "GET_IP_HEADER_LENGTH (put16 m ip_sum v) 0 = GET_IP_HEADER_LENGTH m 0"
  by (simp add: GET_IP_HEADER_LENGTH_def hl_put16_sum)

lemma hdrlen_put8_ttl: "GET_IP_HEADER_LENGTH (put8 m ip_ttl v) 0 = GET_IP_HEADER_LENGTH m 0"
  by (simp add: GET_IP_HEADER_LENGTH_def get_ip_hl_def put8_def layout_defs)

text \<open>
  What \<^verbatim>\<open>networkHandleReceivedIpPacket\<close> does with a packet that passes its checks,
  stated on the packet as received.
\<close>

lemma networkHandleReceivedIpPacket_valid:
  assumes "sizeof_sr_ip_hdr \<le> len"
    and "MIN_IP_HEADER_LENGTH \<le> get_ip_hl packet 0"
    and "cksum (bytes (put16 packet ip_sum 0) 0 (GET_IP_HEADER_LENGTH packet 0))
         = get16 packet ip_sum"
    and "get_ip_v packet 0 = SUPPORTED_IP_VERSION"
  shows "networkHandleReceivedIpPacket E sr packet len interface =
     (if networkIpDesinationIsUs sr packet
      then (if get8 packet ip_p = ip_protocol_icmp
            then networkHandleIcmpPacket E sr packet len interface
            else NetworkSendTypeThreeIcmpPacket E sr icmp_code_destination_port_unreachable
                   packet)
      else if get8 packet ip_ttl = 1
      then linkArpAndSendPacket E (sr\<lparr>ipIdentifyNumber := ipIdentifyNumber sr + 1\<rparr>)
             (timeExceededReply E sr packet interface)
             (sizeof_sr_ethernet_hdr + sizeof_sr_ip_hdr + sizeof_sr_icmp_t3_hdr) interface
      else networkForwardIpPacket E sr
             (put16 (put8 packet ip_ttl (get8 packet ip_ttl - 1)) ip_sum
                (cksum (bytes (put16 (put8 packet ip_ttl (get8 packet ip_ttl - 1)) ip_sum 0) 0
                          (GET_IP_HEADER_LENGTH packet 0))))
             len interface)"
proof -
  have ttl: "put8 (put8 packet ip_ttl v) ip_ttl 1 = packet"
    if "get8 packet ip_ttl = 1" for v
    using that by (auto simp: put8_def get8_def)
  have z: "get8 (put8 packet ip_ttl (get8 packet ip_ttl - 1)) ip_ttl = 0
           \<longleftrightarrow> get8 packet ip_ttl = 1"
    by (simp add: put8_def get8_def)
  show ?thesis
    using assms
    unfolding networkHandleReceivedIpPacket_def
    by (simp add: Let_def put16_same put16_put16 hdrlen_put16_sum hdrlen_put8_ttl
        hl_put16_sum z ttl not_less)
qed

text \<open>
  The checks of section 4.5.2: a received IPv4 packet is dropped, with no frame sent and
  the router's state unchanged, when it is shorter than 20 bytes, or its header-length
  field is below 5, or the checksum recomputed over the header with a zeroed checksum
  field differs from the received field, or its version is not 4 (first conjunct).
  Writing the received value back after zeroing the field restores the packet as
  received (second conjunct), and the dispatch that follows starts from the packet as
  received (third conjunct).
\<close>

theorem ip_validation:
  "(len < sizeof_sr_ip_hdr \<or> get_ip_hl packet 0 < MIN_IP_HEADER_LENGTH
      \<or> cksum (bytes (put16 packet ip_sum 0) 0 (GET_IP_HEADER_LENGTH packet 0))
          \<noteq> get16 packet ip_sum
      \<or> get_ip_v packet 0 \<noteq> SUPPORTED_IP_VERSION
    \<longrightarrow> networkHandleReceivedIpPacket E sr packet len interface = Inr (sr, []))
   \<and> put16 (put16 packet ip_sum 0) ip_sum (get16 packet ip_sum) = packet
   \<and> (sizeof_sr_ip_hdr \<le> len \<and> MIN_IP_HEADER_LENGTH \<le> get_ip_hl packet 0
      \<and> cksum (bytes (put16 packet ip_sum 0) 0 (GET_IP_HEADER_LENGTH packet 0))
          = get16 packet ip_sum
      \<and> get_ip_v packet 0 = SUPPORTED_IP_VERSION
    \<longrightarrow> networkHandleReceivedIpPacket E sr packet len interface =
         (if networkIpDesinationIsUs sr packet
          then (if get8 packet ip_p = ip_protocol_icmp
                then networkHandleIcmpPacket E sr packet len interface
                else NetworkSendTypeThreeIcmpPacket E sr
                       icmp_code_destination_port_unreachable packet)
          else if get8 packet ip_ttl = 1
          then linkArpAndSendPacket E (sr\<lparr>ipIdentifyNumber := ipIdentifyNumber sr + 1\<rparr>)
                 (timeExceededReply E sr packet interface)
                 (sizeof_sr_ethernet_hdr + sizeof_sr_ip_hdr + sizeof_sr_icmp_t3_hdr) interface
          else networkForwardIpPacket E sr
                 (put16 (put8 packet ip_ttl (get8 packet ip_ttl - 1)) ip_sum
                    (cksum (bytes (put16 (put8 packet ip_ttl (get8 packet ip_ttl - 1)) ip_sum 0)
                              0 (GET_IP_HEADER_LENGTH packet 0))))
                 len interface))"
proof (intro conjI impI)
  assume "len < sizeof_sr_ip_hdr \<or> get_ip_hl packet 0 < MIN_IP_HEADER_LENGTH
      \<or> cksum (bytes (put16 packet ip_sum 0) 0 (GET_IP_HEADER_LENGTH packet 0))
          \<noteq> get16 packet ip_sum
      \<or> get_ip_v packet 0 \<noteq> SUPPORTED_IP_VERSION"
  then show "networkHandleReceivedIpPacket E sr packet len interface = Inr (sr, [])"
  proof (elim disjE)
    assume "len < sizeof_sr_ip_hdr"
    then show ?thesis
      unfolding networkHandleReceivedIpPacket_def by simp
  next
    assume "get_ip_hl packet 0 < MIN_IP_HEADER_LENGTH"
    then have "\<not> MIN_IP_HEADER_LENGTH \<le> get_ip_hl packet 0"
      by (simp add: not_le)
    then show ?thesis
      unfolding networkHandleReceivedIpPacket_def by simp
  next
    assume "cksum (bytes (put16 packet ip_sum 0) 0 (GET_IP_HEADER_LENGTH packet 0))
            \<noteq> get16 packet ip_sum"
    then have "get16 packet ip_sum
               \<noteq> cksum (bytes (put16 packet ip_sum 0) 0 (GET_IP_HEADER_LENGTH packet 0))"
      by (rule not_sym)
    then show ?thesis
      unfolding networkHandleReceivedIpPacket_def
      by (simp add: Let_def hdrlen_put16_sum)
  next
    assume "get_ip_v packet 0 \<noteq> SUPPORTED_IP_VERSION"
    then show ?thesis
      unfolding networkHandleReceivedIpPacket_def
      by (simp add: Let_def v_put16_sum)
  qed
next
  show "put16 (put16 packet ip_sum 0) ip_sum (get16 packet ip_sum) = packet"
    by (rule put16_restore)
next
  assume "sizeof_sr_ip_hdr \<le> len \<and> MIN_IP_HEADER_LENGTH \<le> get_ip_hl packet 0
      \<and> cksum (bytes (put16 packet ip_sum 0) 0 (GET_IP_HEADER_LENGTH packet 0))
          = get16 packet ip_sum
      \<and> get_ip_v packet 0 = SUPPORTED_IP_VERSION"
  then show "networkHandleReceivedIpPacket E sr packet len interface =
         (if networkIpDesinationIsUs sr packet
          then (if get8 packet ip_p = ip_protocol_icmp
                then networkHandleIcmpPacket E sr packet len interface
                else NetworkSendTypeThreeIcmpPacket E sr
                       icmp_code_destination_port_unreachable packet)
          else if get8 packet ip_ttl = 1
          then linkArpAndSendPacket E (sr\<lparr>ipIdentifyNumber := ipIdentifyNumber sr + 1\<rparr>)
                 (timeExceededReply E sr packet interface)
                 (sizeof_sr_ethernet_hdr + sizeof_sr_ip_hdr + sizeof_sr_icmp_t3_hdr) interface
          else networkForwardIpPacket E sr
                 (put16 (put8 packet ip_ttl (get8 packet ip_ttl - 1)) ip_sum
                    (cksum (bytes (put16 (put8 packet ip_ttl (get8 packet ip_ttl - 1)) ip_sum 0)
                              0 (GET_IP_HEADER_LENGTH packet 0))))
                 len interface)"
    by (intro networkHandleReceivedIpPacket_valid) simp_all
qed

theorem ip_validation_witness:
  "networkHandleReceivedIpPacket host_be router (buffer datagram_bad_sum) 28 eth1
   = Inr (router, [])"
proof -
  have "cksum (bytes (put16 (buffer datagram_bad_sum) ip_sum 0) 0
                 (GET_IP_HEADER_LENGTH (buffer datagram_bad_sum) 0))
        \<noteq> get16 (buffer datagram_bad_sum) ip_sum"
    by (simp add: eval_defs datagram_bad_sum_def)
  then have "28 < sizeof_sr_ip_hdr
      \<or> get_ip_hl (buffer datagram_bad_sum) 0 < MIN_IP_HEADER_LENGTH
      \<or> cksum (bytes (put16 (buffer datagram_bad_sum) ip_sum 0) 0
                  (GET_IP_HEADER_LENGTH (buffer datagram_bad_sum) 0))
          \<noteq> get16 (buffer datagram_bad_sum) ip_sum
      \<or> get_ip_v (buffer datagram_bad_sum) 0 \<noteq> SUPPORTED_IP_VERSION"
    by (rule disjI2 [OF disjI2 [OF disjI1]])
  then show ?thesis
    by (rule ip_validation [THEN conjunct1, THEN mp])
qed

lemma interfaceLoop_iff: "interfaceLoop ip ifs \<longleftrightarrow> ip \<in> if_ip ` set ifs"
  by (induction ifs) auto

section \<open>Properties: the link layer and the ICMP replies\<close>

lemma bytes_append: "bytes m a (k + l) = bytes m a k @ bytes m (a + k) l"
proof (induction l)
  case 0
  show ?case
    by (simp add: bytes_def)
next
  case (Suc l)
  have "bytes m a (k + Suc l) = bytes m a (k + l) @ [m (a + (k + l))]"
    by (simp add: bytes_def)
  also have "\<dots> = bytes m a k @ bytes m (a + k) l @ [m (a + k + l)]"
    by (simp add: Suc.IH add.assoc)
  also have "bytes m (a + k) l @ [m (a + k + l)] = bytes m (a + k) (Suc l)"
    by (simp add: bytes_def)
  finally show ?case .
qed

lemma bytes_split: "k \<le> n \<Longrightarrow> bytes m 0 n = bytes m 0 k @ bytes m k (n - k)"
  using bytes_append [of m 0 k "n - k"] by simp

lemma bytes_upd_below: "i < a \<Longrightarrow> bytes (m(i := v)) a n = bytes m a n"
  by (simp add: bytes_def)

lemma bytes_putmac_below: "i + 6 \<le> a \<Longrightarrow> bytes (putmac m i x) a n = bytes m a n"
  by (cases x) (simp add: bytes_def putmac.simps)

lemma bytes_put16_below: "i + 2 \<le> a \<Longrightarrow> bytes (put16 m i x) a n = bytes m a n"
  by (simp add: bytes_def put16_def)

lemma ethernet_header_bytes:
  "bytes (putmac (putmac (put16 m 12 t) 6 s) 0 d) 0 14
   = mac_bytes d @ mac_bytes s @ bytes16 t"
  by (cases d; cases s) (simp add: mem_defs bytes16_def upt_rec)

lemma linkArpAndSendPacket_hit:
  assumes "nextHopIpAddress sr interface = Some nextHop"
    and "sr_arpcache_lookup (cache sr) nextHop = Some entry"
    and "sizeof_sr_ethernet_hdr \<le> len"
  shows "linkArpAndSendPacket E sr packet len interface =
     Inr (sr, [(mac_bytes (ent_mac entry) @ mac_bytes (if_addr interface) @ [0x08, 0x00]
                @ bytes packet 14 (len - 14), if_name interface)])"
proof -
  have len: "14 \<le> len"
    using assms(3) by (simp add: layout_defs)
  have "bytes16 ethertype_ip = [0x08, 0x00]"
    by (simp add: bytes16_def hi8_def lo8_def const_defs)
  then show ?thesis
    unfolding linkArpAndSendPacket_def
    by (simp add: assms(1,2) Let_def sr_send_packet_def bytes_split [OF len]
        ethernet_header_bytes bytes_putmac_below bytes_put16_below layout_defs)
qed

lemma find_None_map_id:
  "find (\<lambda>r. req_ip r = ip) rs = None \<Longrightarrow> map (\<lambda>x. if req_ip x = ip then y else x) rs = rs"
  by (induction rs) (auto split: if_splits)

lemma arp_request_bytes:
  "req_requestedInterface request = Some interface \<Longrightarrow>
   LinkSendArpRequest E request =
     Inr (mac_bytes broadcastEthernetAddress @ mac_bytes (if_addr interface)
          @ [0x08, 0x06, 0x00, 0x01, 0x08, 0x00, 6, 4, 0x00, 0x01]
          @ mac_bytes (if_addr interface) @ bytes32 (if_ip interface)
          @ [0, 0, 0, 0, 0, 0] @ bytes32 (req_ip request), if_name interface)"
proof -
  obtain a0 a1 a2 a3 a4 a5 where ia: "if_addr interface = Mac a0 a1 a2 a3 a4 a5"
    by (cases "if_addr interface")
  assume "req_requestedInterface request = Some interface"
  then show ?thesis
    unfolding LinkSendArpRequest_def
    by (simp add: Let_def sr_send_packet_def malloc_def ia mem_defs layout_defs const_defs
        bytes16_def bytes32_def hi8_def lo8_def upt_rec broadcastEthernetAddress_def)
qed

lemma linkArpAndSendPacket_new_request:
  assumes "nextHopIpAddress sr interface = Some nextHop"
    and "sr_arpcache_lookup (cache sr) nextHop = None"
    and "find (\<lambda>r. req_ip r = nextHop) (requests (cache sr)) = None"
  shows "linkArpAndSendPacket E sr packet len interface =
     Inr (sr\<lparr>cache := (cache sr)\<lparr>requests :=
              \<lparr>req_ip = nextHop, req_sent = time_now E, req_times_sent = 1,
                req_packets = [\<lparr>pkt_buf = putmac (put16 packet ether_type ethertype_ip)
                                              ether_shost (if_addr interface),
                                 pkt_len = len, pkt_iface = if_name interface\<rparr>],
                req_requestedInterface = Some interface\<rparr> # requests (cache sr)\<rparr>\<rparr>,
          [(mac_bytes broadcastEthernetAddress @ mac_bytes (if_addr interface)
            @ [0x08, 0x06, 0x00, 0x01, 0x08, 0x00, 6, 4, 0x00, 0x01]
            @ mac_bytes (if_addr interface) @ bytes32 (if_ip interface)
            @ [0, 0, 0, 0, 0, 0] @ bytes32 nextHop, if_name interface)])"
  unfolding linkArpAndSendPacket_def
  by (simp add: assms Let_def sr_arpcache_queuereq_def sr_arpcache_store_def arp_request_bytes
      find_None_map_id)

lemma linkArpAndSendPacket_pending:
  assumes "nextHopIpAddress sr interface = Some nextHop"
    and "sr_arpcache_lookup (cache sr) nextHop = None"
    and "find (\<lambda>r. req_ip r = nextHop) (requests (cache sr)) = Some r"
    and "req_times_sent r \<noteq> 0"
  shows "linkArpAndSendPacket E sr packet len interface =
     Inr (sr\<lparr>cache := (cache sr)\<lparr>requests :=
              map (\<lambda>x. if req_ip x = nextHop
                       then r\<lparr>req_packets := req_packets r
                                  @ [\<lparr>pkt_buf = putmac (put16 packet ether_type ethertype_ip)
                                                  ether_shost (if_addr interface),
                                      pkt_len = len, pkt_iface = if_name interface\<rparr>]\<rparr>
                       else x) (requests (cache sr))\<rparr>\<rparr>, [])"
  unfolding linkArpAndSendPacket_def
  by (simp add: assms Let_def sr_arpcache_queuereq_def)

lemma low_nibble: "(0x0F :: byte) = mask 4"
  by (simp add: mask_eq_exp_minus_1)

lemma high_nibble: "(0xF0 :: byte) = push_bit 4 (mask 4)"
  by (simp add: mask_eq_exp_minus_1)

lemma vhl_byte:
  "((push_bit 4 v OR (j AND 0x0F)) AND 0xF0) OR (h AND 0x0F)
   = push_bit 4 v OR (h AND (0x0F :: byte))"
  unfolding low_nibble high_nibble
  by (rule bit_word_eqI) (auto simp: bit_simps)

lemma set_ip_v_hl: "set_ip_hl (set_ip_v m p 4) p 5 = m(p := 0x45)"
  using vhl_byte [of 4 "m p" 5]
  by (simp add: set_ip_hl_def set_ip_v_def ip_vhl_def)

lemma cksum_weak_cong: "cksum x = cksum x"
  by (rule refl)

lemma bytes_zero: "bytes m a 0 = []"
  by (simp add: bytes_def)

lemma bytes_Suc: "bytes m a (Suc n) = m a # bytes m (a + 1) n"
  using bytes_append [of m a 1 n] by (simp add: bytes_def)

lemma bytes_one: "bytes m a 1 = [m a]"
  by (simp add: bytes_def)

lemma bytes_Suc0: "bytes m a (Suc 0) = [m a]"
  by (simp add: bytes_def)

lemma bytes_numeral: "bytes m a (numeral k) = m a # bytes m (Suc a) (pred_numeral k)"
  by (simp add: numeral_eq_Suc bytes_Suc)

lemmas bytes_simps = bytes_zero bytes_one bytes_Suc0 bytes_numeral numeral_2_eq_2 [symmetric]

lemmas put_defs = put8_def put16_def put32_def putmac.simps memcpy_def memset_def get8_def
  get16_def get32_def getmac_def ptr_add_def

lemma timeExceededReply_bytes:
  "bytes (timeExceededReply E sr packet interface) 14 56 =
     [0x45, 0, 0, 56] @ bytes16 (ipIdentifyNumber sr) @ [0x40, 0, 64, 1]
     @ bytes16 (cksum ([0x45, 0, 0, 56] @ bytes16 (ipIdentifyNumber sr)
                       @ [0x40, 0, 64, 1, 0, 0] @ bytes32 (if_ip interface)
                       @ bytes32 (get32 packet ip_src)))
     @ bytes32 (if_ip interface) @ bytes32 (get32 packet ip_src)
     @ [11, 0]
     @ bytes16 (cksum ([11, 0, 0, 0] @ bytes (fresh_memory E) 38 4 @ bytes packet 0 28))
     @ bytes (fresh_memory E) 38 4 @ bytes packet 0 28"
  unfolding timeExceededReply_def
  apply (simp add: Let_def set_ip_v_hl malloc_def put_defs bytes_simps layout_defs const_defs
      bytes16_def bytes32_def cong: cksum_weak_cong)
  apply (intro conjI arg_cong [where f = hi8] arg_cong [where f = lo8]
      arg_cong [where f = cksum])
  apply (simp_all add: set_ip_v_hl GET_IP_HEADER_LENGTH_def get_ip_hl_def layout_defs
      put_defs bytes_simps bytes16_def bytes32_def hi8_def lo8_def cong: cksum_weak_cong)
  done

lemma byte_be32_simps:
  "byte3 (be32 a b c d) = a" "byte2 (be32 a b c d) = b"
  "byte1 (be32 a b c d) = c" "byte0 (be32 a b c d) = d"
  by (rule byte3_be32 byte2_be32 byte1_be32 byte0_be32)+

lemma get32_put32: "get32 (put32 m a v) a = v"
  by (simp add: get32_def put32_def be32_bytes)

lemma sr_get_interface_id [simp]:
  "sr_get_interface (sr\<lparr>ipIdentifyNumber := n\<rparr>) name = sr_get_interface sr name"
  by (simp add: sr_get_interface_def)

lemma NetworkSendTypeThreeIcmpPacket_reply:
  assumes "\<not> networkIpSourceIsUs sr originalPacketPtr"
    and "routeLoop (host_order E) (get32 originalPacketPtr ip_src) (routing_table sr) None (- 1)
         = Some icmpRoute"
    and "sr_get_interface sr (rt_interface icmpRoute) = Some destinationInterface"
  shows "\<exists>replyPacket.
           NetworkSendTypeThreeIcmpPacket E sr icmpCode originalPacketPtr
           = linkArpAndSendPacket E (sr\<lparr>ipIdentifyNumber := ipIdentifyNumber sr + 1\<rparr>)
               replyPacket 70 destinationInterface
         \<and> bytes replyPacket 14 56 =
             [0x45, 0, 0, 56] @ bytes16 (ipIdentifyNumber sr) @ [0x40, 0, 64, 1]
             @ bytes16 (cksum ([0x45, 0, 0, 56] @ bytes16 (ipIdentifyNumber sr)
                               @ [0x40, 0, 64, 1, 0, 0] @ bytes32 (if_ip destinationInterface)
                               @ bytes32 (get32 originalPacketPtr ip_src)))
             @ bytes32 (if_ip destinationInterface) @ bytes32 (get32 originalPacketPtr ip_src)
             @ [3, icmpCode]
             @ bytes16 (cksum ([3, icmpCode, 0, 0] @ bytes (fresh_memory E) 38 4
                               @ bytes originalPacketPtr 0 28))
             @ bytes (fresh_memory E) 38 4 @ bytes originalPacketPtr 0 28"
proof -
  have route: "networkGetPacketRoute E (sr\<lparr>ipIdentifyNumber := n\<rparr>)
                 (ptr_add (put32 m 30 (get32 originalPacketPtr 12)) 14)
               = Some icmpRoute" for n m
    using assms(2)
    by (simp add: networkGetPacketRoute_def ptr_add_def get32_def put32_def ip_dst_def
        ip_src_def be32_bytes)
  show ?thesis
    unfolding NetworkSendTypeThreeIcmpPacket_def
    apply (simp add: Let_def assms(1) layout_defs route assms(3)
        cong: cksum_weak_cong)
    apply (intro exI conjI)
     apply (rule refl)
    apply (simp add: Let_def set_ip_v_hl malloc_def put_defs bytes_simps layout_defs const_defs
        bytes16_def bytes32_def byte_be32_simps cong: cksum_weak_cong)
    apply (intro conjI arg_cong [where f = hi8] arg_cong [where f = lo8]
        arg_cong [where f = cksum])
        apply (simp_all add: set_ip_v_hl GET_IP_HEADER_LENGTH_def get_ip_hl_def layout_defs
        const_defs malloc_def put_defs bytes_simps bytes16_def bytes32_def hi8_def lo8_def byte_be32_simps
        cong: cksum_weak_cong)
    done
qed

section \<open>Properties: forwarding\<close>

lemma be16_bytes: "be16 (hi8 w) (lo8 w) = w"
proof (rule bit_word_eqI)
  fix n
  assume "n < LENGTH(16)"
  then consider "n < 8" | "8 \<le> n \<and> n < 16"
    by fastforce
  then show "bit (be16 (hi8 w) (lo8 w)) n = bit w n"
    unfolding hi8_def lo8_def be16_def
    by cases (auto simp: bit_simps)
qed

lemma get16_put16: "get16 (put16 m a v) a = v"
  by (simp add: get16_def put16_def be16_bytes)

lemma bytes_memcpy: "bytes (memcpy dst d src s n) d n = bytes src s n"
  by (simp add: bytes_def memcpy_def)

lemma networkForwardIpPacket_sends:
  assumes "networkGetPacketRoute E sr packet = Some forwardRoute"
    and "rt_interface forwardRoute \<noteq> if_name receivedInterface"
    and "sr_get_interface sr (rt_interface forwardRoute) = Some forwardInterface"
    and "nextHopIpAddress sr forwardInterface = Some nextHop"
    and "sr_arpcache_lookup (cache sr) nextHop = Some entry"
  shows "networkForwardIpPacket E sr packet len receivedInterface =
     Inr (sr, [(mac_bytes (ent_mac entry) @ mac_bytes (if_addr forwardInterface)
                @ [0x08, 0x00] @ bytes packet 0 len, if_name forwardInterface)])"
proof -
  have "sizeof_sr_ethernet_hdr \<le> len + sizeof_sr_ethernet_hdr"
    by simp
  from linkArpAndSendPacket_hit [OF assms(4,5) this]
  show ?thesis
    unfolding networkForwardIpPacket_def
    using bytes_memcpy [of "malloc E (len + 14)" 14 packet 0 len]
    by (simp add: assms(1-3) Let_def sizeof_sr_ethernet_hdr_def)
qed

lemma forwardedPacket_eq:
  "forwardedPacket packet =
     put16 (put8 packet ip_ttl (get8 packet ip_ttl - 1)) ip_sum
       (cksum (bytes (put16 (put8 packet ip_ttl (get8 packet ip_ttl - 1)) ip_sum 0) 0
                 (GET_IP_HEADER_LENGTH packet 0)))"
  by (simp add: forwardedPacket_def Let_def put16_put16 hdrlen_put16_sum hdrlen_put8_ttl)

lemma networkGetPacketRoute_forwardedPacket:
  "networkGetPacketRoute E sr (forwardedPacket packet) = networkGetPacketRoute E sr packet"
  by (simp add: networkGetPacketRoute_def forwardedPacket_eq get32_def put16_def put8_def
      layout_defs)

text \<open>
  Claim C4: a received IPv4 packet that passes the checks and is not addressed to one of
  the router's interfaces is, with TTL 1, answered with an ICMP Time Exceeded (type 11,
  code 0) to its source that quotes the first 28 bytes of the packet with the TTL byte
  at 1, handed to the link layer for the receiving interface and leaving there when the
  next hop of that interface is resolved, and is not forwarded; with a TTL of 2 or
  more it goes to the forwarding step with the TTL one less and a checksum recomputed over
  that header, every other byte unchanged, and leaves on the route's interface when
  there is a route through another interface and the next hop is resolved.
\<close>

theorem ttl_decision:
  assumes "sizeof_sr_ip_hdr \<le> len"
    and "MIN_IP_HEADER_LENGTH \<le> get_ip_hl packet 0"
    and "cksum (bytes (put16 packet ip_sum 0) 0 (GET_IP_HEADER_LENGTH packet 0))
         = get16 packet ip_sum"
    and "get_ip_v packet 0 = SUPPORTED_IP_VERSION"
    and "\<not> networkIpDesinationIsUs sr packet"
  shows "(get8 packet ip_ttl = 1 \<longrightarrow>
            networkHandleReceivedIpPacket E sr packet len interface
            = linkArpAndSendPacket E (sr\<lparr>ipIdentifyNumber := ipIdentifyNumber sr + 1\<rparr>)
                (timeExceededReply E sr packet interface) 70 interface
          \<and> bytes (timeExceededReply E sr packet interface) 14 56 =
              [0x45, 0, 0, 56] @ bytes16 (ipIdentifyNumber sr) @ [0x40, 0, 64, 1]
              @ bytes16 (cksum ([0x45, 0, 0, 56] @ bytes16 (ipIdentifyNumber sr)
                                @ [0x40, 0, 64, 1, 0, 0] @ bytes32 (if_ip interface)
                                @ bytes32 (get32 packet ip_src)))
              @ bytes32 (if_ip interface) @ bytes32 (get32 packet ip_src)
              @ [11, 0]
              @ bytes16 (cksum ([11, 0, 0, 0] @ bytes (fresh_memory E) 38 4
                                @ bytes packet 0 28))
              @ bytes (fresh_memory E) 38 4 @ bytes packet 0 28
          \<and> bytes packet 0 28 ! 8 = 1
          \<and> (\<forall>nextHop entry.
                 nextHopIpAddress sr interface = Some nextHop
                 \<and> sr_arpcache_lookup (cache sr) nextHop = Some entry
                 \<longrightarrow> networkHandleReceivedIpPacket E sr packet len interface
                     = Inr (sr\<lparr>ipIdentifyNumber := ipIdentifyNumber sr + 1\<rparr>,
                            [(mac_bytes (ent_mac entry) @ mac_bytes (if_addr interface)
                              @ [0x08, 0x00]
                              @ bytes (timeExceededReply E sr packet interface) 14 56,
                              if_name interface)])))
       \<and> (2 \<le> get8 packet ip_ttl \<longrightarrow>
            networkHandleReceivedIpPacket E sr packet len interface
            = networkForwardIpPacket E sr (forwardedPacket packet) len interface
          \<and> get8 (forwardedPacket packet) ip_ttl = get8 packet ip_ttl - 1
          \<and> get16 (forwardedPacket packet) ip_sum
              = cksum (bytes (put16 (forwardedPacket packet) ip_sum 0) 0
                         (GET_IP_HEADER_LENGTH (forwardedPacket packet) 0))
          \<and> (\<forall>i. i \<noteq> ip_ttl \<and> i \<noteq> ip_sum \<and> i \<noteq> ip_sum + 1
                 \<longrightarrow> forwardedPacket packet i = packet i)
          \<and> (\<forall>forwardRoute forwardInterface nextHop entry.
                 networkGetPacketRoute E sr packet = Some forwardRoute
                 \<and> rt_interface forwardRoute \<noteq> if_name interface
                 \<and> sr_get_interface sr (rt_interface forwardRoute) = Some forwardInterface
                 \<and> nextHopIpAddress sr forwardInterface = Some nextHop
                 \<and> sr_arpcache_lookup (cache sr) nextHop = Some entry
                 \<longrightarrow> networkHandleReceivedIpPacket E sr packet len interface
                     = Inr (sr, [(mac_bytes (ent_mac entry)
                                  @ mac_bytes (if_addr forwardInterface) @ [0x08, 0x00]
                                  @ bytes (forwardedPacket packet) 0 len,
                                  if_name forwardInterface)])))"
proof (intro conjI impI allI)
  assume ttl: "get8 packet ip_ttl = 1"
  show "networkHandleReceivedIpPacket E sr packet len interface
        = linkArpAndSendPacket E (sr\<lparr>ipIdentifyNumber := ipIdentifyNumber sr + 1\<rparr>)
            (timeExceededReply E sr packet interface) 70 interface"
    using assms(5) ttl
    by (simp add: networkHandleReceivedIpPacket_valid [OF assms(1-4)] layout_defs)
  show "bytes (timeExceededReply E sr packet interface) 14 56 =
              [0x45, 0, 0, 56] @ bytes16 (ipIdentifyNumber sr) @ [0x40, 0, 64, 1]
              @ bytes16 (cksum ([0x45, 0, 0, 56] @ bytes16 (ipIdentifyNumber sr)
                                @ [0x40, 0, 64, 1, 0, 0] @ bytes32 (if_ip interface)
                                @ bytes32 (get32 packet ip_src)))
              @ bytes32 (if_ip interface) @ bytes32 (get32 packet ip_src)
              @ [11, 0]
              @ bytes16 (cksum ([11, 0, 0, 0] @ bytes (fresh_memory E) 38 4
                                @ bytes packet 0 28))
              @ bytes (fresh_memory E) 38 4 @ bytes packet 0 28"
    by (rule timeExceededReply_bytes)
  show "bytes packet 0 28 ! 8 = 1"
    using ttl by (simp add: bytes_def get8_def ip_ttl_def)
next
  fix nextHop entry
  assume ttl: "get8 packet ip_ttl = 1"
    and r: "nextHopIpAddress sr interface = Some nextHop
            \<and> sr_arpcache_lookup (cache sr) nextHop = Some entry"
  have "networkHandleReceivedIpPacket E sr packet len interface
        = linkArpAndSendPacket E (sr\<lparr>ipIdentifyNumber := ipIdentifyNumber sr + 1\<rparr>)
            (timeExceededReply E sr packet interface) 70 interface"
    using assms(5) ttl
    by (simp add: networkHandleReceivedIpPacket_valid [OF assms(1-4)] layout_defs)
  also have "\<dots> = Inr (sr\<lparr>ipIdentifyNumber := ipIdentifyNumber sr + 1\<rparr>,
                            [(mac_bytes (ent_mac entry) @ mac_bytes (if_addr interface)
                              @ [0x08, 0x00]
                              @ bytes (timeExceededReply E sr packet interface) 14 (70 - 14),
                              if_name interface)])"
  proof (rule linkArpAndSendPacket_hit)
    show "nextHopIpAddress (sr\<lparr>ipIdentifyNumber := ipIdentifyNumber sr + 1\<rparr>) interface
          = Some nextHop"
      using r by (simp add: nextHopIpAddress_def sr_get_rt_def)
    show "sr_arpcache_lookup (cache (sr\<lparr>ipIdentifyNumber := ipIdentifyNumber sr + 1\<rparr>))
            nextHop = Some entry"
      using r by simp
    show "sizeof_sr_ethernet_hdr \<le> 70"
      by (simp add: sizeof_sr_ethernet_hdr_def)
  qed
  finally show "networkHandleReceivedIpPacket E sr packet len interface
                     = Inr (sr\<lparr>ipIdentifyNumber := ipIdentifyNumber sr + 1\<rparr>,
                            [(mac_bytes (ent_mac entry) @ mac_bytes (if_addr interface)
                              @ [0x08, 0x00]
                              @ bytes (timeExceededReply E sr packet interface) 14 56,
                              if_name interface)])"
    by simp
next
  assume ttl: "2 \<le> get8 packet ip_ttl"
  then have ne: "get8 packet ip_ttl \<noteq> 1"
    by (auto simp: word_le_nat_alt)
  show fwd: "networkHandleReceivedIpPacket E sr packet len interface
        = networkForwardIpPacket E sr (forwardedPacket packet) len interface"
    using assms(5) ne
    by (simp add: networkHandleReceivedIpPacket_valid [OF assms(1-4)] forwardedPacket_eq)
  show "get8 (forwardedPacket packet) ip_ttl = get8 packet ip_ttl - 1"
    by (simp add: forwardedPacket_eq put_defs layout_defs)
  show "get16 (forwardedPacket packet) ip_sum
        = cksum (bytes (put16 (forwardedPacket packet) ip_sum 0) 0
                   (GET_IP_HEADER_LENGTH (forwardedPacket packet) 0))"
    by (simp add: forwardedPacket_eq put16_put16 hdrlen_put16_sum hdrlen_put8_ttl
        get16_put16)
  fix i
  assume "i \<noteq> ip_ttl \<and> i \<noteq> ip_sum \<and> i \<noteq> ip_sum + 1"
  then show "forwardedPacket packet i = packet i"
    by (simp add: forwardedPacket_eq put_defs)
next
  fix forwardRoute forwardInterface nextHop entry
  assume ttl: "2 \<le> get8 packet ip_ttl"
    and r: "networkGetPacketRoute E sr packet = Some forwardRoute
                 \<and> rt_interface forwardRoute \<noteq> if_name interface
                 \<and> sr_get_interface sr (rt_interface forwardRoute) = Some forwardInterface
                 \<and> nextHopIpAddress sr forwardInterface = Some nextHop
                 \<and> sr_arpcache_lookup (cache sr) nextHop = Some entry"
  from ttl have ne: "get8 packet ip_ttl \<noteq> 1"
    by (auto simp: word_le_nat_alt)
  have "networkHandleReceivedIpPacket E sr packet len interface
        = networkForwardIpPacket E sr (forwardedPacket packet) len interface"
    using assms(5) ne
    by (simp add: networkHandleReceivedIpPacket_valid [OF assms(1-4)] forwardedPacket_eq)
  also have "\<dots> = Inr (sr, [(mac_bytes (ent_mac entry)
                                  @ mac_bytes (if_addr forwardInterface) @ [0x08, 0x00]
                                  @ bytes (forwardedPacket packet) 0 len,
                                  if_name forwardInterface)])"
  proof (rule networkForwardIpPacket_sends)
    show "networkGetPacketRoute E sr (forwardedPacket packet) = Some forwardRoute"
      using r by (simp add: networkGetPacketRoute_forwardedPacket)
    show "rt_interface forwardRoute \<noteq> if_name interface"
      using r by simp
    show "sr_get_interface sr (rt_interface forwardRoute) = Some forwardInterface"
      using r by simp
    show "nextHopIpAddress sr forwardInterface = Some nextHop"
      using r by simp
    show "sr_arpcache_lookup (cache sr) nextHop = Some entry"
      using r by simp
  qed
  finally show "networkHandleReceivedIpPacket E sr packet len interface
                     = Inr (sr, [(mac_bytes (ent_mac entry)
                                  @ mac_bytes (if_addr forwardInterface) @ [0x08, 0x00]
                                  @ bytes (forwardedPacket packet) 0 len,
                                  if_name forwardInterface)])" .
qed

theorem ttl_decision_witness:
  "networkHandleReceivedIpPacket host_be router_resolved (buffer datagram_ttl1) 28 eth1
   = Inr (router_resolved\<lparr>ipIdentifyNumber := 8\<rparr>,
          [([0xDD, 0, 0, 0, 0, 0xFE, 0xAA, 0, 0, 0, 0, 2, 8, 0,
             0x45, 0, 0, 56, 0, 7, 0x40, 0, 64, 1, 138, 167, 172, 16, 0, 1, 1, 2, 3, 4,
             11, 0, 159, 56, 0xAA, 0xAA, 0xAA, 0xAA,
             0x45, 0, 0, 28, 0, 0, 0, 0, 1, 17, 0xF4, 0x1A, 1, 2, 3, 4, 192, 168, 1, 9,
             0, 53, 0, 53, 0, 8, 0, 0], ''eth1'')])
   \<and> networkHandleReceivedIpPacket host_be router_resolved (buffer datagram_ttl2) 28 eth1
     = Inr (router_resolved,
            [([0xCC, 0, 0, 0, 0, 0xFE, 0xAA, 0, 0, 0, 0, 1, 8, 0,
               0x45, 0, 0, 28, 0, 0, 0, 0, 1, 17, 0xF4, 0x1A, 1, 2, 3, 4, 192, 168, 1, 9,
               0, 53, 0, 53, 0, 8, 0, 0], ''eth0'')])"
proof -
  have h1: "sizeof_sr_ip_hdr \<le> 28"
    "MIN_IP_HEADER_LENGTH \<le> get_ip_hl (buffer datagram_ttl1) 0"
    "cksum (bytes (put16 (buffer datagram_ttl1) ip_sum 0) 0
              (GET_IP_HEADER_LENGTH (buffer datagram_ttl1) 0))
     = get16 (buffer datagram_ttl1) ip_sum"
    "get_ip_v (buffer datagram_ttl1) 0 = SUPPORTED_IP_VERSION"
    "\<not> networkIpDesinationIsUs router_resolved (buffer datagram_ttl1)"
    by (simp_all add: eval_defs datagram_ttl1_def networkIpDesinationIsUs_def
        router_resolved_def router_def eth0_def eth1_def)
  have h2: "sizeof_sr_ip_hdr \<le> 28"
    "MIN_IP_HEADER_LENGTH \<le> get_ip_hl (buffer datagram_ttl2) 0"
    "cksum (bytes (put16 (buffer datagram_ttl2) ip_sum 0) 0
              (GET_IP_HEADER_LENGTH (buffer datagram_ttl2) 0))
     = get16 (buffer datagram_ttl2) ip_sum"
    "get_ip_v (buffer datagram_ttl2) 0 = SUPPORTED_IP_VERSION"
    "\<not> networkIpDesinationIsUs router_resolved (buffer datagram_ttl2)"
    by (simp_all add: eval_defs datagram_ttl2_def networkIpDesinationIsUs_def
        router_resolved_def router_def eth0_def eth1_def)
  have t: "get8 (buffer datagram_ttl1) ip_ttl = 1" "2 \<le> get8 (buffer datagram_ttl2) ip_ttl"
    by (simp_all add: eval_defs datagram_ttl1_def datagram_ttl2_def)
  have r: "networkGetPacketRoute host_be router_resolved (buffer datagram_ttl2)
           = Some route_lan"
    "sr_get_interface router_resolved (rt_interface route_lan) = Some eth0"
    "nextHopIpAddress router_resolved eth0 = Some 0x0A0000FE"
    "sr_arpcache_lookup (cache router_resolved) 0x0A0000FE
     = Some \<lparr>ent_mac = Mac 0xCC 0 0 0 0 0xFE, ent_ip = 0x0A0000FE, ent_added = 90\<rparr>"
    "rt_interface route_lan \<noteq> if_name eth1"
    by code_simp+
  have n: "nextHopIpAddress
             (router_resolved\<lparr>ipIdentifyNumber := ipIdentifyNumber router_resolved + 1\<rparr>)
             eth1 = Some 0xAC1000FE"
    "sr_arpcache_lookup
       (cache (router_resolved\<lparr>ipIdentifyNumber := ipIdentifyNumber router_resolved + 1\<rparr>))
       0xAC1000FE
     = Some \<lparr>ent_mac = Mac 0xDD 0 0 0 0 0xFE, ent_ip = 0xAC1000FE, ent_added = 95\<rparr>"
    "sizeof_sr_ethernet_hdr \<le> 70"
    by code_simp+
  have "get8 (buffer datagram_ttl2) ip_ttl - 1 = 1"
    by (simp add: eval_defs datagram_ttl2_def)
  then have e1: "bytes (forwardedPacket (buffer datagram_ttl2)) 0 28 = datagram_ttl1"
    by (simp add: forwardedPacket_eq eval_defs datagram_ttl1_def datagram_ttl2_def)
  note d1 = ttl_decision [OF h1, of host_be eth1, THEN conjunct1, rule_format, OF t(1)]
  note d2 = ttl_decision [OF h2, of host_be eth1, THEN conjunct2, rule_format, OF t(2)]
  have a: "networkHandleReceivedIpPacket host_be router_resolved (buffer datagram_ttl1) 28 eth1
   = Inr (router_resolved\<lparr>ipIdentifyNumber := 8\<rparr>,
          [([0xDD, 0, 0, 0, 0, 0xFE, 0xAA, 0, 0, 0, 0, 2, 8, 0,
             0x45, 0, 0, 56, 0, 7, 0x40, 0, 64, 1, 138, 167, 172, 16, 0, 1, 1, 2, 3, 4,
             11, 0, 159, 56, 0xAA, 0xAA, 0xAA, 0xAA,
             0x45, 0, 0, 28, 0, 0, 0, 0, 1, 17, 0xF4, 0x1A, 1, 2, 3, 4, 192, 168, 1, 9,
             0, 53, 0, 53, 0, 8, 0, 0], ''eth1'')])"
  proof -
    have "bytes (timeExceededReply host_be router_resolved (buffer datagram_ttl1) eth1) 14 56
          = [0x45, 0, 0, 56, 0, 7, 0x40, 0, 64, 1, 138, 167, 172, 16, 0, 1, 1, 2, 3, 4,
             11, 0, 159, 56, 0xAA, 0xAA, 0xAA, 0xAA,
             0x45, 0, 0, 28, 0, 0, 0, 0, 1, 17, 0xF4, 0x1A, 1, 2, 3, 4, 192, 168, 1, 9,
             0, 53, 0, 53, 0, 8, 0, 0]"
      unfolding d1 [THEN conjunct2, THEN conjunct1]
      by (simp add: eval_defs datagram_ttl1_def router_resolved_def router_def eth1_def
          host_be_def)
    then show ?thesis
      using d1 [THEN conjunct1]
        linkArpAndSendPacket_hit [OF n, of host_be
          "timeExceededReply host_be router_resolved (buffer datagram_ttl1) eth1"]
      by (simp add: router_resolved_def router_def eth1_def)
  qed
  have b: "networkHandleReceivedIpPacket host_be router_resolved (buffer datagram_ttl2) 28 eth1
     = Inr (router_resolved,
            [([0xCC, 0, 0, 0, 0, 0xFE, 0xAA, 0, 0, 0, 0, 1, 8, 0,
               0x45, 0, 0, 28, 0, 0, 0, 0, 1, 17, 0xF4, 0x1A, 1, 2, 3, 4, 192, 168, 1, 9,
               0, 53, 0, 53, 0, 8, 0, 0], ''eth0'')])"
    using d2 [THEN conjunct2, THEN conjunct2, THEN conjunct2, THEN conjunct2, rule_format,
        of route_lan eth0 "0x0A0000FE"
          "\<lparr>ent_mac = Mac 0xCC 0 0 0 0 0xFE, ent_ip = 0x0A0000FE, ent_added = 90\<rparr>"]
      r e1
    by (simp add: datagram_ttl1_def eth0_def)
  from a b show ?thesis
    by (rule conjI)
qed

section \<open>Properties: ICMP errors about the router's own datagrams\<close>

lemma NetworkSendTypeThreeIcmpPacket_self:
  "networkIpSourceIsUs sr packet \<Longrightarrow>
   NetworkSendTypeThreeIcmpPacket E sr icmpCode packet = Inr (sr, [])"
  by (simp add: NetworkSendTypeThreeIcmpPacket_def)

text \<open>
  Claim C2, for the two Destination Unreachable errors: when the source address of the
  offending datagram is the address of one of the router's interfaces,
  \<open>NetworkSendTypeThreeIcmpPacket\<close> sends nothing and leaves the router as it is,
  whatever the code; so do its callers, the Host Unreachable of the forwarding step
  (no route, or a route back through the receiving interface) and the Port Unreachable
  for a datagram to the router that is not ICMP.
\<close>

theorem self_unreachable_suppressed:
  assumes "get32 packet ip_src \<in> if_ip ` set (if_list sr)"
  shows "NetworkSendTypeThreeIcmpPacket E sr icmpCode packet = Inr (sr, [])
       \<and> (networkGetPacketRoute E sr packet = None
            \<longrightarrow> networkForwardIpPacket E sr packet len interface = Inr (sr, []))
       \<and> (\<forall>forwardRoute. networkGetPacketRoute E sr packet = Some forwardRoute
              \<and> rt_interface forwardRoute = if_name interface
            \<longrightarrow> networkForwardIpPacket E sr packet len interface = Inr (sr, []))
       \<and> (sizeof_sr_ip_hdr \<le> len
            \<and> MIN_IP_HEADER_LENGTH \<le> get_ip_hl packet 0
            \<and> cksum (bytes (put16 packet ip_sum 0) 0 (GET_IP_HEADER_LENGTH packet 0))
                = get16 packet ip_sum
            \<and> get_ip_v packet 0 = SUPPORTED_IP_VERSION
            \<and> networkIpDesinationIsUs sr packet
            \<and> get8 packet ip_p \<noteq> ip_protocol_icmp
            \<longrightarrow> networkHandleReceivedIpPacket E sr packet len interface = Inr (sr, []))"
proof -
  from assms have self: "networkIpSourceIsUs sr packet"
    by (simp add: networkIpSourceIsUs_def interfaceLoop_iff)
  note drop = NetworkSendTypeThreeIcmpPacket_self [OF self]
  show ?thesis
  proof (intro conjI impI allI)
    show "NetworkSendTypeThreeIcmpPacket E sr icmpCode packet = Inr (sr, [])"
      by (rule drop)
  next
    assume "networkGetPacketRoute E sr packet = None"
    then show "networkForwardIpPacket E sr packet len interface = Inr (sr, [])"
      by (simp add: networkForwardIpPacket_def drop)
  next
    fix forwardRoute
    assume "networkGetPacketRoute E sr packet = Some forwardRoute
              \<and> rt_interface forwardRoute = if_name interface"
    then show "networkForwardIpPacket E sr packet len interface = Inr (sr, [])"
      by (simp add: networkForwardIpPacket_def drop)
  next
    assume v: "sizeof_sr_ip_hdr \<le> len
            \<and> MIN_IP_HEADER_LENGTH \<le> get_ip_hl packet 0
            \<and> cksum (bytes (put16 packet ip_sum 0) 0 (GET_IP_HEADER_LENGTH packet 0))
                = get16 packet ip_sum
            \<and> get_ip_v packet 0 = SUPPORTED_IP_VERSION
            \<and> networkIpDesinationIsUs sr packet
            \<and> get8 packet ip_p \<noteq> ip_protocol_icmp"
    then have "networkHandleReceivedIpPacket E sr packet len interface
               = NetworkSendTypeThreeIcmpPacket E sr icmp_code_destination_port_unreachable
                   packet"
      by (simp add: networkHandleReceivedIpPacket_valid)
    then show "networkHandleReceivedIpPacket E sr packet len interface = Inr (sr, [])"
      by (simp add: drop)
  qed
qed

theorem self_unreachable_suppressed_witness:
  "NetworkSendTypeThreeIcmpPacket host_be router_resolved
     icmp_code_destination_host_unreachable (buffer datagram_self_udp)
   = Inr (router_resolved, [])
   \<and> networkHandleReceivedIpPacket host_be router_resolved (buffer datagram_self_udp) 28 eth1
     = Inr (router_resolved, [])"
proof -
  have s: "get32 (buffer datagram_self_udp) ip_src \<in> if_ip ` set (if_list router_resolved)"
    by (simp add: eval_defs datagram_self_udp_def router_resolved_def router_def eth0_def
        eth1_def)
  have h: "sizeof_sr_ip_hdr \<le> 28"
    "MIN_IP_HEADER_LENGTH \<le> get_ip_hl (buffer datagram_self_udp) 0"
    "cksum (bytes (put16 (buffer datagram_self_udp) ip_sum 0) 0
              (GET_IP_HEADER_LENGTH (buffer datagram_self_udp) 0))
     = get16 (buffer datagram_self_udp) ip_sum"
    "get_ip_v (buffer datagram_self_udp) 0 = SUPPORTED_IP_VERSION"
    "networkIpDesinationIsUs router_resolved (buffer datagram_self_udp)"
    "get8 (buffer datagram_self_udp) ip_p \<noteq> ip_protocol_icmp"
    by (simp_all add: eval_defs datagram_self_udp_def networkIpDesinationIsUs_def
        router_resolved_def router_def eth0_def eth1_def)
  show ?thesis
    using self_unreachable_suppressed [OF s, of host_be
        icmp_code_destination_host_unreachable 28 eth1] h
    by (simp only: simp_thms)
qed

text \<open>
  The Time Exceeded reply is built in \<open>networkHandleReceivedIpPacket\<close> itself, which does
  not look at the source address: a datagram with TTL 1 from the router's own 10.0.0.1,
  received on \<open>eth1\<close>, is answered with a Time Exceeded addressed to 10.0.0.1.
\<close>

theorem time_exceeded_to_self:
  "networkIpSourceIsUs router_resolved (buffer datagram_self_ttl1)
   \<and> networkHandleReceivedIpPacket host_be router_resolved (buffer datagram_self_ttl1) 28 eth1
     = Inr (router_resolved\<lparr>ipIdentifyNumber := 8\<rparr>,
            [([0xDD, 0, 0, 0, 0, 0xFE, 0xAA, 0, 0, 0, 0, 2, 8, 0,
               0x45, 0, 0, 56, 0, 7, 0x40, 0, 64, 1, 132, 172, 172, 16, 0, 1, 10, 0, 0, 1,
               11, 0, 159, 56, 0xAA, 0xAA, 0xAA, 0xAA,
               0x45, 0, 0, 28, 0, 0, 0, 0, 1, 17, 0xEE, 0x1F, 10, 0, 0, 1, 192, 168, 1, 9,
               0, 53, 0, 53, 0, 8, 0, 0], ''eth1'')])"
proof -
  have s: "networkIpSourceIsUs router_resolved (buffer datagram_self_ttl1)"
    by (simp add: eval_defs datagram_self_ttl1_def networkIpSourceIsUs_def
        router_resolved_def router_def eth0_def eth1_def)
  have h: "sizeof_sr_ip_hdr \<le> 28"
    "MIN_IP_HEADER_LENGTH \<le> get_ip_hl (buffer datagram_self_ttl1) 0"
    "cksum (bytes (put16 (buffer datagram_self_ttl1) ip_sum 0) 0
              (GET_IP_HEADER_LENGTH (buffer datagram_self_ttl1) 0))
     = get16 (buffer datagram_self_ttl1) ip_sum"
    "get_ip_v (buffer datagram_self_ttl1) 0 = SUPPORTED_IP_VERSION"
    by (simp_all add: eval_defs datagram_self_ttl1_def)
  have t: "\<not> networkIpDesinationIsUs router_resolved (buffer datagram_self_ttl1)"
    "get8 (buffer datagram_self_ttl1) ip_ttl = 1"
    by (simp_all add: eval_defs datagram_self_ttl1_def networkIpDesinationIsUs_def
        router_resolved_def router_def eth0_def eth1_def)
  have n: "nextHopIpAddress
             (router_resolved\<lparr>ipIdentifyNumber := ipIdentifyNumber router_resolved + 1\<rparr>)
             eth1 = Some 0xAC1000FE"
    "sr_arpcache_lookup
       (cache (router_resolved\<lparr>ipIdentifyNumber := ipIdentifyNumber router_resolved + 1\<rparr>))
       0xAC1000FE
     = Some \<lparr>ent_mac = Mac 0xDD 0 0 0 0 0xFE, ent_ip = 0xAC1000FE, ent_added = 95\<rparr>"
    "sizeof_sr_ethernet_hdr \<le> 70"
    by code_simp+
  have b: "bytes (timeExceededReply host_be router_resolved (buffer datagram_self_ttl1) eth1)
             14 56
          = [0x45, 0, 0, 56, 0, 7, 0x40, 0, 64, 1, 132, 172, 172, 16, 0, 1, 10, 0, 0, 1,
             11, 0, 159, 56, 0xAA, 0xAA, 0xAA, 0xAA,
             0x45, 0, 0, 28, 0, 0, 0, 0, 1, 17, 0xEE, 0x1F, 10, 0, 0, 1, 192, 168, 1, 9,
             0, 53, 0, 53, 0, 8, 0, 0]"
    unfolding timeExceededReply_bytes
    by (simp add: eval_defs datagram_self_ttl1_def router_resolved_def router_def eth1_def
        host_be_def)
  have "networkHandleReceivedIpPacket host_be router_resolved (buffer datagram_self_ttl1) 28 eth1
        = linkArpAndSendPacket host_be
            (router_resolved\<lparr>ipIdentifyNumber := ipIdentifyNumber router_resolved + 1\<rparr>)
            (timeExceededReply host_be router_resolved (buffer datagram_self_ttl1) eth1)
            70 eth1"
    using t by (simp add: networkHandleReceivedIpPacket_valid [OF h] layout_defs)
  with b s show ?thesis
    using linkArpAndSendPacket_hit [OF n, of host_be
          "timeExceededReply host_be router_resolved (buffer datagram_self_ttl1) eth1"]
    by (simp add: router_resolved_def router_def eth1_def)
qed

section \<open>Properties: the next hop\<close>

lemma networkGetPacketRoute_in_table:
  "networkGetPacketRoute E sr packet = Some r \<Longrightarrow> r \<in> set (routing_table sr)"
  by (auto simp: networkGetPacketRoute_find find_Some_iff)

text \<open>
  The interface of a selected route has a route registered for it, so that the lookup of
  the next hop does not come back empty.
\<close>

lemma sr_get_rt_of_selected_route:
  assumes "networkGetPacketRoute E sr packet = Some forwardRoute"
  shows "\<exists>interfaceRoute. sr_get_rt sr (rt_interface forwardRoute) = Some interfaceRoute"
proof (cases "sr_get_rt sr (rt_interface forwardRoute)")
  case None
  with networkGetPacketRoute_in_table [OF assms] show ?thesis
    by (auto simp: sr_get_rt_def find_None_iff)
next
  case (Some interfaceRoute)
  then show ?thesis
    by simp
qed

lemma networkForwardIpPacket_link:
  assumes "networkGetPacketRoute E sr packet = Some forwardRoute"
    and "rt_interface forwardRoute \<noteq> if_name receivedInterface"
    and "sr_get_interface sr (rt_interface forwardRoute) = Some forwardInterface"
  shows "networkForwardIpPacket E sr packet len receivedInterface =
           linkArpAndSendPacket E sr
             (memcpy (malloc E (len + sizeof_sr_ethernet_hdr)) sizeof_sr_ethernet_hdr packet 0 len)
             (len + sizeof_sr_ethernet_hdr) forwardInterface"
  by (simp add: networkForwardIpPacket_def assms Let_def)

text \<open>
  Claim C3, as the code has it: \<open>linkArpAndSendPacket\<close> is given the egress interface
  and not the route, and takes as next hop the gateway of the route that \<open>sr_get_rt\<close>
  returns for the name of that interface. A forwarded datagram is looked up in the ARP
  cache, and on a miss asked for by ARP, under that address. It is the gateway of the
  route selected by longest-prefix match when \<open>sr_get_rt\<close> returns that route.
\<close>

theorem next_hop_of_egress_interface:
  assumes "networkGetPacketRoute E sr packet = Some forwardRoute"
    and "rt_interface forwardRoute \<noteq> if_name receivedInterface"
    and "sr_get_interface sr (rt_interface forwardRoute) = Some forwardInterface"
    and "sr_get_rt sr (if_name forwardInterface) = Some interfaceRoute"
  shows "nextHopIpAddress sr forwardInterface = Some (rt_gw interfaceRoute)
       \<and> (\<forall>entry. sr_arpcache_lookup (cache sr) (rt_gw interfaceRoute) = Some entry
            \<longrightarrow> networkForwardIpPacket E sr packet len receivedInterface
                = Inr (sr, [(mac_bytes (ent_mac entry) @ mac_bytes (if_addr forwardInterface)
                             @ [0x08, 0x00] @ bytes packet 0 len, if_name forwardInterface)]))
       \<and> (sr_arpcache_lookup (cache sr) (rt_gw interfaceRoute) = None
            \<and> find (\<lambda>r. req_ip r = rt_gw interfaceRoute) (requests (cache sr)) = None
            \<longrightarrow> (\<exists>sr'. networkForwardIpPacket E sr packet len receivedInterface
                = Inr (sr',
                       [(mac_bytes broadcastEthernetAddress @ mac_bytes (if_addr forwardInterface)
                         @ [0x08, 0x06, 0x00, 0x01, 0x08, 0x00, 6, 4, 0x00, 0x01]
                         @ mac_bytes (if_addr forwardInterface)
                         @ bytes32 (if_ip forwardInterface)
                         @ [0, 0, 0, 0, 0, 0] @ bytes32 (rt_gw interfaceRoute),
                         if_name forwardInterface)])
                \<and> map req_ip (requests (cache sr'))
                    = rt_gw interfaceRoute # map req_ip (requests (cache sr))))
       \<and> (sr_get_rt sr (rt_interface forwardRoute) = Some forwardRoute
            \<longrightarrow> interfaceRoute = forwardRoute)"
proof -
  have name: "if_name forwardInterface = rt_interface forwardRoute"
    using find_Some_holds [OF assms(3) [unfolded sr_get_interface_def]] .
  have hop: "nextHopIpAddress sr forwardInterface = Some (rt_gw interfaceRoute)"
    by (simp add: nextHopIpAddress_def assms(4))
  note link = networkForwardIpPacket_link [OF assms(1-3)]
  show ?thesis
  proof (intro conjI impI allI)
    show "nextHopIpAddress sr forwardInterface = Some (rt_gw interfaceRoute)"
      by (rule hop)
  next
    fix entry
    assume "sr_arpcache_lookup (cache sr) (rt_gw interfaceRoute) = Some entry"
    with hop show "networkForwardIpPacket E sr packet len receivedInterface
                = Inr (sr, [(mac_bytes (ent_mac entry) @ mac_bytes (if_addr forwardInterface)
                             @ [0x08, 0x00] @ bytes packet 0 len, if_name forwardInterface)])"
      by (rule networkForwardIpPacket_sends [OF assms(1-3)])
  next
    assume miss: "sr_arpcache_lookup (cache sr) (rt_gw interfaceRoute) = None
            \<and> find (\<lambda>r. req_ip r = rt_gw interfaceRoute) (requests (cache sr)) = None"
    show "\<exists>sr'. networkForwardIpPacket E sr packet len receivedInterface
                = Inr (sr',
                       [(mac_bytes broadcastEthernetAddress @ mac_bytes (if_addr forwardInterface)
                         @ [0x08, 0x06, 0x00, 0x01, 0x08, 0x00, 6, 4, 0x00, 0x01]
                         @ mac_bytes (if_addr forwardInterface)
                         @ bytes32 (if_ip forwardInterface)
                         @ [0, 0, 0, 0, 0, 0] @ bytes32 (rt_gw interfaceRoute),
                         if_name forwardInterface)])
                \<and> map req_ip (requests (cache sr'))
                    = rt_gw interfaceRoute # map req_ip (requests (cache sr))"
      unfolding link
      using linkArpAndSendPacket_new_request [OF hop, of E _ "len + sizeof_sr_ethernet_hdr"] miss
      by simp
  next
    assume "sr_get_rt sr (rt_interface forwardRoute) = Some forwardRoute"
    with assms(4) name show "interfaceRoute = forwardRoute"
      by simp
  qed
qed

theorem next_hop_of_egress_interface_witness:
  "nextHopIpAddress router_two eth0 = Some 0x0A0000FE
   \<and> networkForwardIpPacket host_be router_two (buffer datagram_ttl2) 28 eth1
     = Inr (router_two,
            [([0xCC, 0, 0, 0, 0, 0xFE, 0xAA, 0, 0, 0, 0, 1, 8, 0,
               0x45, 0, 0, 28, 0, 0, 0, 0, 2, 17, 0xF3, 0x1A, 1, 2, 3, 4, 192, 168, 1, 9,
               0, 53, 0, 53, 0, 8, 0, 0], ''eth0'')])"
proof -
  have h: "networkGetPacketRoute host_be router_two (buffer datagram_ttl2) = Some route_lan"
    "rt_interface route_lan \<noteq> if_name eth1"
    "sr_get_interface router_two (rt_interface route_lan) = Some eth0"
    "sr_get_rt router_two (if_name eth0) = Some route_lan"
    by code_simp+
  have e: "sr_arpcache_lookup (cache router_two) (rt_gw route_lan)
           = Some \<lparr>ent_mac = Mac 0xCC 0 0 0 0 0xFE, ent_ip = 0x0A0000FE, ent_added = 90\<rparr>"
    "rt_gw route_lan = 0x0A0000FE"
    by code_simp+
  have b: "bytes (buffer datagram_ttl2) 0 28 = datagram_ttl2"
    by (simp add: eval_defs datagram_ttl2_def)
  note d = next_hop_of_egress_interface [OF h, of 28]
  show ?thesis
    using d [THEN conjunct1] d [THEN conjunct2, THEN conjunct1, rule_format, OF e(1)]
    by (simp add: e(2) b [unfolded datagram_ttl2_def] datagram_ttl2_def eth0_def)
qed

text \<open>
  With a second route on \<open>eth0\<close>, 192.168.2.0/24 via 10.0.0.253, a datagram for
  192.168.2.9 is matched by that route, and is sent to the MAC of 10.0.0.254, the gateway
  of the first route of \<open>eth0\<close>.
\<close>

theorem next_hop_not_of_selected_route:
  "networkGetPacketRoute host_be router_two (buffer datagram_far) = Some route_far
   \<and> rt_gw route_far = 0x0A0000FD
   \<and> sr_arpcache_lookup (cache router_two) 0x0A0000FD
     = Some \<lparr>ent_mac = Mac 0xEE 0 0 0 0 0xFD, ent_ip = 0x0A0000FD, ent_added = 97\<rparr>
   \<and> sr_arpcache_lookup (cache router_two) 0x0A0000FE
     = Some \<lparr>ent_mac = Mac 0xCC 0 0 0 0 0xFE, ent_ip = 0x0A0000FE, ent_added = 90\<rparr>
   \<and> networkHandleReceivedIpPacket host_be router_two (buffer datagram_far) 28 eth1
     = Inr (router_two,
            [([0xCC, 0, 0, 0, 0, 0xFE, 0xAA, 0, 0, 0, 0, 1, 8, 0,
               0x45, 0, 0, 28, 0, 0, 0, 0, 63, 17, 0x0D, 0x0B, 172, 16, 0, 5, 192, 168, 2, 9,
               0, 53, 0, 53, 0, 8, 0, 0], ''eth0'')])"
proof -
  have r: "networkGetPacketRoute host_be router_two (buffer datagram_far) = Some route_far"
    "rt_interface route_far \<noteq> if_name eth1"
    "sr_get_interface router_two (rt_interface route_far) = Some eth0"
    "nextHopIpAddress router_two eth0 = Some 0x0A0000FE"
    "sr_arpcache_lookup (cache router_two) 0x0A0000FE
     = Some \<lparr>ent_mac = Mac 0xCC 0 0 0 0 0xFE, ent_ip = 0x0A0000FE, ent_added = 90\<rparr>"
    by code_simp+
  have c: "rt_gw route_far = 0x0A0000FD"
    "sr_arpcache_lookup (cache router_two) 0x0A0000FD
     = Some \<lparr>ent_mac = Mac 0xEE 0 0 0 0 0xFD, ent_ip = 0x0A0000FD, ent_added = 97\<rparr>"
    by code_simp+
  have h: "sizeof_sr_ip_hdr \<le> 28"
    "MIN_IP_HEADER_LENGTH \<le> get_ip_hl (buffer datagram_far) 0"
    "cksum (bytes (put16 (buffer datagram_far) ip_sum 0) 0
              (GET_IP_HEADER_LENGTH (buffer datagram_far) 0))
     = get16 (buffer datagram_far) ip_sum"
    "get_ip_v (buffer datagram_far) 0 = SUPPORTED_IP_VERSION"
    by (simp_all add: eval_defs datagram_far_def)
  have t: "\<not> networkIpDesinationIsUs router_two (buffer datagram_far)"
    "get8 (buffer datagram_far) ip_ttl \<noteq> 1"
    by (simp_all add: eval_defs datagram_far_def networkIpDesinationIsUs_def
        router_two_def router_def eth0_def eth1_def)
  have "get8 (buffer datagram_far) ip_ttl - 1 = 63"
    by (simp add: eval_defs datagram_far_def)
  then have b: "bytes (forwardedPacket (buffer datagram_far)) 0 28
           = [0x45, 0, 0, 28, 0, 0, 0, 0, 63, 17, 0x0D, 0x0B, 172, 16, 0, 5, 192, 168, 2, 9,
              0, 53, 0, 53, 0, 8, 0, 0]"
    by (simp add: forwardedPacket_eq eval_defs datagram_far_def)
  have "networkHandleReceivedIpPacket host_be router_two (buffer datagram_far) 28 eth1
        = networkForwardIpPacket host_be router_two (forwardedPacket (buffer datagram_far))
            28 eth1"
    using t by (simp add: networkHandleReceivedIpPacket_valid [OF h] forwardedPacket_eq)
  also have "\<dots> = Inr (router_two,
            [(mac_bytes (ent_mac \<lparr>ent_mac = Mac 0xCC 0 0 0 0 0xFE, ent_ip = 0x0A0000FE,
                                   ent_added = 90\<rparr>)
              @ mac_bytes (if_addr eth0) @ [0x08, 0x00]
              @ bytes (forwardedPacket (buffer datagram_far)) 0 28, if_name eth0)])"
    using r by (intro networkForwardIpPacket_sends)
      (simp_all add: networkGetPacketRoute_forwardedPacket)
  finally show ?thesis
    using r(1,5) c by (simp add: b eth0_def)
qed

section \<open>Properties: the Destination Unreachable packet\<close>

text \<open>
  Claim C5: an emitted Destination Unreachable has version 4, IHL 5, TOS 0, total length
  56, DF, TTL 64, protocol ICMP, the address of the interface of the route to the original
  source as its source, type 3 and the given code, and quotes 28 bytes of the offending
  datagram (\<open>NetworkSendTypeThreeIcmpPacket_reply\<close>). The four bytes between the ICMP
  checksum and the quotation are not zero: the code never writes the fields \<^verbatim>\<open>unused\<close>
  and \<^verbatim>\<open>next_mtu\<close>, and the packet carries what the allocated memory held. Here a UDP
  datagram of 172.16.0.5 to the router's 10.0.0.1 is answered with a Port Unreachable
  whose bytes 38 to 41 are the \<open>0xAA\<close> of the fresh memory.
\<close>

theorem port_unreachable_unused_bytes:
  "networkHandleReceivedIpPacket host_be router_resolved (buffer datagram_udp) 28 eth1
   = Inr (router_resolved\<lparr>ipIdentifyNumber := 8\<rparr>,
          [([0xDD, 0, 0, 0, 0, 0xFE, 0xAA, 0, 0, 0, 0, 2, 8, 0,
             0x45, 0, 0, 56, 0, 7, 0x40, 0, 64, 1, 226, 151, 172, 16, 0, 1, 172, 16, 0, 5,
             3, 3, 167, 53, 0xAA, 0xAA, 0xAA, 0xAA,
             0x45, 0, 0, 28, 0, 0, 0, 0, 64, 17, 0xC4, 0xBB, 172, 16, 0, 5, 10, 0, 0, 1,
             0, 53, 0, 53, 0, 8, 0, 0], ''eth1'')])"
proof -
  have h: "sizeof_sr_ip_hdr \<le> 28"
    "MIN_IP_HEADER_LENGTH \<le> get_ip_hl (buffer datagram_udp) 0"
    "cksum (bytes (put16 (buffer datagram_udp) ip_sum 0) 0
              (GET_IP_HEADER_LENGTH (buffer datagram_udp) 0))
     = get16 (buffer datagram_udp) ip_sum"
    "get_ip_v (buffer datagram_udp) 0 = SUPPORTED_IP_VERSION"
    by (simp_all add: eval_defs datagram_udp_def)
  have t: "networkIpDesinationIsUs router_resolved (buffer datagram_udp)"
    "get8 (buffer datagram_udp) ip_p \<noteq> ip_protocol_icmp"
    "\<not> networkIpSourceIsUs router_resolved (buffer datagram_udp)"
    by (simp_all add: eval_defs datagram_udp_def networkIpDesinationIsUs_def
        networkIpSourceIsUs_def router_resolved_def router_def eth0_def eth1_def)
  have r: "routeLoop (host_order host_be) (get32 (buffer datagram_udp) ip_src)
             (routing_table router_resolved) None (- 1) = Some route_back"
    "sr_get_interface router_resolved (rt_interface route_back) = Some eth1"
    by code_simp+
  have n: "nextHopIpAddress
             (router_resolved\<lparr>ipIdentifyNumber := ipIdentifyNumber router_resolved + 1\<rparr>)
             eth1 = Some 0xAC1000FE"
    "sr_arpcache_lookup
       (cache (router_resolved\<lparr>ipIdentifyNumber := ipIdentifyNumber router_resolved + 1\<rparr>))
       0xAC1000FE
     = Some \<lparr>ent_mac = Mac 0xDD 0 0 0 0 0xFE, ent_ip = 0xAC1000FE, ent_added = 95\<rparr>"
    "sizeof_sr_ethernet_hdr \<le> 70"
    by code_simp+
  from NetworkSendTypeThreeIcmpPacket_reply [OF t(3) r,
      of icmp_code_destination_port_unreachable]
  obtain replyPacket where
    s: "NetworkSendTypeThreeIcmpPacket host_be router_resolved
          icmp_code_destination_port_unreachable (buffer datagram_udp)
        = linkArpAndSendPacket host_be
            (router_resolved\<lparr>ipIdentifyNumber := ipIdentifyNumber router_resolved + 1\<rparr>)
            replyPacket 70 eth1"
    and b: "bytes replyPacket 14 56 =
             [0x45, 0, 0, 56] @ bytes16 (ipIdentifyNumber router_resolved) @ [0x40, 0, 64, 1]
             @ bytes16 (cksum ([0x45, 0, 0, 56] @ bytes16 (ipIdentifyNumber router_resolved)
                               @ [0x40, 0, 64, 1, 0, 0] @ bytes32 (if_ip eth1)
                               @ bytes32 (get32 (buffer datagram_udp) ip_src)))
             @ bytes32 (if_ip eth1) @ bytes32 (get32 (buffer datagram_udp) ip_src)
             @ [3, icmp_code_destination_port_unreachable]
             @ bytes16 (cksum ([3, icmp_code_destination_port_unreachable, 0, 0]
                               @ bytes (fresh_memory host_be) 38 4
                               @ bytes (buffer datagram_udp) 0 28))
             @ bytes (fresh_memory host_be) 38 4 @ bytes (buffer datagram_udp) 0 28"
    by blast
  have e: "bytes replyPacket 14 56 =
            [0x45, 0, 0, 56, 0, 7, 0x40, 0, 64, 1, 226, 151, 172, 16, 0, 1, 172, 16, 0, 5,
             3, 3, 167, 53, 0xAA, 0xAA, 0xAA, 0xAA,
             0x45, 0, 0, 28, 0, 0, 0, 0, 64, 17, 0xC4, 0xBB, 172, 16, 0, 5, 10, 0, 0, 1,
             0, 53, 0, 53, 0, 8, 0, 0]"
    unfolding b
    by (simp add: eval_defs datagram_udp_def router_resolved_def router_def eth1_def
        host_be_def)
  have "networkHandleReceivedIpPacket host_be router_resolved (buffer datagram_udp) 28 eth1
        = NetworkSendTypeThreeIcmpPacket host_be router_resolved
            icmp_code_destination_port_unreachable (buffer datagram_udp)"
    using t by (simp add: networkHandleReceivedIpPacket_valid [OF h])
  with s e show ?thesis
    using linkArpAndSendPacket_hit [OF n, of host_be replyPacket]
    by (simp add: router_resolved_def router_def eth1_def)
qed

section \<open>Properties: a packet with TTL 0\<close>

lemma networkGetPacketRoute_header_rewrite:
  "networkGetPacketRoute E sr (put16 (put8 packet ip_ttl t) ip_sum c)
   = networkGetPacketRoute E sr packet"
  by (simp add: networkGetPacketRoute_def get32_def put16_def put8_def layout_defs)

text \<open>
  Claim C10: a received IPv4 packet that passes the checks, is not addressed to one of
  the router's interfaces and has TTL 0 is not answered with Time Exceeded: the 8-bit
  decrement wraps around to 255, and the packet goes to the forwarding step with TTL 255
  and a checksum recomputed over that header. Where its route leaves through another
  interface whose next hop is resolved, the packet with TTL 255 is the one frame sent.
\<close>

theorem ttl_zero_wraps:
  assumes "sizeof_sr_ip_hdr \<le> len"
    and "MIN_IP_HEADER_LENGTH \<le> get_ip_hl packet 0"
    and "cksum (bytes (put16 packet ip_sum 0) 0 (GET_IP_HEADER_LENGTH packet 0))
         = get16 packet ip_sum"
    and "get_ip_v packet 0 = SUPPORTED_IP_VERSION"
    and "\<not> networkIpDesinationIsUs sr packet"
    and "get8 packet ip_ttl = 0"
  shows "networkHandleReceivedIpPacket E sr packet len interface =
           networkForwardIpPacket E sr
             (put16 (put8 packet ip_ttl 255) ip_sum
                (cksum (bytes (put16 (put8 packet ip_ttl 255) ip_sum 0) 0
                          (GET_IP_HEADER_LENGTH packet 0))))
             len interface
         \<and> get8 (put16 (put8 packet ip_ttl 255) ip_sum
                    (cksum (bytes (put16 (put8 packet ip_ttl 255) ip_sum 0) 0
                              (GET_IP_HEADER_LENGTH packet 0)))) ip_ttl = 255
         \<and> (\<forall>forwardRoute forwardInterface nextHop entry.
                networkGetPacketRoute E sr packet = Some forwardRoute
                \<and> rt_interface forwardRoute \<noteq> if_name interface
                \<and> sr_get_interface sr (rt_interface forwardRoute) = Some forwardInterface
                \<and> nextHopIpAddress sr forwardInterface = Some nextHop
                \<and> sr_arpcache_lookup (cache sr) nextHop = Some entry
                \<longrightarrow> networkHandleReceivedIpPacket E sr packet len interface
                    = Inr (sr, [(mac_bytes (ent_mac entry)
                                 @ mac_bytes (if_addr forwardInterface) @ [0x08, 0x00]
                                 @ bytes (put16 (put8 packet ip_ttl 255) ip_sum
                                            (cksum (bytes (put16 (put8 packet ip_ttl 255)
                                                             ip_sum 0) 0
                                                      (GET_IP_HEADER_LENGTH packet 0))))
                                     0 len,
                                 if_name forwardInterface)])
                  \<and> 8 < length (bytes (put16 (put8 packet ip_ttl 255) ip_sum
                                            (cksum (bytes (put16 (put8 packet ip_ttl 255)
                                                             ip_sum 0) 0
                                                      (GET_IP_HEADER_LENGTH packet 0))))
                                     0 len)
                  \<and> bytes (put16 (put8 packet ip_ttl 255) ip_sum
                               (cksum (bytes (put16 (put8 packet ip_ttl 255) ip_sum 0) 0
                                         (GET_IP_HEADER_LENGTH packet 0))))
                        0 len ! 8 = 255)"
proof -
  let ?p = "put16 (put8 packet ip_ttl 255) ip_sum
              (cksum (bytes (put16 (put8 packet ip_ttl 255) ip_sum 0) 0
                        (GET_IP_HEADER_LENGTH packet 0)))"
  have fwd: "networkHandleReceivedIpPacket E sr packet len interface =
           networkForwardIpPacket E sr ?p len interface"
  proof -
    have m1: "(- 1 :: byte) = 255"
      by simp
    show ?thesis
      using assms(5,6) by (simp add: networkHandleReceivedIpPacket_valid [OF assms(1-4)] m1)
  qed
  have ttl: "get8 (put16 (put8 packet ip_ttl 255) ip_sum v) ip_ttl = 255" for v
    by (simp add: mem_defs layout_defs)
  have len: "8 < len"
    using assms(1) by (simp add: sizeof_sr_ip_hdr_def)
  then have byte: "bytes ?p 0 len ! 8 = 255" "8 < length (bytes ?p 0 len)"
    using ttl [of "cksum (bytes (put16 (put8 packet ip_ttl 255) ip_sum 0) 0
                            (GET_IP_HEADER_LENGTH packet 0))"]
    by (simp_all add: bytes_def get8_def ip_ttl_def)
  have sent: "networkHandleReceivedIpPacket E sr packet len interface
              = Inr (sr, [(mac_bytes (ent_mac entry)
                           @ mac_bytes (if_addr forwardInterface) @ [0x08, 0x00]
                           @ bytes ?p 0 len, if_name forwardInterface)])"
    if r: "networkGetPacketRoute E sr packet = Some forwardRoute
           \<and> rt_interface forwardRoute \<noteq> if_name interface
           \<and> sr_get_interface sr (rt_interface forwardRoute) = Some forwardInterface
           \<and> nextHopIpAddress sr forwardInterface = Some nextHop
           \<and> sr_arpcache_lookup (cache sr) nextHop = Some entry"
    for forwardRoute forwardInterface nextHop entry
    unfolding fwd
  proof (rule networkForwardIpPacket_sends)
    show "networkGetPacketRoute E sr ?p = Some forwardRoute"
      using r by (simp add: networkGetPacketRoute_header_rewrite)
    show "rt_interface forwardRoute \<noteq> if_name interface"
      using r by simp
    show "sr_get_interface sr (rt_interface forwardRoute) = Some forwardInterface"
      using r by simp
    show "nextHopIpAddress sr forwardInterface = Some nextHop"
      using r by simp
    show "sr_arpcache_lookup (cache sr) nextHop = Some entry"
      using r by simp
  qed
  show ?thesis
  proof (intro conjI impI allI)
    show "networkHandleReceivedIpPacket E sr packet len interface =
           networkForwardIpPacket E sr ?p len interface"
      by (rule fwd)
    show "get8 ?p ip_ttl = 255"
      by (rule ttl)
  next
    fix forwardRoute forwardInterface nextHop entry
    assume r: "networkGetPacketRoute E sr packet = Some forwardRoute
           \<and> rt_interface forwardRoute \<noteq> if_name interface
           \<and> sr_get_interface sr (rt_interface forwardRoute) = Some forwardInterface
           \<and> nextHopIpAddress sr forwardInterface = Some nextHop
           \<and> sr_arpcache_lookup (cache sr) nextHop = Some entry"
    show "networkHandleReceivedIpPacket E sr packet len interface
              = Inr (sr, [(mac_bytes (ent_mac entry)
                           @ mac_bytes (if_addr forwardInterface) @ [0x08, 0x00]
                           @ bytes ?p 0 len, if_name forwardInterface)])"
      by (rule sent [OF r])
    show "8 < length (bytes ?p 0 len)"
      by (rule byte(2))
    show "bytes ?p 0 len ! 8 = 255"
      by (rule byte(1))
  qed
qed

theorem ttl_zero_wraps_witness:
  "networkHandleReceivedIpPacket host_be router_resolved (buffer datagram_ttl0) 28 eth1
   = Inr (router_resolved,
          [([0xCC, 0, 0, 0, 0, 0xFE, 0xAA, 0, 0, 0, 0, 1, 8, 0,
             0x45, 0, 0, 28, 0, 0, 0, 0, 255, 17, 0xF6, 0x19, 1, 2, 3, 4, 192, 168, 1, 9,
             0, 53, 0, 53, 0, 8, 0, 0], ''eth0'')])"
proof -
  have h: "sizeof_sr_ip_hdr \<le> 28"
    "MIN_IP_HEADER_LENGTH \<le> get_ip_hl (buffer datagram_ttl0) 0"
    "cksum (bytes (put16 (buffer datagram_ttl0) ip_sum 0) 0
              (GET_IP_HEADER_LENGTH (buffer datagram_ttl0) 0))
     = get16 (buffer datagram_ttl0) ip_sum"
    "get_ip_v (buffer datagram_ttl0) 0 = SUPPORTED_IP_VERSION"
    "\<not> networkIpDesinationIsUs router_resolved (buffer datagram_ttl0)"
    "get8 (buffer datagram_ttl0) ip_ttl = 0"
    by (simp_all add: eval_defs datagram_ttl0_def networkIpDesinationIsUs_def
        router_resolved_def router_def eth0_def eth1_def)
  have r: "networkGetPacketRoute host_be router_resolved (buffer datagram_ttl0)
           = Some route_lan
           \<and> rt_interface route_lan \<noteq> if_name eth1
           \<and> sr_get_interface router_resolved (rt_interface route_lan) = Some eth0
           \<and> nextHopIpAddress router_resolved eth0 = Some 0x0A0000FE
           \<and> sr_arpcache_lookup (cache router_resolved) 0x0A0000FE
             = Some \<lparr>ent_mac = Mac 0xCC 0 0 0 0 0xFE, ent_ip = 0x0A0000FE, ent_added = 90\<rparr>"
    by code_simp
  have e: "bytes (put16 (put8 (buffer datagram_ttl0) ip_ttl 255) ip_sum
               (cksum (bytes (put16 (put8 (buffer datagram_ttl0) ip_ttl 255) ip_sum 0) 0
                         (GET_IP_HEADER_LENGTH (buffer datagram_ttl0) 0)))) 0 28
     = [0x45, 0, 0, 28, 0, 0, 0, 0, 255, 17, 0xF6, 0x19, 1, 2, 3, 4, 192, 168, 1, 9,
        0, 53, 0, 53, 0, 8, 0, 0]"
    by (simp add: eval_defs datagram_ttl0_def)
  show ?thesis
    using ttl_zero_wraps [OF h, of host_be eth1, THEN conjunct2, THEN conjunct2, rule_format,
        OF r, THEN conjunct1]
    by (simp add: e eth0_def)
qed

section \<open>Properties: what the Host Unreachable quotes\<close>

lemma get32_forwardedPacket_src:
  "get32 (forwardedPacket packet) ip_src = get32 packet ip_src"
  by (simp add: forwardedPacket_eq get32_def put16_def put8_def layout_defs)

text \<open>
  The Host Unreachable for the datagram to 8.8.8.8, received on \<open>eth1\<close> by a router
  with the interfaces of the scenarios and the identification counter at 7, whichever
  way the forwarding step comes to send it: it quotes the packet that the handler
  passed to \<open>networkForwardIpPacket\<close>.
\<close>

lemma host_unreachable_quote:
  assumes fresh: "fresh_memory E = (\<lambda>_. 0xAA)"
    and ifs: "if_list sr = [eth0, eth1]"
    and idn: "ipIdentifyNumber sr = 7"
    and unreachable:
      "networkForwardIpPacket E sr (forwardedPacket (buffer datagram_unroutable)) 28 eth1
       = NetworkSendTypeThreeIcmpPacket E sr icmp_code_destination_host_unreachable
           (forwardedPacket (buffer datagram_unroutable))"
    and toward: "routeLoop (host_order E) 0xAC100005 (routing_table sr) None (- 1)
               = Some icmpRoute"
      "sr_get_interface sr (rt_interface icmpRoute) = Some eth1"
    and hop: "nextHopIpAddress sr eth1 = Some 0xAC1000FE"
      "sr_arpcache_lookup (cache sr) 0xAC1000FE
       = Some \<lparr>ent_mac = Mac 0xDD 0 0 0 0 0xFE, ent_ip = 0xAC1000FE, ent_added = 95\<rparr>"
  shows "networkHandleReceivedIpPacket E sr (buffer datagram_unroutable) 28 eth1
     = Inr (sr\<lparr>ipIdentifyNumber := 8\<rparr>,
            [([0xDD, 0, 0, 0, 0, 0xFE, 0xAA, 0, 0, 0, 0, 2, 8, 0,
               0x45, 0, 0, 56, 0, 7, 0x40, 0, 64, 1, 226, 151, 172, 16, 0, 1, 172, 16, 0, 5,
               3, 1, 167, 55, 0xAA, 0xAA, 0xAA, 0xAA,
               0x45, 0, 0, 28, 0, 0, 0, 0, 63, 17, 0xBF, 0xAC, 172, 16, 0, 5, 8, 8, 8, 8,
               0, 53, 0, 53, 0, 8, 0, 0], ''eth1'')])"
proof -
  let ?p = "forwardedPacket (buffer datagram_unroutable)"
  have h: "sizeof_sr_ip_hdr \<le> 28"
    "MIN_IP_HEADER_LENGTH \<le> get_ip_hl (buffer datagram_unroutable) 0"
    "cksum (bytes (put16 (buffer datagram_unroutable) ip_sum 0) 0
              (GET_IP_HEADER_LENGTH (buffer datagram_unroutable) 0))
     = get16 (buffer datagram_unroutable) ip_sum"
    "get_ip_v (buffer datagram_unroutable) 0 = SUPPORTED_IP_VERSION"
    by (simp_all add: eval_defs datagram_unroutable_def)
  have t: "\<not> networkIpDesinationIsUs sr (buffer datagram_unroutable)"
    "get8 (buffer datagram_unroutable) ip_ttl \<noteq> 1"
    by (simp_all add: eval_defs datagram_unroutable_def networkIpDesinationIsUs_def ifs
        eth0_def eth1_def)
  have "get8 (buffer datagram_unroutable) ip_ttl - 1 = 63"
    by (simp add: eval_defs datagram_unroutable_def)
  then have quoted: "bytes ?p 0 28
    = [0x45, 0, 0, 28, 0, 0, 0, 0, 63, 17, 0xBF, 0xAC, 172, 16, 0, 5, 8, 8, 8, 8,
       0, 53, 0, 53, 0, 8, 0, 0]"
    by (simp add: forwardedPacket_eq eval_defs datagram_unroutable_def)
  have src: "get32 ?p ip_src = 0xAC100005"
    unfolding get32_forwardedPacket_src
    by (simp add: eval_defs datagram_unroutable_def)
  have self: "\<not> networkIpSourceIsUs sr ?p"
    unfolding networkIpSourceIsUs_def src
    by (simp add: ifs eth0_def eth1_def)
  have r: "routeLoop (host_order E) (get32 ?p ip_src) (routing_table sr) None (- 1)
           = Some icmpRoute"
    unfolding src by (rule toward(1))
  have n: "nextHopIpAddress (sr\<lparr>ipIdentifyNumber := ipIdentifyNumber sr + 1\<rparr>) eth1
           = Some 0xAC1000FE"
    "sr_arpcache_lookup (cache (sr\<lparr>ipIdentifyNumber := ipIdentifyNumber sr + 1\<rparr>))
       0xAC1000FE
     = Some \<lparr>ent_mac = Mac 0xDD 0 0 0 0 0xFE, ent_ip = 0xAC1000FE, ent_added = 95\<rparr>"
    "sizeof_sr_ethernet_hdr \<le> 70"
    using hop by (simp_all add: nextHopIpAddress_def sr_get_rt_def sizeof_sr_ethernet_hdr_def)
  from NetworkSendTypeThreeIcmpPacket_reply [OF self r toward(2),
      of icmp_code_destination_host_unreachable]
  obtain replyPacket where
    s: "NetworkSendTypeThreeIcmpPacket E sr icmp_code_destination_host_unreachable ?p
        = linkArpAndSendPacket E (sr\<lparr>ipIdentifyNumber := ipIdentifyNumber sr + 1\<rparr>)
            replyPacket 70 eth1"
    and b: "bytes replyPacket 14 56 =
             [0x45, 0, 0, 56] @ bytes16 (ipIdentifyNumber sr) @ [0x40, 0, 64, 1]
             @ bytes16 (cksum ([0x45, 0, 0, 56] @ bytes16 (ipIdentifyNumber sr)
                               @ [0x40, 0, 64, 1, 0, 0] @ bytes32 (if_ip eth1)
                               @ bytes32 (get32 ?p ip_src)))
             @ bytes32 (if_ip eth1) @ bytes32 (get32 ?p ip_src)
             @ [3, icmp_code_destination_host_unreachable]
             @ bytes16 (cksum ([3, icmp_code_destination_host_unreachable, 0, 0]
                               @ bytes (fresh_memory E) 38 4 @ bytes ?p 0 28))
             @ bytes (fresh_memory E) 38 4 @ bytes ?p 0 28"
    by blast
  have e: "bytes replyPacket 14 56 =
            [0x45, 0, 0, 56, 0, 7, 0x40, 0, 64, 1, 226, 151, 172, 16, 0, 1, 172, 16, 0, 5,
             3, 1, 167, 55, 0xAA, 0xAA, 0xAA, 0xAA,
             0x45, 0, 0, 28, 0, 0, 0, 0, 63, 17, 0xBF, 0xAC, 172, 16, 0, 5, 8, 8, 8, 8,
             0, 53, 0, 53, 0, 8, 0, 0]"
    unfolding b src quoted idn fresh
    by (simp add: eval_defs eth1_def)
  have "networkHandleReceivedIpPacket E sr (buffer datagram_unroutable) 28 eth1
        = networkForwardIpPacket E sr ?p 28 eth1"
    using t by (simp add: networkHandleReceivedIpPacket_valid [OF h] forwardedPacket_eq)
  then have "networkHandleReceivedIpPacket E sr (buffer datagram_unroutable) 28 eth1
             = linkArpAndSendPacket E (sr\<lparr>ipIdentifyNumber := ipIdentifyNumber sr + 1\<rparr>)
                 replyPacket 70 eth1"
    using s unreachable by simp
  with e show ?thesis
    using linkArpAndSendPacket_hit [OF n, of E replyPacket]
    by (simp add: idn eth1_def)
qed

text \<open>
  Claim C9: the checks and the restoring of the checksum field are as the claim says
  (\<open>ip_validation\<close>), and Port Unreachable and Time Exceeded quote the packet as received.
  The Host Unreachable of the forwarding step does not: by then the handler has
  decremented the TTL and written a new checksum into the received packet, and
  \<open>networkForwardIpPacket\<close> passes that packet on to be quoted. The datagram for
  8.8.8.8, received with TTL 64 and checksum \<open>be ac\<close>, is quoted with TTL 63 and
  checksum \<open>bf ac\<close>: by the big-endian router of the scenarios, which has no route
  for it, and by a little-endian router whose default route leads back through the
  receiving interface.
\<close>

theorem host_unreachable_quotes_forwarded_header:
  "bytes (buffer datagram_unroutable) 0 28
   = [0x45, 0, 0, 28, 0, 0, 0, 0, 64, 17, 0xBE, 0xAC, 172, 16, 0, 5, 8, 8, 8, 8,
      0, 53, 0, 53, 0, 8, 0, 0]
   \<and> networkHandleReceivedIpPacket host_be router_resolved (buffer datagram_unroutable) 28 eth1
     = Inr (router_resolved\<lparr>ipIdentifyNumber := 8\<rparr>,
            [([0xDD, 0, 0, 0, 0, 0xFE, 0xAA, 0, 0, 0, 0, 2, 8, 0,
               0x45, 0, 0, 56, 0, 7, 0x40, 0, 64, 1, 226, 151, 172, 16, 0, 1, 172, 16, 0, 5,
               3, 1, 167, 55, 0xAA, 0xAA, 0xAA, 0xAA,
               0x45, 0, 0, 28, 0, 0, 0, 0, 63, 17, 0xBF, 0xAC, 172, 16, 0, 5, 8, 8, 8, 8,
               0, 53, 0, 53, 0, 8, 0, 0], ''eth1'')])
   \<and> networkHandleReceivedIpPacket host_le router_default (buffer datagram_unroutable) 28 eth1
     = Inr (router_default\<lparr>ipIdentifyNumber := 8\<rparr>,
            [([0xDD, 0, 0, 0, 0, 0xFE, 0xAA, 0, 0, 0, 0, 2, 8, 0,
               0x45, 0, 0, 56, 0, 7, 0x40, 0, 64, 1, 226, 151, 172, 16, 0, 1, 172, 16, 0, 5,
               3, 1, 167, 55, 0xAA, 0xAA, 0xAA, 0xAA,
               0x45, 0, 0, 28, 0, 0, 0, 0, 63, 17, 0xBF, 0xAC, 172, 16, 0, 5, 8, 8, 8, 8,
               0, 53, 0, 53, 0, 8, 0, 0], ''eth1'')])"
proof (intro conjI)
  show "bytes (buffer datagram_unroutable) 0 28
    = [0x45, 0, 0, 28, 0, 0, 0, 0, 64, 17, 0xBE, 0xAC, 172, 16, 0, 5, 8, 8, 8, 8,
       0, 53, 0, 53, 0, 8, 0, 0]"
    by (simp add: eval_defs datagram_unroutable_def)
next
  have none: "networkGetPacketRoute host_be router_resolved (buffer datagram_unroutable) = None"
    by code_simp
  show "networkHandleReceivedIpPacket host_be router_resolved (buffer datagram_unroutable) 28
          eth1
        = Inr (router_resolved\<lparr>ipIdentifyNumber := 8\<rparr>,
            [([0xDD, 0, 0, 0, 0, 0xFE, 0xAA, 0, 0, 0, 0, 2, 8, 0,
               0x45, 0, 0, 56, 0, 7, 0x40, 0, 64, 1, 226, 151, 172, 16, 0, 1, 172, 16, 0, 5,
               3, 1, 167, 55, 0xAA, 0xAA, 0xAA, 0xAA,
               0x45, 0, 0, 28, 0, 0, 0, 0, 63, 17, 0xBF, 0xAC, 172, 16, 0, 5, 8, 8, 8, 8,
               0, 53, 0, 53, 0, 8, 0, 0], ''eth1'')])"
  proof (rule host_unreachable_quote)
    show "networkForwardIpPacket host_be router_resolved
            (forwardedPacket (buffer datagram_unroutable)) 28 eth1
          = NetworkSendTypeThreeIcmpPacket host_be router_resolved
              icmp_code_destination_host_unreachable
              (forwardedPacket (buffer datagram_unroutable))"
      by (simp add: networkForwardIpPacket_def networkGetPacketRoute_forwardedPacket none)
    show "routeLoop (host_order host_be) 0xAC100005 (routing_table router_resolved) None (- 1)
          = Some route_back"
      by code_simp
    show "fresh_memory host_be = (\<lambda>_. 0xAA)"
      by (simp add: host_be_def)
  qed code_simp+
next
  have default: "networkGetPacketRoute host_le router_default (buffer datagram_unroutable)
              = Some route_default"
    "rt_interface route_default = if_name eth1"
    by code_simp+
  show "networkHandleReceivedIpPacket host_le router_default (buffer datagram_unroutable) 28
          eth1
        = Inr (router_default\<lparr>ipIdentifyNumber := 8\<rparr>,
            [([0xDD, 0, 0, 0, 0, 0xFE, 0xAA, 0, 0, 0, 0, 2, 8, 0,
               0x45, 0, 0, 56, 0, 7, 0x40, 0, 64, 1, 226, 151, 172, 16, 0, 1, 172, 16, 0, 5,
               3, 1, 167, 55, 0xAA, 0xAA, 0xAA, 0xAA,
               0x45, 0, 0, 28, 0, 0, 0, 0, 63, 17, 0xBF, 0xAC, 172, 16, 0, 5, 8, 8, 8, 8,
               0, 53, 0, 53, 0, 8, 0, 0], ''eth1'')])"
  proof (rule host_unreachable_quote)
    show "networkForwardIpPacket host_le router_default
            (forwardedPacket (buffer datagram_unroutable)) 28 eth1
          = NetworkSendTypeThreeIcmpPacket host_le router_default
              icmp_code_destination_host_unreachable
              (forwardedPacket (buffer datagram_unroutable))"
      by (simp add: networkForwardIpPacket_def networkGetPacketRoute_forwardedPacket default)
    show "routeLoop (host_order host_le) 0xAC100005 (routing_table router_default) None (- 1)
          = Some route_default"
      by code_simp
    show "fresh_memory host_le = (\<lambda>_. 0xAA)"
      by (simp add: host_le_def)
  qed code_simp+
qed

section \<open>Properties: the echo reply\<close>

lemma bytes_cong_range:
  "(\<And>i. a \<le> i \<Longrightarrow> i < a + n \<Longrightarrow> m i = m' i) \<Longrightarrow> bytes m a n = bytes m' a n"
  by (simp add: bytes_def)

lemma bytes_put16_above: "a + n \<le> i \<Longrightarrow> bytes (put16 m i x) a n = bytes m a n"
  by (simp add: bytes_def put16_def)

lemma bytes_put8_above: "a + n \<le> i \<Longrightarrow> bytes (put8 m i x) a n = bytes m a n"
  by (simp add: bytes_def put8_def)

lemma bytes_memcpy_above:
  "a + n \<le> d \<Longrightarrow> bytes (memcpy dst d src s l) a n = bytes dst a n"
  by (simp add: bytes_def memcpy_def)

lemma bytes_memcpy_below:
  "d + l \<le> a \<Longrightarrow> bytes (memcpy dst d src s l) a n = bytes dst a n"
  by (simp add: bytes_def memcpy_def)

lemma bytes_put16_at: "bytes (put16 m a x) a 2 = bytes16 x"
  by (simp add: bytes_def put16_def bytes16_def upt_rec)

text \<open>
  The reply of \<open>networkHandleIcmpPacket\<close> to an echo request whose ICMP checksum is
  right, for a header of \<open>hl\<close> bytes, a received length \<open>len\<close> and an ICMP header type
  of \<open>k\<close> bytes: the IP header, the ICMP message of \<open>len - hl\<close> bytes, and what follows
  it in the frame of \<open>len + 14\<close> bytes.
\<close>

lemma networkHandleIcmpPacket_reply:
  assumes hl: "GET_IP_HEADER_LENGTH packet 0 = hl"
    and min: "20 \<le> hl"
    and len: "hl + k \<le> len"
    and k: "sizeof_sr_icmp_hdr E = k" "4 \<le> k"
    and sum: "get16 packet (hl + icmp_sum)
              = cksum (bytes (put16 packet (hl + icmp_sum) 0) hl (len - hl))"
    and type: "get8 packet (hl + icmp_type) = icmp_type_echo_request"
  shows "\<exists>replyPacket.
           networkHandleIcmpPacket E sr packet len interface
           = linkArpAndSendPacket E (sr\<lparr>ipIdentifyNumber := ipIdentifyNumber sr + 1\<rparr>)
               replyPacket (len + 14) interface
         \<and> bytes replyPacket 14 20 =
             [0x45, 0] @ bytes16 (word_of_nat len) @ bytes16 (ipIdentifyNumber sr)
             @ [0x40, 0, 64, 1]
             @ bytes16 (cksum ([0x45, 0] @ bytes16 (word_of_nat len)
                               @ bytes16 (ipIdentifyNumber sr) @ [0x40, 0, 64, 1, 0, 0]
                               @ bytes32 (get32 packet ip_dst)
                               @ bytes32 (get32 packet ip_src)))
             @ bytes32 (get32 packet ip_dst) @ bytes32 (get32 packet ip_src)
         \<and> bytes replyPacket 34 (len - hl) =
             [0, 0]
             @ bytes16 (cksum ([0, 0, 0, 0] @ bytes (fresh_memory E) 38 (k - 4)
                               @ bytes packet (hl + k) (len - hl - k)))
             @ bytes (fresh_memory E) 38 (k - 4) @ bytes packet (hl + k) (len - hl - k)
         \<and> bytes replyPacket (34 + (len - hl)) (hl - 20)
           = bytes (fresh_memory E) (34 + (len - hl)) (hl - 20)"
proof -
  define q where "q = put16 packet (hl + icmp_sum) 0"
  define H0 where "H0 =
    put32 (put32 (put16 (put8 (put8 (put16 (put16 (put16 (put8
      ((fresh_memory E)(14 := 0x45)) 15 0) 16 (word_of_nat len)) 18 (ipIdentifyNumber sr))
      20 IP_DF) 22 DEFAULT_TTL) 23 ip_protocol_icmp) 24 0) 26 (get32 packet ip_dst))
      30 (get32 packet ip_src)"
  define H where "H = put16 H0 24 (cksum (bytes H0 14 (GET_IP_HEADER_LENGTH H0 14)))"
  define R' where "R' = memcpy (put16 (put8 (put8 H 34 0) 35 0) 36 0) (34 + k) q (hl + k)
                          (len - hl - k)"
  define R where "R = put16 R' 36 (cksum (bytes R' 34 (len - hl)))"
  have q: "get32 q ip_dst = get32 packet ip_dst" "get32 q ip_src = get32 packet ip_src"
    "(get8 q (hl + icmp_type) = icmp_type_echo_request) = True"
    using min type
    by (simp_all add: q_def get32_def get8_def put16_def layout_defs)
  have il: "nat (int len - int hl) = len - hl"
    "nat (int len - int hl - int k) = len - hl - k"
    "(int len - int hl < int k) = False"
    using len by simp_all
  have sum': "(get16 packet (hl + icmp_sum) \<noteq> cksum (bytes q hl (len - hl))) = False"
    using sum by (simp add: q_def)
  have offs: "sizeof_sr_ethernet_hdr = 14" "sizeof_sr_ip_hdr = 20" "(14 :: nat) + 20 = 34"
    "14 + ip_tos = 15" "14 + ip_len = 16" "14 + ip_id = 18" "14 + ip_off = 20"
    "14 + ip_ttl = 22" "14 + ip_p = 23" "14 + ip_sum = 24" "14 + ip_src = 26"
    "14 + ip_dst = 30" "34 + icmp_type = 34" "34 + icmp_code = 35" "34 + icmp_sum = 36"
    by (simp_all add: layout_defs)
  have vhl: "set_ip_hl (set_ip_v m 14 SUPPORTED_IP_VERSION) 14 MIN_IP_HEADER_LENGTH
             = m(14 := 0x45)" for m
    by (simp add: set_ip_v_hl const_defs)
  have eq: "networkHandleIcmpPacket E sr packet len interface
            = linkArpAndSendPacket E (sr\<lparr>ipIdentifyNumber := ipIdentifyNumber sr + 1\<rparr>)
                R (len + 14) interface"
    unfolding networkHandleIcmpPacket_def Let_def hl q_def [symmetric]
    by (simp only: il k(1) offs vhl malloc_def q sum' icmp_type_echo_reply_def
        R_def R'_def H_def H0_def if_True if_False simp_thms)
  have above: "34 \<le> i \<Longrightarrow> H i = fresh_memory E i" for i
    unfolding H_def H0_def
    by (simp add: put_defs)
  have header: "bytes R 14 20 = bytes H 14 20"
    unfolding R_def R'_def
    by (simp add: bytes_put16_above bytes_put8_above bytes_memcpy_above)
  have "bytes H 14 20 =
          [0x45, 0] @ bytes16 (word_of_nat len) @ bytes16 (ipIdentifyNumber sr)
          @ [0x40, 0, 64, 1]
          @ bytes16 (cksum ([0x45, 0] @ bytes16 (word_of_nat len)
                            @ bytes16 (ipIdentifyNumber sr) @ [0x40, 0, 64, 1, 0, 0]
                            @ bytes32 (get32 packet ip_dst)
                            @ bytes32 (get32 packet ip_src)))
          @ bytes32 (get32 packet ip_dst) @ bytes32 (get32 packet ip_src)"
    unfolding H_def H0_def
    apply (simp add: put_defs bytes_simps layout_defs const_defs bytes16_def bytes32_def
        byte_be32_simps cong: cksum_weak_cong)
    apply (intro conjI arg_cong [where f = hi8] arg_cong [where f = lo8]
        arg_cong [where f = cksum])
     apply (simp_all add: GET_IP_HEADER_LENGTH_def get_ip_hl_def layout_defs const_defs
        put_defs bytes_simps bytes16_def bytes32_def hi8_def lo8_def byte_be32_simps
        cong: cksum_weak_cong)
    done
  note header = header [unfolded this]
  have zeros: "bytes R' 34 4 = [0, 0, 0, 0]"
    unfolding R'_def
    using k(2) by (simp add: memcpy_def put8_def put16_def bytes_simps hi8_def lo8_def)
  have fresh: "bytes R' 38 (k - 4) = bytes (fresh_memory E) 38 (k - 4)"
  proof (rule bytes_cong_range)
    fix i
    assume "38 \<le> i" and "i < 38 + (k - 4)"
    then show "R' i = fresh_memory E i"
      unfolding R'_def
      using k(2) by (simp add: memcpy_def put8_def put16_def above)
  qed
  have payload: "bytes R' (34 + k) (len - hl - k) = bytes packet (hl + k) (len - hl - k)"
    unfolding R'_def q_def
    using k(2) by (simp add: bytes_memcpy bytes_put16_below icmp_sum_def)
  have n_eq: "4 + ((k - 4) + (len - hl - k)) = len - hl"
    using len k(2) by simp
  have e: "(34 :: nat) + 4 = 38" "38 + (k - 4) = 34 + k"
    using k(2) by simp_all
  have "bytes R' 34 (4 + ((k - 4) + (len - hl - k)))
        = [0, 0, 0, 0] @ bytes (fresh_memory E) 38 (k - 4)
          @ bytes packet (hl + k) (len - hl - k)"
    by (simp only: bytes_append e zeros fresh payload)
  then have message: "bytes R' 34 (len - hl)
        = [0, 0, 0, 0] @ bytes (fresh_memory E) 38 (k - 4)
          @ bytes packet (hl + k) (len - hl - k)"
    unfolding n_eq .
  have sum_field: "bytes R 34 4 = [0, 0] @ bytes16 (cksum (bytes R' 34 (len - hl)))"
    using zeros
    unfolding R_def
    by (simp add: put16_def bytes_simps bytes16_def)
  have after: "bytes R 38 n = bytes R' 38 n" for n
    unfolding R_def by (simp add: bytes_put16_below)
  have "bytes R 34 (4 + ((k - 4) + (len - hl - k))) =
             [0, 0]
             @ bytes16 (cksum ([0, 0, 0, 0] @ bytes (fresh_memory E) 38 (k - 4)
                               @ bytes packet (hl + k) (len - hl - k)))
             @ bytes (fresh_memory E) 38 (k - 4) @ bytes packet (hl + k) (len - hl - k)"
    by (simp only: bytes_append [of R 34 4] e sum_field after message
        bytes_append [of R' 38] fresh payload append_assoc)
  then have body: "bytes R 34 (len - hl) =
             [0, 0]
             @ bytes16 (cksum ([0, 0, 0, 0] @ bytes (fresh_memory E) 38 (k - 4)
                               @ bytes packet (hl + k) (len - hl - k)))
             @ bytes (fresh_memory E) 38 (k - 4) @ bytes packet (hl + k) (len - hl - k)"
    unfolding n_eq .
  have tail: "bytes R (34 + (len - hl)) (hl - 20)
              = bytes (fresh_memory E) (34 + (len - hl)) (hl - 20)"
  proof (rule bytes_cong_range)
    fix i
    assume "34 + (len - hl) \<le> i"
    then have "38 \<le> i" "\<not> i < 34 + k + (len - hl - k)"
      using len k(2) by arith+
    then show "R i = fresh_memory E i"
      unfolding R_def R'_def
      by (simp add: memcpy_def put8_def put16_def above)
  qed
  from eq header body tail show ?thesis
    by blast
qed

text \<open>
  Without IP options the reply is the frame of the claim: the header, then the ICMP
  message with type 0, code 0, its checksum, and the request's identifier, sequence
  number and payload.
\<close>

lemma echo_reply_without_options:
  assumes "GET_IP_HEADER_LENGTH packet 0 = 20"
    and "24 \<le> len"
    and "sizeof_sr_icmp_hdr E = 4"
    and "get16 packet (20 + icmp_sum)
         = cksum (bytes (put16 packet (20 + icmp_sum) 0) 20 (len - 20))"
    and "get8 packet (20 + icmp_type) = icmp_type_echo_request"
    and "nextHopIpAddress sr interface = Some nextHop"
    and "sr_arpcache_lookup (cache sr) nextHop = Some entry"
  shows "networkHandleIcmpPacket E sr packet len interface
         = Inr (sr\<lparr>ipIdentifyNumber := ipIdentifyNumber sr + 1\<rparr>,
                [(mac_bytes (ent_mac entry) @ mac_bytes (if_addr interface) @ [0x08, 0x00]
                  @ [0x45, 0] @ bytes16 (word_of_nat len) @ bytes16 (ipIdentifyNumber sr)
                  @ [0x40, 0, 64, 1]
                  @ bytes16 (cksum ([0x45, 0] @ bytes16 (word_of_nat len)
                                    @ bytes16 (ipIdentifyNumber sr) @ [0x40, 0, 64, 1, 0, 0]
                                    @ bytes32 (get32 packet ip_dst)
                                    @ bytes32 (get32 packet ip_src)))
                  @ bytes32 (get32 packet ip_dst) @ bytes32 (get32 packet ip_src)
                  @ [0, 0] @ bytes16 (cksum ([0, 0, 0, 0] @ bytes packet 24 (len - 24)))
                  @ bytes packet 24 (len - 24),
                  if_name interface)])"
proof -
  have k: "20 + 4 \<le> len" "(20 :: nat) \<le> 20" "(4 :: nat) \<le> 4"
    using assms(2) by simp_all
  from networkHandleIcmpPacket_reply [OF assms(1) k(2) k(1) assms(3) k(3) assms(4,5),
      of sr interface]
  obtain replyPacket where
    s: "networkHandleIcmpPacket E sr packet len interface
        = linkArpAndSendPacket E (sr\<lparr>ipIdentifyNumber := ipIdentifyNumber sr + 1\<rparr>)
            replyPacket (len + 14) interface"
    and b1: "bytes replyPacket 14 20 =
             [0x45, 0] @ bytes16 (word_of_nat len) @ bytes16 (ipIdentifyNumber sr)
             @ [0x40, 0, 64, 1]
             @ bytes16 (cksum ([0x45, 0] @ bytes16 (word_of_nat len)
                               @ bytes16 (ipIdentifyNumber sr) @ [0x40, 0, 64, 1, 0, 0]
                               @ bytes32 (get32 packet ip_dst)
                               @ bytes32 (get32 packet ip_src)))
             @ bytes32 (get32 packet ip_dst) @ bytes32 (get32 packet ip_src)"
    and b2: "bytes replyPacket 34 (len - 20) =
             [0, 0]
             @ bytes16 (cksum ([0, 0, 0, 0] @ bytes (fresh_memory E) 38 (4 - 4)
                               @ bytes packet (20 + 4) (len - 20 - 4)))
             @ bytes (fresh_memory E) 38 (4 - 4) @ bytes packet (20 + 4) (len - 20 - 4)"
    by blast
  have "bytes replyPacket 14 (20 + (len - 20))
        = bytes replyPacket 14 20 @ bytes replyPacket (14 + 20) (len - 20)"
    by (simp only: bytes_append)
  moreover have "20 + (len - 20) = len" "len - 20 - 4 = len - 24"
    using assms(2) by simp_all
  ultimately have e: "bytes replyPacket 14 len =
             [0x45, 0] @ bytes16 (word_of_nat len) @ bytes16 (ipIdentifyNumber sr)
             @ [0x40, 0, 64, 1]
             @ bytes16 (cksum ([0x45, 0] @ bytes16 (word_of_nat len)
                               @ bytes16 (ipIdentifyNumber sr) @ [0x40, 0, 64, 1, 0, 0]
                               @ bytes32 (get32 packet ip_dst)
                               @ bytes32 (get32 packet ip_src)))
             @ bytes32 (get32 packet ip_dst) @ bytes32 (get32 packet ip_src)
             @ [0, 0] @ bytes16 (cksum ([0, 0, 0, 0] @ bytes packet 24 (len - 24)))
             @ bytes packet 24 (len - 24)"
    using b1 b2 by (simp add: bytes_zero)
  have n: "nextHopIpAddress (sr\<lparr>ipIdentifyNumber := ipIdentifyNumber sr + 1\<rparr>) interface
           = Some nextHop"
    "sr_arpcache_lookup (cache (sr\<lparr>ipIdentifyNumber := ipIdentifyNumber sr + 1\<rparr>)) nextHop
     = Some entry"
    "sizeof_sr_ethernet_hdr \<le> len + 14"
    using assms(6,7) by (simp_all add: nextHopIpAddress_def sr_get_rt_def
        sizeof_sr_ethernet_hdr_def)
  show ?thesis
    unfolding s linkArpAndSendPacket_hit [OF n]
    by (simp add: e)
qed

text \<open>
  The reply to the echo request with one word of options, on a host whose fresh memory
  holds \<open>0xAA\<close>; the byte order plays no part.
\<close>

lemma echo_options_reply:
  assumes fresh: "fresh_memory E = (\<lambda>_. 0xAA)"
    and size: "sizeof_sr_icmp_hdr E = 4"
  shows "networkHandleReceivedIpPacket E router_resolved (buffer echo_options) 36 eth0
   = Inr (router_resolved\<lparr>ipIdentifyNumber := 8\<rparr>,
          [([0xCC, 0, 0, 0, 0, 0xFE, 0xAA, 0, 0, 0, 0, 1, 8, 0,
             0x45, 0, 0, 36, 0, 7, 0x40, 0, 64, 1, 38, 208, 10, 0, 0, 1, 10, 0, 0, 2,
             0, 0, 0x3B, 0x31, 0, 7, 0, 1, 0x61, 0x62, 0x63, 0x64,
             0xAA, 0xAA, 0xAA, 0xAA], ''eth0'')])"
proof -
  let ?p = "buffer echo_options"
  have h: "sizeof_sr_ip_hdr \<le> 36"
    "MIN_IP_HEADER_LENGTH \<le> get_ip_hl ?p 0"
    "cksum (bytes (put16 ?p ip_sum 0) 0 (GET_IP_HEADER_LENGTH ?p 0)) = get16 ?p ip_sum"
    "get_ip_v ?p 0 = SUPPORTED_IP_VERSION"
    by (simp_all add: eval_defs echo_options_def)
  have t: "networkIpDesinationIsUs router_resolved ?p" "get8 ?p ip_p = ip_protocol_icmp"
    by (simp_all add: eval_defs echo_options_def networkIpDesinationIsUs_def
        router_resolved_def router_def eth0_def eth1_def)
  have i: "GET_IP_HEADER_LENGTH ?p 0 = 24" "(20 :: nat) \<le> 24" "24 + 4 \<le> (36 :: nat)"
    "sizeof_sr_icmp_hdr E = 4" "(4 :: nat) \<le> 4"
    "get16 ?p (24 + icmp_sum) = cksum (bytes (put16 ?p (24 + icmp_sum) 0) 24 (36 - 24))"
    "get8 ?p (24 + icmp_type) = icmp_type_echo_request"
    by (simp_all add: eval_defs echo_options_def size)
  have n: "nextHopIpAddress
             (router_resolved\<lparr>ipIdentifyNumber := ipIdentifyNumber router_resolved + 1\<rparr>)
             eth0 = Some 0x0A0000FE"
    "sr_arpcache_lookup
       (cache (router_resolved\<lparr>ipIdentifyNumber := ipIdentifyNumber router_resolved + 1\<rparr>))
       0x0A0000FE
     = Some \<lparr>ent_mac = Mac 0xCC 0 0 0 0 0xFE, ent_ip = 0x0A0000FE, ent_added = 90\<rparr>"
    "sizeof_sr_ethernet_hdr \<le> 36 + 14"
    by code_simp+
  from networkHandleIcmpPacket_reply [OF i, of router_resolved eth0]
  obtain replyPacket where
    s: "networkHandleIcmpPacket E router_resolved ?p 36 eth0
        = linkArpAndSendPacket E
            (router_resolved\<lparr>ipIdentifyNumber := ipIdentifyNumber router_resolved + 1\<rparr>)
            replyPacket (36 + 14) eth0"
    and b1: "bytes replyPacket 14 20 =
             [0x45, 0] @ bytes16 (word_of_nat 36) @ bytes16 (ipIdentifyNumber router_resolved)
             @ [0x40, 0, 64, 1]
             @ bytes16 (cksum ([0x45, 0] @ bytes16 (word_of_nat 36)
                               @ bytes16 (ipIdentifyNumber router_resolved)
                               @ [0x40, 0, 64, 1, 0, 0]
                               @ bytes32 (get32 ?p ip_dst) @ bytes32 (get32 ?p ip_src)))
             @ bytes32 (get32 ?p ip_dst) @ bytes32 (get32 ?p ip_src)"
    and b2: "bytes replyPacket 34 (36 - 24) =
             [0, 0]
             @ bytes16 (cksum ([0, 0, 0, 0] @ bytes (fresh_memory E) 38 (4 - 4)
                               @ bytes ?p (24 + 4) (36 - 24 - 4)))
             @ bytes (fresh_memory E) 38 (4 - 4) @ bytes ?p (24 + 4) (36 - 24 - 4)"
    and b3: "bytes replyPacket (34 + (36 - 24)) (24 - 20)
             = bytes (fresh_memory E) (34 + (36 - 24)) (24 - 20)"
    by blast
  have e1: "bytes replyPacket 14 20 =
             [0x45, 0, 0, 36, 0, 7, 0x40, 0, 64, 1, 38, 208, 10, 0, 0, 1, 10, 0, 0, 2]"
    unfolding b1
    by (simp add: eval_defs echo_options_def router_resolved_def router_def)
  have e2: "bytes replyPacket 34 12 = [0, 0, 0x3B, 0x31, 0, 7, 0, 1, 0x61, 0x62, 0x63, 0x64]"
    using b2 by (simp add: eval_defs echo_options_def)
  have e3: "bytes replyPacket 46 4 = [0xAA, 0xAA, 0xAA, 0xAA]"
    using b3 by (simp add: eval_defs fresh)
  have "bytes replyPacket 14 (20 + (12 + 4))
        = bytes replyPacket 14 20 @ bytes replyPacket (14 + 20) 12
          @ bytes replyPacket (14 + 20 + 12) 4"
    by (simp only: bytes_append)
  then have e: "bytes replyPacket 14 36 =
            [0x45, 0, 0, 36, 0, 7, 0x40, 0, 64, 1, 38, 208, 10, 0, 0, 1, 10, 0, 0, 2,
             0, 0, 0x3B, 0x31, 0, 7, 0, 1, 0x61, 0x62, 0x63, 0x64, 0xAA, 0xAA, 0xAA, 0xAA]"
    by (simp add: e1 e2 e3)
  have "networkHandleReceivedIpPacket E router_resolved ?p 36 eth0
        = networkHandleIcmpPacket E router_resolved ?p 36 eth0"
    using t by (simp add: networkHandleReceivedIpPacket_valid [OF h])
  with s e show ?thesis
    using linkArpAndSendPacket_hit [OF n, of E replyPacket]
    by (simp add: router_resolved_def router_def eth0_def)
qed

text \<open>
  Claim C6: the reply to an echo request has the request's addresses swapped, TTL 64, DF,
  protocol ICMP, a correct header checksum, and the request's ICMP message from its fifth
  byte on under a new type, code and checksum (\<open>networkHandleIcmpPacket_reply\<close>). It
  always has the 20-byte header without options, but takes its total length, and the
  length of the frame, from the received length: when the request carries IP options,
  the reply's ICMP message is longer than the request's by the length of the options, the
  added bytes lie behind the allocated block, and the ICMP checksum does not cover them.
  Here the request has one word of options and the payload \<open>abcd\<close>; the reply has total
  length 36 and so the payload \<open>abcd\<close> followed by four bytes of fresh memory, with the
  checksum \<open>3b 31\<close> of the first twelve bytes of its ICMP message, whose sixteen bytes
  have the checksum \<open>e5 db\<close>.
\<close>

theorem echo_reply_to_request_with_options:
  "networkHandleReceivedIpPacket host_be router_resolved (buffer echo_options) 36 eth0
   = Inr (router_resolved\<lparr>ipIdentifyNumber := 8\<rparr>,
          [([0xCC, 0, 0, 0, 0, 0xFE, 0xAA, 0, 0, 0, 0, 1, 8, 0,
             0x45, 0, 0, 36, 0, 7, 0x40, 0, 64, 1, 38, 208, 10, 0, 0, 1, 10, 0, 0, 2,
             0, 0, 0x3B, 0x31, 0, 7, 0, 1, 0x61, 0x62, 0x63, 0x64,
             0xAA, 0xAA, 0xAA, 0xAA], ''eth0'')])
   \<and> networkHandleReceivedIpPacket host_le router_resolved (buffer echo_options) 36 eth0
     = Inr (router_resolved\<lparr>ipIdentifyNumber := 8\<rparr>,
          [([0xCC, 0, 0, 0, 0, 0xFE, 0xAA, 0, 0, 0, 0, 1, 8, 0,
             0x45, 0, 0, 36, 0, 7, 0x40, 0, 64, 1, 38, 208, 10, 0, 0, 1, 10, 0, 0, 2,
             0, 0, 0x3B, 0x31, 0, 7, 0, 1, 0x61, 0x62, 0x63, 0x64,
             0xAA, 0xAA, 0xAA, 0xAA], ''eth0'')])
   \<and> cksum [0, 0, 0, 0, 0, 7, 0, 1, 0x61, 0x62, 0x63, 0x64, 0xAA, 0xAA, 0xAA, 0xAA]
     = 0xE5DB"
proof (intro conjI)
  show "networkHandleReceivedIpPacket host_be router_resolved (buffer echo_options) 36 eth0
        = Inr (router_resolved\<lparr>ipIdentifyNumber := 8\<rparr>,
          [([0xCC, 0, 0, 0, 0, 0xFE, 0xAA, 0, 0, 0, 0, 1, 8, 0,
             0x45, 0, 0, 36, 0, 7, 0x40, 0, 64, 1, 38, 208, 10, 0, 0, 1, 10, 0, 0, 2,
             0, 0, 0x3B, 0x31, 0, 7, 0, 1, 0x61, 0x62, 0x63, 0x64,
             0xAA, 0xAA, 0xAA, 0xAA], ''eth0'')])"
    by (rule echo_options_reply) (simp_all add: host_be_def)
  show "networkHandleReceivedIpPacket host_le router_resolved (buffer echo_options) 36 eth0
        = Inr (router_resolved\<lparr>ipIdentifyNumber := 8\<rparr>,
          [([0xCC, 0, 0, 0, 0, 0xFE, 0xAA, 0, 0, 0, 0, 1, 8, 0,
             0x45, 0, 0, 36, 0, 7, 0x40, 0, 64, 1, 38, 208, 10, 0, 0, 1, 10, 0, 0, 2,
             0, 0, 0x3B, 0x31, 0, 7, 0, 1, 0x61, 0x62, 0x63, 0x64,
             0xAA, 0xAA, 0xAA, 0xAA], ''eth0'')])"
    by (rule echo_options_reply) (simp_all add: host_le_def)
  show "cksum [0, 0, 0, 0, 0, 7, 0, 1, 0x61, 0x62, 0x63, 0x64, 0xAA, 0xAA, 0xAA, 0xAA]
        = 0xE5DB"
    by (simp add: eval_defs)
qed

end
